theory Spec2Isabelle
  imports Complex_Main "HOL-Library.Word"
begin

section \<open>Data model\<close>

text \<open>
  The four node classes (\<open>BatchNormNode\<close>, \<open>DBNNode\<close>, \<open>DgradNode\<close>, \<open>RngNode\<close>) work on
  tensor descriptors held through \<open>std::shared_ptr<Tensor_attributes>\<close>. A shared pointer is
  either null or the address of a live descriptor, several roles and several nodes may hold
  the same address, and every setter writes through the pointer. The descriptors therefore
  live in an explicit heap, and a pointer is an optional address.

  Dimensions and strides are \<open>std::vector<int64_t>\<close>: lists of 64-bit words, with the
  arithmetic of the machine (\<open>+\<close>, \<open>-\<close>, \<open>*\<close> wrap around).
\<close>

type_synonym int64_t = "64 word"

text \<open>
  Identifiers (\<open>uid_t\<close>) are only created by the counter of \<open>ICudnn::create_new_uid\<close>, copied
  and compared; they are natural numbers here, a counter that does not wrap during a build.
\<close>

type_synonym uid_t = nat
type_synonym addr = nat
type_synonym ptr = "addr option"

text \<open>
  What is a return value in C++ and what is not: every stage returns an \<open>error_t\<close>, a status
  code with a message. Dereferencing a null pointer, indexing a vector out of range,
  \<open>std::map::at\<close> on a missing key, \<open>std::optional::value\<close> on an empty optional and the
  re-thrown \<open>cudnnException\<close> do not return an \<open>error_t\<close>: they are the \<open>fault\<close>s below.
\<close>

datatype fault =
    NullPointerDereference
  | IndexOutOfBounds
  | OutOfRange
  | BadOptionalAccess
  | CudnnException

datatype error_code_t = OK | ATTRIBUTE_NOT_SET | BACKEND_CONSTRUCTION_FAILURE

type_synonym error_t = "error_code_t \<times> string"

text \<open>
  The enumerations of the library. The sources name \<open>NormFwdPhase_t::NOT_SET\<close> and
  \<open>RngDistribution_t::BERNOULLI\<close>; the other enumerators stand for the remaining values.
\<close>

datatype DataType_t = NOT_SET | FLOAT | HALF | INT64

datatype NormFwdPhase_t = NOT_SET | INFERENCE | TRAINING

datatype RngDistribution_t = NOT_SET | BERNOULLI | UNIFORM | NORMAL

record Tensor_attributes =
  dim :: "int64_t list"
  stride :: "int64_t list"
  data_type :: DataType_t
  is_virtual :: bool
  uid :: uid_t

text \<open>
  The process-wide part of the state: the heap of descriptors and the counter behind
  \<open>ICudnn::create_new_uid\<close>.
\<close>

record store =
  heap :: "addr \<Rightarrow> Tensor_attributes"
  uid_counter :: uid_t

text \<open>The role names of all four attribute bundles (\<open>options.inputs.X\<close>, \<open>options.outputs.Y\<close>, ...).\<close>

datatype role =
    X | SCALE | BIAS | PREV_RUNNING_MEAN | PREV_RUNNING_VAR | EPSILON | MOMENTUM
  | Y | MEAN | INV_VARIANCE | NEXT_RUNNING_MEAN | NEXT_RUNNING_VAR
  | DY | DX | DSCALE | DBIAS
  | W
  | Seed | Offset

record Context =
  context_compute_data_type :: DataType_t

record Attributes =
  name :: string
  inputs :: "role \<Rightarrow> ptr"
  outputs :: "role \<Rightarrow> ptr"
  compute_data_type :: DataType_t

record Batchnorm_attributes = Attributes +
  forward_phase :: NormFwdPhase_t

type_synonym batchnorm_backward_attributes = Attributes

record Conv_dgrad_attributes = Attributes +
  padding :: "int64_t list"
  conv_stride :: "int64_t list"
  dilation :: "int64_t list"

record Rng_attributes = Attributes +
  distribution :: RngDistribution_t
  bernoulli_probability :: "real option"
  seed :: "int64_t option"

text \<open>
  The backend-native tensor handle, as far as the core sees it: the five values handed to
  the tensor factory.
\<close>

datatype Tensor_handle =
  Tensor_handle "int64_t list" "int64_t list" DataType_t uid_t bool

datatype RngDesc = RngDesc RngDistribution_t real

datatype ConvDesc =
  ConvDesc DataType_t nat "int64_t list" "int64_t list" "int64_t list" "int64_t list"

datatype DescriptorType_t =
    OPERATION_NORM_FORWARD_DESCRIPTOR
  | OPERATION_NORM_BACKWARD_DESCRIPTOR
  | OPERATION_CONVOLUTION_BACKWARD_DATA_DESCRIPTOR
  | OPERATION_RNG_DESCRIPTOR

text \<open>The calls made on an \<open>OperationBuilder\<close>, in the order of the chain.\<close>

datatype setter =
    setNormalizationMode_BATCH_NORM
  | setNormFwdPhase NormFwdPhase_t
  | setxDesc Tensor_handle
  | setyDesc Tensor_handle
  | setdxDesc Tensor_handle
  | setdyDesc Tensor_handle
  | setwDesc Tensor_handle
  | setScale Tensor_handle
  | setSavedMeanAndInvVar Tensor_handle Tensor_handle
  | setScaleAndBias Tensor_handle Tensor_handle
  | setPrevRunningMeanAndVar Tensor_handle Tensor_handle
  | setNextRunningMeanAndVar Tensor_handle Tensor_handle
  | setDScaleAndDBias Tensor_handle Tensor_handle
  | setEpsilonTensor Tensor_handle
  | setExpDecayFactorTensor Tensor_handle
  | setcDesc ConvDesc
  | setAlpha real
  | setBeta real
  | setRngDesc RngDesc
  | setSeedDesc Tensor_handle
  | setOffsetDesc Tensor_handle
  | setSeed int64_t

datatype Operation_descriptor = OperationBuilder DescriptorType_t "setter list"

text \<open>An operation record: the built descriptor and \<open>uids_in_operation\<close>.\<close>

type_synonym Operation = "Operation_descriptor \<times> uid_t list"

record 'a INode =
  options :: 'a
  node_context :: Context
  tensors :: "uid_t \<rightharpoonup> Tensor_handle"
  operations :: "Operation list"

text \<open>
  The external collaborators (section 6 of the specification): the tensor factory and the
  descriptor builders accept or reject what they are given.
\<close>

record Backend =
  tensor_accepted :: "Tensor_handle \<Rightarrow> bool"
  rng_desc_accepted :: "RngDesc \<Rightarrow> bool"
  conv_desc_accepted :: "ConvDesc \<Rightarrow> bool"
  operation_accepted :: "Operation_descriptor \<Rightarrow> bool"


section \<open>Helpers of the repository that the four node files call\<close>

definition deref :: "ptr \<Rightarrow> fault + addr" where
  "deref p = (case p of None \<Rightarrow> Inl NullPointerDereference | Some a \<Rightarrow> Inr a)"

definition set_dim :: "addr \<Rightarrow> int64_t list \<Rightarrow> store \<Rightarrow> store" where
  "set_dim a d s = s\<lparr>heap := (heap s)(a := (heap s a)\<lparr>dim := d\<rparr>)\<rparr>"

definition set_stride :: "addr \<Rightarrow> int64_t list \<Rightarrow> store \<Rightarrow> store" where
  "set_stride a d s = s\<lparr>heap := (heap s)(a := (heap s a)\<lparr>stride := d\<rparr>)\<rparr>"

definition set_uid :: "addr \<Rightarrow> uid_t \<Rightarrow> store \<Rightarrow> store" where
  "set_uid a u s = s\<lparr>heap := (heap s)(a := (heap s a)\<lparr>uid := u\<rparr>)\<rparr>"

text \<open>
  Modelled from the spec: \<open>detail::generate_stride\<close> (cudnn_frontend_graph_helpers.h is not
  among the sources). Section 4.2: a packed row-major stride, a pure function of the shape.
\<close>

fun generate_stride :: "int64_t list \<Rightarrow> int64_t list" where
  "generate_stride [] = []"
| "generate_stride (d # ds) = prod_list ds # generate_stride ds"

text \<open>
  Modelled from the spec: \<open>fill_from_context\<close> of an attribute bundle (the attribute classes
  are not among the sources). Section 3: the node inherits the graph-wide compute-type
  default; shapes and strides are not involved.
\<close>

definition fill_from_context :: "Context \<Rightarrow> 'a Attributes_scheme \<Rightarrow> 'a Attributes_scheme" where
  "fill_from_context c a =
     (if compute_data_type a = DataType_t.NOT_SET
      then a\<lparr>compute_data_type := context_compute_data_type c\<rparr> else a)"

text \<open>
  The last three lines of every inference block:
  \<open>if (T->get_stride().empty()) T->set_stride(detail::generate_stride(T->get_dim()));\<close>
\<close>

definition infer_stride :: "addr \<Rightarrow> store \<Rightarrow> store" where
  "infer_stride a s =
     (if stride (heap s a) = [] then set_stride a (generate_stride (dim (heap s a))) s else s)"


text \<open>Statements in sequence on the store: the first fault ends the run.\<close>

fun seq :: "('s \<Rightarrow> fault + 's) list \<Rightarrow> 's \<Rightarrow> fault + 's" where
  "seq [] s = Inr s"
| "seq (f # fs) s = (case f s of Inl e \<Rightarrow> Inl e | Inr s1 \<Rightarrow> seq fs s1)"

definition fault_bind :: "fault + 'a \<Rightarrow> ('a \<Rightarrow> fault + 'b) \<Rightarrow> fault + 'b" where
  "fault_bind m k = (case m of Inl e \<Rightarrow> Inl e | Inr a \<Rightarrow> k a)"

text \<open>
  The block that \<open>BatchNormNode\<close> writes for \<open>Y\<close> and \<open>DBNNode\<close> for \<open>DY\<close> and \<open>DX\<close>:
  \<open>auto d = T->get_dim(); if (d.empty()) { d.resize(x_tensor_dim.size()); T->set_dim(x_tensor_dim); }\<close>
  followed by the stride lines. The resized local copy is not used again.
\<close>

definition infer_dim_of_x :: "int64_t list \<Rightarrow> ptr \<Rightarrow> store \<Rightarrow> fault + store" where
  "infer_dim_of_x x_tensor_dim T s =
     (case deref T of Inl f \<Rightarrow> Inl f | Inr a \<Rightarrow>
        let tensor_dim = dim (heap s a);
            s1 = (if tensor_dim = [] then set_dim a x_tensor_dim s else s)
        in Inr (infer_stride a s1))"

text \<open>
  The lambda \<open>infer_per_channel_tensors\<close>, the same text in \<open>BatchNormNode\<close> and \<open>DBNNode\<close>.
  \<open>tensor_dim[1] = x_tensor_dim[1]\<close> is an unchecked access to both vectors, which have
  \<open>x_tensor_dim.size()\<close> elements at that point.
\<close>

definition infer_per_channel_tensors :: "int64_t list \<Rightarrow> ptr \<Rightarrow> store \<Rightarrow> fault + store" where
  "infer_per_channel_tensors x_tensor_dim T s =
     (case deref T of Inl f \<Rightarrow> Inl f | Inr a \<Rightarrow>
        let tensor_dim = dim (heap s a) in
        case (if tensor_dim = [] then
                let tensor_dim1 = replicate (length x_tensor_dim) (1 :: int64_t) in
                if 1 < length tensor_dim1 \<and> 1 < length x_tensor_dim
                then Inr (set_dim a (tensor_dim1[1 := x_tensor_dim ! 1]) s)
                else Inl IndexOutOfBounds
              else Inr s) of
          Inl f \<Rightarrow> Inl f
        | Inr s1 \<Rightarrow> Inr (infer_stride a s1))"

text \<open>The lambda \<open>infer_scalar_tensors\<close> of \<open>BatchNormNode\<close>.\<close>

definition infer_scalar_tensors :: "int64_t list \<Rightarrow> ptr \<Rightarrow> store \<Rightarrow> fault + store" where
  "infer_scalar_tensors x_tensor_dim T s =
     (case deref T of Inl f \<Rightarrow> Inl f | Inr a \<Rightarrow>
        let tensor_dim = dim (heap s a);
            s1 = (if tensor_dim = [] then set_dim a (replicate (length x_tensor_dim) (1 :: int64_t)) s
                  else s)
        in Inr (infer_stride a s1))"

text \<open>
  Modelled from the spec: \<open>ICudnn::create_new_uid\<close> (not among the sources). Sections 5
  and 9: one process-wide counter, monotonically increasing, never reset during a build.
\<close>

definition create_new_uid :: "store \<Rightarrow> uid_t \<times> store" where
  "create_new_uid s = (Suc (uid_counter s), s\<lparr>uid_counter := Suc (uid_counter s)\<rparr>)"

text \<open>One line of an \<open>assign_uids_node\<close>: \<open>T->set_uid(ICudnn::create_new_uid());\<close>\<close>

definition assign_new_uid :: "ptr \<Rightarrow> store \<Rightarrow> fault + store" where
  "assign_new_uid T s =
     (let (u, s1) = create_new_uid s in
      case deref T of Inl f \<Rightarrow> Inl f | Inr a \<Rightarrow> Inr (set_uid a u s1))"

text \<open>The guarded line of \<open>RngNode\<close>: \<open>if (T) T->set_uid(ICudnn::create_new_uid());\<close>\<close>

definition assign_new_uid_if_present :: "ptr \<Rightarrow> store \<Rightarrow> fault + store" where
  "assign_new_uid_if_present T s = (if T \<noteq> None then assign_new_uid T s else Inr s)"

text \<open>
  Modelled from the spec: \<open>INode::create_cudnn_tensor\<close> (cudnn_frontend_node_interface.h is
  not among the sources). Section 4.1, stage 4: the factory is asked for a handle made of
  shape, stride, data type, identifier and virtuality; the handle is registered under the
  identifier; a rejection is returned as a backend-construction error.
\<close>

definition create_cudnn_tensor ::
  "Backend \<Rightarrow> store \<Rightarrow> ptr \<Rightarrow> 'a INode \<Rightarrow> fault + (error_t \<times> 'a INode)" where
  "create_cudnn_tensor bk s T n =
     (case deref T of Inl f \<Rightarrow> Inl f | Inr a \<Rightarrow>
        let t = heap s a;
            h = Tensor_handle (dim t) (stride t) (data_type t) (uid t) (is_virtual t)
        in if tensor_accepted bk h
           then Inr ((OK, ''''), n\<lparr>tensors := (tensors n)(uid t \<mapsto> h)\<rparr>)
           else Inr ((BACKEND_CONSTRUCTION_FAILURE, ''[cudnn_frontend] ERROR: tensor rejected.''), n))"

text \<open>
  A run of \<open>CHECK_CUDNN_FRONTEND_ERROR(...)\<close> lines: the first status that is not \<open>OK\<close> is
  returned at once.
\<close>

fun check_seq ::
  "('n \<Rightarrow> fault + (error_t \<times> 'n)) list \<Rightarrow> 'n \<Rightarrow> fault + (error_t \<times> 'n)" where
  "check_seq [] n = Inr ((OK, ''''), n)"
| "check_seq (f # fs) n =
     (case f n of
        Inl e \<Rightarrow> Inl e
      | Inr (err, n1) \<Rightarrow> if fst err \<noteq> OK then Inr (err, n1) else check_seq fs n1)"

text \<open>The guarded line of \<open>RngNode::createTensors\<close>.\<close>

definition create_cudnn_tensor_if_present ::
  "Backend \<Rightarrow> store \<Rightarrow> ptr \<Rightarrow> 'a INode \<Rightarrow> fault + (error_t \<times> 'a INode)" where
  "create_cudnn_tensor_if_present bk s T n =
     (if T \<noteq> None then create_cudnn_tensor bk s T n else Inr ((OK, ''''), n))"

text \<open>\<open>*(tensors.at(T->get_uid()))\<close>: \<open>std::map::at\<close> throws on a missing key.\<close>

definition tensors_at :: "'a INode \<Rightarrow> store \<Rightarrow> ptr \<Rightarrow> fault + Tensor_handle" where
  "tensors_at n s T =
     (case deref T of Inl f \<Rightarrow> Inl f | Inr a \<Rightarrow>
        case tensors n (uid (heap s a)) of None \<Rightarrow> Inl OutOfRange | Some h \<Rightarrow> Inr h)"

text \<open>
  The loop that every \<open>createOperations\<close> runs over \<open>tensors_involved_in_operation\<close>:
  \<open>if (tensor && tensor->get_is_virtual() == false) uids_in_operation.push_back(tensor->get_uid());\<close>
\<close>

fun push_real_uids :: "store \<Rightarrow> ptr list \<Rightarrow> uid_t list \<Rightarrow> uid_t list" where
  "push_real_uids s [] uids_in_operation = uids_in_operation"
| "push_real_uids s (tensor # rest) uids_in_operation =
     push_real_uids s rest
       (case tensor of
          None \<Rightarrow> uids_in_operation
        | Some a \<Rightarrow> if is_virtual (heap s a) = False
                    then uids_in_operation @ [uid (heap s a)] else uids_in_operation)"

text \<open>
  \<open>operations.push_back({std::move(op), std::move(uids_in_operation)})\<close> after \<open>.build()\<close>;
  a \<open>cudnnException\<close> of the builder is caught and thrown again.
\<close>

definition build_and_push ::
  "Backend \<Rightarrow> Operation_descriptor \<Rightarrow> ptr list \<Rightarrow> 'a INode \<Rightarrow> store \<Rightarrow>
   fault + (error_t \<times> 'a INode \<times> store)" where
  "build_and_push bk op tensors_involved_in_operation n s =
     (if operation_accepted bk op
      then Inr ((OK, ''''),
                n\<lparr>operations := operations n @ [(op, push_real_uids s tensors_involved_in_operation [])]\<rparr>,
                s)
      else Inl CudnnException)"


section \<open>DgradNode\<close>

text \<open>
  The loop \<open>for (size_t dim = 2; dim < w_tensor_dim.size(); ++dim)\<close> of
  \<open>DgradNode::infer_properties_node\<close>. \<open>operator[]\<close> is unchecked, so a read or write past the
  end of a vector is a fault.
\<close>

function dgrad_spatial_loop ::
  "nat \<Rightarrow> int64_t list \<Rightarrow> int64_t list \<Rightarrow> int64_t list \<Rightarrow> int64_t list \<Rightarrow> int64_t list \<Rightarrow>
   int64_t list \<Rightarrow> fault + int64_t list" where
  "dgrad_spatial_loop d w_tensor_dim dy_tensor_dim pad strd dil dx_tensor_dim =
     (if d < length w_tensor_dim then
        if d < length dx_tensor_dim \<and> d < length dy_tensor_dim \<and> d - 2 < length strd \<and>
           d - 2 < length pad \<and> d - 2 < length dil
        then dgrad_spatial_loop (Suc d) w_tensor_dim dy_tensor_dim pad strd dil
               (dx_tensor_dim[d := (dy_tensor_dim ! d - 1) * strd ! (d - 2) - 2 * pad ! (d - 2) + 1 +
                                   dil ! (d - 2) * (w_tensor_dim ! d - 1)])
        else Inl IndexOutOfBounds
      else Inr dx_tensor_dim)"
  by pat_completeness auto
termination
  by (relation "measure (\<lambda>(d, w, _). length w - d)") auto

declare dgrad_spatial_loop.simps [simp del]

text \<open>The body of \<open>if (dx_tensor_dim.empty()) { ... }\<close> up to \<open>DX->set_dim\<close>.\<close>

definition dgrad_dx_dim ::
  "int64_t list \<Rightarrow> int64_t list \<Rightarrow> int64_t list \<Rightarrow> int64_t list \<Rightarrow> int64_t list \<Rightarrow>
   fault + int64_t list" where
  "dgrad_dx_dim w_tensor_dim dy_tensor_dim pad strd dil =
     (let dx0 = replicate (length w_tensor_dim) (0 :: int64_t) in
      if 0 < length dx0 \<and> 0 < length dy_tensor_dim then
        let dx1 = dx0[0 := dy_tensor_dim ! 0] in
        if 1 < length dx1 \<and> 1 < length w_tensor_dim then
          let dx2 = dx1[1 := w_tensor_dim ! 1] in
          dgrad_spatial_loop 2 w_tensor_dim dy_tensor_dim pad strd dil dx2
        else Inl IndexOutOfBounds
      else Inl IndexOutOfBounds)"

definition DgradNode_infer_properties_node ::
  "Conv_dgrad_attributes INode \<Rightarrow> store \<Rightarrow> fault + (error_t \<times> Conv_dgrad_attributes INode \<times> store)" where
  "DgradNode_infer_properties_node n s =
     (let n1 = n\<lparr>options := fill_from_context (node_context n) (options n)\<rparr> in
      case deref (inputs (options n1) W) of Inl f \<Rightarrow> Inl f | Inr w \<Rightarrow>
      case deref (inputs (options n1) DY) of Inl f \<Rightarrow> Inl f | Inr dy \<Rightarrow>
      case deref (outputs (options n1) DX) of Inl f \<Rightarrow> Inl f | Inr dx \<Rightarrow>
        let w_tensor_dim = dim (heap s w);
            dy_tensor_dim = dim (heap s dy);
            dx_tensor_dim = dim (heap s dx)
        in
        case (if dx_tensor_dim = [] then
                case dgrad_dx_dim w_tensor_dim dy_tensor_dim (padding (options n1))
                       (conv_stride (options n1)) (dilation (options n1)) of
                  Inl f \<Rightarrow> Inl f
                | Inr d \<Rightarrow> Inr (set_dim dx d s)
              else Inr s) of
          Inl f \<Rightarrow> Inl f
        | Inr s1 \<Rightarrow> Inr ((OK, ''''), n1, infer_stride dx s1))"

definition DgradNode_assign_uids_node ::
  "Conv_dgrad_attributes INode \<Rightarrow> store \<Rightarrow> fault + (error_t \<times> Conv_dgrad_attributes INode \<times> store)" where
  "DgradNode_assign_uids_node n s =
     (case seq [assign_new_uid (inputs (options n) DY),
                assign_new_uid (inputs (options n) W),
                assign_new_uid (outputs (options n) DX)] s of
        Inl f \<Rightarrow> Inl f
      | Inr s1 \<Rightarrow> Inr ((OK, ''''), n, s1))"

definition DgradNode_createTensors ::
  "Backend \<Rightarrow> Conv_dgrad_attributes INode \<Rightarrow> store \<Rightarrow>
   fault + (error_t \<times> Conv_dgrad_attributes INode \<times> store)" where
  "DgradNode_createTensors bk n s =
     (case check_seq [create_cudnn_tensor bk s (outputs (options n) DX),
                      create_cudnn_tensor bk s (inputs (options n) W),
                      create_cudnn_tensor bk s (inputs (options n) DY)] n of
        Inl f \<Rightarrow> Inl f
      | Inr (err, n1) \<Rightarrow> Inr (err, n1, s))"

text \<open>
  \<open>setSpatialStride(spatial_dim_count, v.data())\<close> and its siblings read
  \<open>spatial_dim_count\<close> elements from the array.
\<close>

definition data_prefix :: "nat \<Rightarrow> int64_t list \<Rightarrow> fault + int64_t list" where
  "data_prefix k v = (if k \<le> length v then Inr (take k v) else Inl IndexOutOfBounds)"

definition DgradNode_tensors_involved_in_operation :: "Conv_dgrad_attributes INode \<Rightarrow> ptr list" where
  "DgradNode_tensors_involved_in_operation n =
     [outputs (options n) DX, inputs (options n) W, inputs (options n) DY]"

definition DgradNode_createOperations ::
  "Backend \<Rightarrow> Conv_dgrad_attributes INode \<Rightarrow> store \<Rightarrow>
   fault + (error_t \<times> Conv_dgrad_attributes INode \<times> store)" where
  "DgradNode_createOperations bk n s =
     (let spatial_dim_count = length (padding (options n)) in
      fault_bind (data_prefix spatial_dim_count (conv_stride (options n))) (\<lambda>strd.
      fault_bind (data_prefix spatial_dim_count (padding (options n))) (\<lambda>pre.
      fault_bind (data_prefix spatial_dim_count (padding (options n))) (\<lambda>post.
      fault_bind (data_prefix spatial_dim_count (dilation (options n))) (\<lambda>dil.
        let dgrad_descriptor =
              ConvDesc (compute_data_type (options n)) spatial_dim_count strd pre post dil
        in
        if \<not> conv_desc_accepted bk dgrad_descriptor then Inl CudnnException else
        fault_bind (tensors_at n s (outputs (options n) DX)) (\<lambda>dx.
        fault_bind (tensors_at n s (inputs (options n) W)) (\<lambda>w.
        fault_bind (tensors_at n s (inputs (options n) DY)) (\<lambda>dy.
          build_and_push bk
            (OperationBuilder OPERATION_CONVOLUTION_BACKWARD_DATA_DESCRIPTOR
               [setdxDesc dx, setwDesc w, setdyDesc dy, setcDesc dgrad_descriptor,
                setAlpha 1, setBeta 0])
            (DgradNode_tensors_involved_in_operation n)
            n s))))))))"


section \<open>BatchNormNode\<close>

definition BatchNormNode_infer_properties_node ::
  "Batchnorm_attributes INode \<Rightarrow> store \<Rightarrow> fault + (error_t \<times> Batchnorm_attributes INode \<times> store)" where
  "BatchNormNode_infer_properties_node n s =
     (let n1 = n\<lparr>options := fill_from_context (node_context n) (options n)\<rparr> in
      case deref (inputs (options n1) X) of Inl f \<Rightarrow> Inl f | Inr x \<Rightarrow>
        let x_tensor_dim = dim (heap s x) in
        case seq [infer_dim_of_x x_tensor_dim (outputs (options n1) Y),
                  infer_per_channel_tensors x_tensor_dim (outputs (options n1) MEAN),
                  infer_per_channel_tensors x_tensor_dim (outputs (options n1) INV_VARIANCE),
                  infer_per_channel_tensors x_tensor_dim (outputs (options n1) NEXT_RUNNING_MEAN),
                  infer_per_channel_tensors x_tensor_dim (outputs (options n1) NEXT_RUNNING_VAR),
                  infer_per_channel_tensors x_tensor_dim (inputs (options n1) PREV_RUNNING_MEAN),
                  infer_per_channel_tensors x_tensor_dim (inputs (options n1) PREV_RUNNING_VAR),
                  infer_per_channel_tensors x_tensor_dim (inputs (options n1) SCALE),
                  infer_per_channel_tensors x_tensor_dim (inputs (options n1) BIAS),
                  infer_scalar_tensors x_tensor_dim (inputs (options n1) EPSILON),
                  infer_scalar_tensors x_tensor_dim (inputs (options n1) MOMENTUM)] s of
          Inl f \<Rightarrow> Inl f
        | Inr s1 \<Rightarrow> Inr ((OK, ''''), n1, s1))"

text \<open>
  \<open>validate_node\<close> is a \<open>const\<close> member: it has no assignment, and the node and the store
  come back as they went in.
\<close>

definition BatchNormNode_validate_node ::
  "Batchnorm_attributes INode \<Rightarrow> store \<Rightarrow> fault + (error_t \<times> Batchnorm_attributes INode \<times> store)" where
  "BatchNormNode_validate_node n s =
     (if forward_phase (options n) = NormFwdPhase_t.NOT_SET
      then Inr ((ATTRIBUTE_NOT_SET, ''[cudnn_frontend] ERROR: Forward phase not set of batchnorm node.''), n, s)
      else Inr ((OK, ''''), n, s))"

definition BatchNormNode_assign_uids_node ::
  "Batchnorm_attributes INode \<Rightarrow> store \<Rightarrow> fault + (error_t \<times> Batchnorm_attributes INode \<times> store)" where
  "BatchNormNode_assign_uids_node n s =
     (case seq [assign_new_uid (inputs (options n) X),
                assign_new_uid (inputs (options n) SCALE),
                assign_new_uid (inputs (options n) BIAS),
                assign_new_uid (inputs (options n) PREV_RUNNING_MEAN),
                assign_new_uid (inputs (options n) PREV_RUNNING_VAR),
                assign_new_uid (inputs (options n) EPSILON),
                assign_new_uid (inputs (options n) MOMENTUM),
                assign_new_uid (outputs (options n) Y),
                assign_new_uid (outputs (options n) MEAN),
                assign_new_uid (outputs (options n) INV_VARIANCE),
                assign_new_uid (outputs (options n) NEXT_RUNNING_MEAN),
                assign_new_uid (outputs (options n) NEXT_RUNNING_VAR)] s of
        Inl f \<Rightarrow> Inl f
      | Inr s1 \<Rightarrow> Inr ((OK, ''''), n, s1))"

definition BatchNormNode_createTensors ::
  "Backend \<Rightarrow> Batchnorm_attributes INode \<Rightarrow> store \<Rightarrow>
   fault + (error_t \<times> Batchnorm_attributes INode \<times> store)" where
  "BatchNormNode_createTensors bk n s =
     (case check_seq [create_cudnn_tensor bk s (inputs (options n) X),
                      create_cudnn_tensor bk s (inputs (options n) PREV_RUNNING_MEAN),
                      create_cudnn_tensor bk s (inputs (options n) PREV_RUNNING_VAR),
                      create_cudnn_tensor bk s (inputs (options n) EPSILON),
                      create_cudnn_tensor bk s (inputs (options n) MOMENTUM),
                      create_cudnn_tensor bk s (inputs (options n) SCALE),
                      create_cudnn_tensor bk s (inputs (options n) BIAS),
                      create_cudnn_tensor bk s (outputs (options n) Y),
                      create_cudnn_tensor bk s (outputs (options n) MEAN),
                      create_cudnn_tensor bk s (outputs (options n) INV_VARIANCE),
                      create_cudnn_tensor bk s (outputs (options n) NEXT_RUNNING_MEAN),
                      create_cudnn_tensor bk s (outputs (options n) NEXT_RUNNING_VAR)] n of
        Inl f \<Rightarrow> Inl f
      | Inr (err, n1) \<Rightarrow> Inr (err, n1, s))"

definition BatchNormNode_tensors_involved_in_operation :: "Batchnorm_attributes INode \<Rightarrow> ptr list" where
  "BatchNormNode_tensors_involved_in_operation n =
     [inputs (options n) X,
      inputs (options n) PREV_RUNNING_MEAN,
      inputs (options n) PREV_RUNNING_VAR,
      inputs (options n) EPSILON,
      inputs (options n) MOMENTUM,
      inputs (options n) SCALE,
      inputs (options n) BIAS,
      outputs (options n) Y,
      outputs (options n) MEAN,
      outputs (options n) INV_VARIANCE,
      outputs (options n) NEXT_RUNNING_MEAN,
      outputs (options n) NEXT_RUNNING_VAR]"

definition BatchNormNode_createOperations ::
  "Backend \<Rightarrow> Batchnorm_attributes INode \<Rightarrow> store \<Rightarrow>
   fault + (error_t \<times> Batchnorm_attributes INode \<times> store)" where
  "BatchNormNode_createOperations bk n s =
     fault_bind (tensors_at n s (inputs (options n) X)) (\<lambda>x.
     fault_bind (tensors_at n s (outputs (options n) MEAN)) (\<lambda>mean.
     fault_bind (tensors_at n s (outputs (options n) INV_VARIANCE)) (\<lambda>inv_variance.
     fault_bind (tensors_at n s (inputs (options n) SCALE)) (\<lambda>scale.
     fault_bind (tensors_at n s (inputs (options n) BIAS)) (\<lambda>bias.
     fault_bind (tensors_at n s (inputs (options n) PREV_RUNNING_MEAN)) (\<lambda>prev_running_mean.
     fault_bind (tensors_at n s (inputs (options n) PREV_RUNNING_VAR)) (\<lambda>prev_running_var.
     fault_bind (tensors_at n s (outputs (options n) NEXT_RUNNING_MEAN)) (\<lambda>next_running_mean.
     fault_bind (tensors_at n s (outputs (options n) NEXT_RUNNING_VAR)) (\<lambda>next_running_var.
     fault_bind (tensors_at n s (inputs (options n) EPSILON)) (\<lambda>epsilon.
     fault_bind (tensors_at n s (inputs (options n) MOMENTUM)) (\<lambda>momentum.
     fault_bind (tensors_at n s (outputs (options n) Y)) (\<lambda>y.
       build_and_push bk
         (OperationBuilder OPERATION_NORM_FORWARD_DESCRIPTOR
            [setNormalizationMode_BATCH_NORM,
             setNormFwdPhase (forward_phase (options n)),
             setxDesc x,
             setSavedMeanAndInvVar mean inv_variance,
             setScaleAndBias scale bias,
             setPrevRunningMeanAndVar prev_running_mean prev_running_var,
             setNextRunningMeanAndVar next_running_mean next_running_var,
             setEpsilonTensor epsilon,
             setExpDecayFactorTensor momentum,
             setyDesc y])
         (BatchNormNode_tensors_involved_in_operation n)
         n s))))))))))))"


section \<open>DBNNode\<close>

definition DBNNode_validate_node ::
  "batchnorm_backward_attributes INode \<Rightarrow> store \<Rightarrow>
   fault + (error_t \<times> batchnorm_backward_attributes INode \<times> store)" where
  "DBNNode_validate_node n s =
     (if inputs (options n) MEAN = None \<and> inputs (options n) INV_VARIANCE = None \<and>
         inputs (options n) EPSILON = None
      then Inr ((ATTRIBUTE_NOT_SET,
                 ''[cudnn_frontend] ERROR: Either saved mean/inv_variance or epsilon required.''), n, s)
      else Inr ((OK, ''''), n, s))"

definition DBNNode_infer_properties_node ::
  "batchnorm_backward_attributes INode \<Rightarrow> store \<Rightarrow>
   fault + (error_t \<times> batchnorm_backward_attributes INode \<times> store)" where
  "DBNNode_infer_properties_node n s =
     (let n1 = n\<lparr>options := fill_from_context (node_context n) (options n)\<rparr> in
      case deref (inputs (options n1) X) of Inl f \<Rightarrow> Inl f | Inr x \<Rightarrow>
        let x_tensor_dim = dim (heap s x) in
        case seq [infer_dim_of_x x_tensor_dim (inputs (options n1) DY),
                  infer_dim_of_x x_tensor_dim (outputs (options n1) DX),
                  infer_per_channel_tensors x_tensor_dim (inputs (options n1) MEAN),
                  infer_per_channel_tensors x_tensor_dim (inputs (options n1) INV_VARIANCE),
                  infer_per_channel_tensors x_tensor_dim (inputs (options n1) SCALE),
                  infer_per_channel_tensors x_tensor_dim (outputs (options n1) DSCALE),
                  infer_per_channel_tensors x_tensor_dim (outputs (options n1) DBIAS)] s of
          Inl f \<Rightarrow> Inl f
        | Inr s1 \<Rightarrow> Inr ((OK, ''''), n1, s1))"

definition DBNNode_assign_uids_node ::
  "batchnorm_backward_attributes INode \<Rightarrow> store \<Rightarrow>
   fault + (error_t \<times> batchnorm_backward_attributes INode \<times> store)" where
  "DBNNode_assign_uids_node n s =
     (case seq [assign_new_uid (inputs (options n) X),
                assign_new_uid (inputs (options n) DY),
                assign_new_uid (inputs (options n) SCALE),
                assign_new_uid (inputs (options n) MEAN),
                assign_new_uid (inputs (options n) INV_VARIANCE),
                assign_new_uid (outputs (options n) DX),
                assign_new_uid (outputs (options n) DSCALE),
                assign_new_uid (outputs (options n) DBIAS)] s of
        Inl f \<Rightarrow> Inl f
      | Inr s1 \<Rightarrow> Inr ((OK, ''''), n, s1))"

definition DBNNode_createTensors ::
  "Backend \<Rightarrow> batchnorm_backward_attributes INode \<Rightarrow> store \<Rightarrow>
   fault + (error_t \<times> batchnorm_backward_attributes INode \<times> store)" where
  "DBNNode_createTensors bk n s =
     (case check_seq [create_cudnn_tensor bk s (inputs (options n) X),
                      create_cudnn_tensor bk s (inputs (options n) DY),
                      create_cudnn_tensor bk s (inputs (options n) SCALE),
                      create_cudnn_tensor bk s (inputs (options n) MEAN),
                      create_cudnn_tensor bk s (inputs (options n) INV_VARIANCE),
                      create_cudnn_tensor bk s (outputs (options n) DX),
                      create_cudnn_tensor bk s (outputs (options n) DSCALE),
                      create_cudnn_tensor bk s (outputs (options n) DBIAS)] n of
        Inl f \<Rightarrow> Inl f
      | Inr (err, n1) \<Rightarrow> Inr (err, n1, s))"

definition DBNNode_tensors_involved_in_operation :: "batchnorm_backward_attributes INode \<Rightarrow> ptr list" where
  "DBNNode_tensors_involved_in_operation n =
     [inputs (options n) X,
      inputs (options n) DY,
      inputs (options n) SCALE,
      inputs (options n) MEAN,
      inputs (options n) INV_VARIANCE,
      outputs (options n) DX,
      outputs (options n) DSCALE,
      outputs (options n) DBIAS]"

definition DBNNode_createOperations ::
  "Backend \<Rightarrow> batchnorm_backward_attributes INode \<Rightarrow> store \<Rightarrow>
   fault + (error_t \<times> batchnorm_backward_attributes INode \<times> store)" where
  "DBNNode_createOperations bk n s =
     fault_bind (tensors_at n s (inputs (options n) X)) (\<lambda>x.
     fault_bind (tensors_at n s (inputs (options n) DY)) (\<lambda>dy.
     fault_bind (tensors_at n s (inputs (options n) SCALE)) (\<lambda>scale.
     fault_bind (tensors_at n s (inputs (options n) MEAN)) (\<lambda>mean.
     fault_bind (tensors_at n s (inputs (options n) INV_VARIANCE)) (\<lambda>inv_variance.
     fault_bind (tensors_at n s (outputs (options n) DSCALE)) (\<lambda>dscale.
     fault_bind (tensors_at n s (outputs (options n) DBIAS)) (\<lambda>dbias.
     fault_bind (tensors_at n s (outputs (options n) DX)) (\<lambda>dx.
       build_and_push bk
         (OperationBuilder OPERATION_NORM_BACKWARD_DESCRIPTOR
            [setNormalizationMode_BATCH_NORM,
             setxDesc x,
             setdyDesc dy,
             setScale scale,
             setSavedMeanAndInvVar mean inv_variance,
             setDScaleAndDBias dscale dbias,
             setdxDesc dx])
         (DBNNode_tensors_involved_in_operation n)
         n s))))))))"


section \<open>RngNode\<close>

definition RngNode_validate_node ::
  "Rng_attributes INode \<Rightarrow> store \<Rightarrow> fault + (error_t \<times> Rng_attributes INode \<times> store)" where
  "RngNode_validate_node n s =
     (if outputs (options n) Y = None
      then Inr ((ATTRIBUTE_NOT_SET, ''[cudnn_frontend] ERROR: rng output not set.''), n, s)
      else Inr ((OK, ''''), n, s))"

definition RngNode_assign_uids_node ::
  "Rng_attributes INode \<Rightarrow> store \<Rightarrow> fault + (error_t \<times> Rng_attributes INode \<times> store)" where
  "RngNode_assign_uids_node n s =
     (case seq [assign_new_uid_if_present (inputs (options n) Seed),
                assign_new_uid_if_present (inputs (options n) Offset),
                assign_new_uid (outputs (options n) Y)] s of
        Inl f \<Rightarrow> Inl f
      | Inr s1 \<Rightarrow> Inr ((OK, ''''), n, s1))"

definition RngNode_createTensors ::
  "Backend \<Rightarrow> Rng_attributes INode \<Rightarrow> store \<Rightarrow> fault + (error_t \<times> Rng_attributes INode \<times> store)" where
  "RngNode_createTensors bk n s =
     (case check_seq [create_cudnn_tensor_if_present bk s (inputs (options n) Seed),
                      create_cudnn_tensor_if_present bk s (inputs (options n) Offset),
                      create_cudnn_tensor bk s (outputs (options n) Y)] n of
        Inl f \<Rightarrow> Inl f
      | Inr (err, n1) \<Rightarrow> Inr (err, n1, s))"

definition RngNode_tensors_involved_in_operation :: "Rng_attributes INode \<Rightarrow> ptr list" where
  "RngNode_tensors_involved_in_operation n =
     [inputs (options n) Seed, inputs (options n) Offset, outputs (options n) Y]"

text \<open>\<open>std::optional::value()\<close> throws on an empty optional.\<close>

definition optional_value :: "'a option \<Rightarrow> fault + 'a" where
  "optional_value v = (case v of None \<Rightarrow> Inl BadOptionalAccess | Some a \<Rightarrow> Inr a)"

definition RngNode_createOperations ::
  "Backend \<Rightarrow> Rng_attributes INode \<Rightarrow> store \<Rightarrow> fault + (error_t \<times> Rng_attributes INode \<times> store)" where
  "RngNode_createOperations bk n s =
     (let tensors_involved_in_operation = RngNode_tensors_involved_in_operation n in
      if distribution (options n) = BERNOULLI then
        fault_bind (optional_value (bernoulli_probability (options n))) (\<lambda>probability.
          let rng_descriptor = RngDesc (distribution (options n)) probability in
          if \<not> rng_desc_accepted bk rng_descriptor then Inl CudnnException else
          if inputs (options n) Seed \<noteq> None then
            fault_bind (tensors_at n s (outputs (options n) Y)) (\<lambda>y.
            fault_bind (tensors_at n s (inputs (options n) Seed)) (\<lambda>seed_handle.
            fault_bind (tensors_at n s (inputs (options n) Offset)) (\<lambda>offset_handle.
              build_and_push bk
                (OperationBuilder OPERATION_RNG_DESCRIPTOR
                   [setyDesc y, setRngDesc rng_descriptor,
                    setSeedDesc seed_handle, setOffsetDesc offset_handle])
                tensors_involved_in_operation n s)))
          else
            fault_bind (tensors_at n s (outputs (options n) Y)) (\<lambda>y.
            fault_bind (optional_value (seed (options n))) (\<lambda>seed_value.
              build_and_push bk
                (OperationBuilder OPERATION_RNG_DESCRIPTOR
                   [setyDesc y, setRngDesc rng_descriptor, setSeed seed_value])
                tensors_involved_in_operation n s)))
      else Inr ((OK, ''''), n, s))"


section \<open>The node kinds of a graph\<close>

datatype Node =
    BatchNormNode "Batchnorm_attributes INode"
  | DBNNode "batchnorm_backward_attributes INode"
  | DgradNode "Conv_dgrad_attributes INode"
  | RngNode "Rng_attributes INode"

text \<open>
  \<open>assign_uids_node\<close> through the virtual call; no node kind changes the node itself in this
  stage, so a build threads the store only.
\<close>

fun assign_uids_node :: "Node \<Rightarrow> store \<Rightarrow> fault + store" where
  "assign_uids_node (BatchNormNode n) s =
     (case BatchNormNode_assign_uids_node n s of Inl f \<Rightarrow> Inl f | Inr (_, _, s1) \<Rightarrow> Inr s1)"
| "assign_uids_node (DBNNode n) s =
     (case DBNNode_assign_uids_node n s of Inl f \<Rightarrow> Inl f | Inr (_, _, s1) \<Rightarrow> Inr s1)"
| "assign_uids_node (DgradNode n) s =
     (case DgradNode_assign_uids_node n s of Inl f \<Rightarrow> Inl f | Inr (_, _, s1) \<Rightarrow> Inr s1)"
| "assign_uids_node (RngNode n) s =
     (case RngNode_assign_uids_node n s of Inl f \<Rightarrow> Inl f | Inr (_, _, s1) \<Rightarrow> Inr s1)"

text \<open>The pointers an \<open>assign_uids_node\<close> writes through, in the order of its lines.\<close>

fun assigned_tensors :: "Node \<Rightarrow> ptr list" where
  "assigned_tensors (BatchNormNode n) =
     [inputs (options n) X, inputs (options n) SCALE, inputs (options n) BIAS,
      inputs (options n) PREV_RUNNING_MEAN, inputs (options n) PREV_RUNNING_VAR,
      inputs (options n) EPSILON, inputs (options n) MOMENTUM,
      outputs (options n) Y, outputs (options n) MEAN, outputs (options n) INV_VARIANCE,
      outputs (options n) NEXT_RUNNING_MEAN, outputs (options n) NEXT_RUNNING_VAR]"
| "assigned_tensors (DBNNode n) =
     [inputs (options n) X, inputs (options n) DY, inputs (options n) SCALE,
      inputs (options n) MEAN, inputs (options n) INV_VARIANCE,
      outputs (options n) DX, outputs (options n) DSCALE, outputs (options n) DBIAS]"
| "assigned_tensors (DgradNode n) =
     [inputs (options n) DY, inputs (options n) W, outputs (options n) DX]"
| "assigned_tensors (RngNode n) =
     [inputs (options n) Seed, inputs (options n) Offset, outputs (options n) Y]"

text \<open>The \<open>assign_uids\<close> calls of a build, one node after the other, in the order of the list.\<close>

definition assign_uids_graph :: "Node list \<Rightarrow> store \<Rightarrow> fault + store" where
  "assign_uids_graph ns s = seq (map assign_uids_node ns) s"

text \<open>
  The descriptors that receive an identifier during those calls: the ones some
  \<open>assign_uids_node\<close> line writes through. The \<open>EPSILON\<close> of a \<open>DBNNode\<close> is not among them (its
  \<open>set_uid\<close> line is commented out), nor is what an absent \<open>Seed\<close> or \<open>Offset\<close> would point to.
\<close>

definition numbered :: "Node list \<Rightarrow> addr set" where
  "numbered ns = {a. \<exists>n \<in> set ns. Some a \<in> set (assigned_tensors n)}"

text \<open>
  The descriptors a node refers to: the attribute fields that its member functions name.
  For a \<open>DBNNode\<close> that is one more than \<open>assign_uids_node\<close> writes through: \<open>validate_node\<close>
  reads \<open>EPSILON\<close>.
\<close>

fun referenced_tensors :: "Node \<Rightarrow> ptr list" where
  "referenced_tensors (BatchNormNode n) =
     [inputs (options n) X, inputs (options n) SCALE, inputs (options n) BIAS,
      inputs (options n) PREV_RUNNING_MEAN, inputs (options n) PREV_RUNNING_VAR,
      inputs (options n) EPSILON, inputs (options n) MOMENTUM,
      outputs (options n) Y, outputs (options n) MEAN, outputs (options n) INV_VARIANCE,
      outputs (options n) NEXT_RUNNING_MEAN, outputs (options n) NEXT_RUNNING_VAR]"
| "referenced_tensors (DBNNode n) =
     [inputs (options n) X, inputs (options n) DY, inputs (options n) SCALE,
      inputs (options n) MEAN, inputs (options n) INV_VARIANCE, inputs (options n) EPSILON,
      outputs (options n) DX, outputs (options n) DSCALE, outputs (options n) DBIAS]"
| "referenced_tensors (DgradNode n) =
     [inputs (options n) DY, inputs (options n) W, outputs (options n) DX]"
| "referenced_tensors (RngNode n) =
     [inputs (options n) Seed, inputs (options n) Offset, outputs (options n) Y]"

text \<open>The descriptors that the nodes of a graph refer to.\<close>

definition referenced :: "Node list \<Rightarrow> addr set" where
  "referenced ns = {a. \<exists>n \<in> set ns. Some a \<in> set (referenced_tensors n)}"


section \<open>Role lists used to state the properties\<close>

text \<open>
  The pointers handed to \<open>infer_per_channel_tensors\<close>, in the order of the calls, by
  \<open>BatchNormNode::infer_properties_node\<close> and by \<open>DBNNode::infer_properties_node\<close>.
\<close>

definition BatchNormNode_per_channel_tensors :: "Batchnorm_attributes INode \<Rightarrow> ptr list" where
  "BatchNormNode_per_channel_tensors n =
     [outputs (options n) MEAN, outputs (options n) INV_VARIANCE,
      outputs (options n) NEXT_RUNNING_MEAN, outputs (options n) NEXT_RUNNING_VAR,
      inputs (options n) PREV_RUNNING_MEAN, inputs (options n) PREV_RUNNING_VAR,
      inputs (options n) SCALE, inputs (options n) BIAS]"

definition DBNNode_per_channel_tensors :: "batchnorm_backward_attributes INode \<Rightarrow> ptr list" where
  "DBNNode_per_channel_tensors n =
     [inputs (options n) MEAN, inputs (options n) INV_VARIANCE, inputs (options n) SCALE,
      outputs (options n) DSCALE, outputs (options n) DBIAS]"

text \<open>
  A store keeps what the caller supplied when every shape and every stride that was not
  empty is still the same.
\<close>

definition keeps_supplied :: "store \<Rightarrow> store \<Rightarrow> bool" where
  "keeps_supplied s s' \<longleftrightarrow>
     (\<forall>a. (dim (heap s a) \<noteq> [] \<longrightarrow> dim (heap s' a) = dim (heap s a)) \<and>
          (stride (heap s a) \<noteq> [] \<longrightarrow> stride (heap s' a) = stride (heap s a)))"

text \<open>The shape of a per-channel tensor for a primary input of shape \<open>x_tensor_dim\<close>.\<close>

definition per_channel_dim :: "int64_t list \<Rightarrow> int64_t list" where
  "per_channel_dim x_tensor_dim = (replicate (length x_tensor_dim) 1)[1 := x_tensor_dim ! 1]"

text \<open>The shape found at an address once a stage has returned.\<close>

definition dim_after :: "addr \<Rightarrow> fault + (error_t \<times> 'n \<times> store) \<Rightarrow> fault + int64_t list" where
  "dim_after a r = (case r of Inl f \<Rightarrow> Inl f | Inr (e, n, s) \<Rightarrow> Inr (dim (heap s a)))"

text \<open>
  What a run of \<open>set_uid(create_new_uid())\<close> lines over the descriptors \<open>A\<close> leaves behind:
  the counter has not gone down, every descriptor of \<open>A\<close> holds an identifier created during
  the run, no two of them hold the same one, and the other descriptors hold what they held.
\<close>

definition uids_assigned :: "addr set \<Rightarrow> store \<Rightarrow> store \<Rightarrow> bool" where
  "uids_assigned A s s' \<longleftrightarrow>
     uid_counter s \<le> uid_counter s' \<and>
     (\<forall>a \<in> A. uid_counter s < uid (heap s' a) \<and> uid (heap s' a) \<le> uid_counter s') \<and>
     inj_on (\<lambda>a. uid (heap s' a)) A \<and>
     (\<forall>a. a \<notin> A \<longrightarrow> uid (heap s' a) = uid (heap s a))"

text \<open>The identifier found at an address once the \<open>assign_uids\<close> calls have returned.\<close>

definition uid_after :: "addr \<Rightarrow> fault + store \<Rightarrow> fault + uid_t" where
  "uid_after a r = (case r of Inl f \<Rightarrow> Inl f | Inr s \<Rightarrow> Inr (uid (heap s a)))"

text \<open>The descriptors behind the non-null pointers of a list, in the order of the list.\<close>

fun present :: "ptr list \<Rightarrow> addr list" where
  "present [] = []"
| "present (None # ts) = present ts"
| "present (Some a # ts) = a # present ts"

text \<open>
  The identifiers of the descriptors of a pointer list that are present and not virtual, in
  the order of the list.
\<close>

definition real_uids :: "store \<Rightarrow> ptr list \<Rightarrow> uid_t list" where
  "real_uids s ts =
     map (\<lambda>a. uid (heap s a)) (filter (\<lambda>a. \<not> is_virtual (heap s a)) (present ts))"

text \<open>
  The tensor handles an operation descriptor binds: the handles handed to its builder, in
  the order of the chain.
\<close>

fun setter_handles :: "setter \<Rightarrow> Tensor_handle list" where
  "setter_handles (setxDesc h) = [h]"
| "setter_handles (setyDesc h) = [h]"
| "setter_handles (setdxDesc h) = [h]"
| "setter_handles (setdyDesc h) = [h]"
| "setter_handles (setwDesc h) = [h]"
| "setter_handles (setScale h) = [h]"
| "setter_handles (setSavedMeanAndInvVar h1 h2) = [h1, h2]"
| "setter_handles (setScaleAndBias h1 h2) = [h1, h2]"
| "setter_handles (setPrevRunningMeanAndVar h1 h2) = [h1, h2]"
| "setter_handles (setNextRunningMeanAndVar h1 h2) = [h1, h2]"
| "setter_handles (setDScaleAndDBias h1 h2) = [h1, h2]"
| "setter_handles (setEpsilonTensor h) = [h]"
| "setter_handles (setExpDecayFactorTensor h) = [h]"
| "setter_handles (setSeedDesc h) = [h]"
| "setter_handles (setOffsetDesc h) = [h]"
| "setter_handles setNormalizationMode_BATCH_NORM = []"
| "setter_handles (setNormFwdPhase p) = []"
| "setter_handles (setcDesc c) = []"
| "setter_handles (setAlpha x) = []"
| "setter_handles (setBeta x) = []"
| "setter_handles (setRngDesc r) = []"
| "setter_handles (setSeed v) = []"

fun bound_handles :: "Operation_descriptor \<Rightarrow> Tensor_handle list" where
  "bound_handles (OperationBuilder t setters) = concat (map setter_handles setters)"

text \<open>
  A node to which exactly one operation record has been appended: its identifier list is
  pushed from the pointer list \<open>involved\<close>, and the handles its descriptor binds are the
  handles registered for the pointers of \<open>bound\<close>, all of which are found.
\<close>

definition record_appended ::
  "'a INode \<Rightarrow> store \<Rightarrow> ptr list \<Rightarrow> ptr list \<Rightarrow> 'a INode \<Rightarrow> bool" where
  "record_appended n s involved bound n' \<longleftrightarrow>
     (\<exists>op. n' = n\<lparr>operations := operations n @ [(op, real_uids s involved)]\<rparr> \<and>
           Inr ` set (bound_handles op) = tensors_at n s ` set bound)"

text \<open>The operation records found in a node once a stage has returned.\<close>

definition operations_after ::
  "fault + (error_t \<times> 'a INode \<times> store) \<Rightarrow> fault + Operation list" where
  "operations_after r = (case r of Inl f \<Rightarrow> Inl f | Inr (e, n, s) \<Rightarrow> Inr (operations n))"



section \<open>Concrete nodes and stores\<close>

text \<open>Small inputs on which the theorems below are run.\<close>

definition blank_tensor :: Tensor_attributes where
  "blank_tensor = \<lparr>dim = [], stride = [], data_type = FLOAT, is_virtual = False, uid = 0\<rparr>"

definition store_of :: "(addr \<times> Tensor_attributes) list \<Rightarrow> store" where
  "store_of ts =
     \<lparr>heap = (\<lambda>a. case map_of ts a of None \<Rightarrow> blank_tensor | Some t \<Rightarrow> t), uid_counter = 0\<rparr>"

definition float_context :: Context where
  "float_context = \<lparr>context_compute_data_type = FLOAT\<rparr>"

definition no_tensor :: "role \<Rightarrow> ptr" where
  "no_tensor = (\<lambda>_. None)"

definition dgrad_example :: "Conv_dgrad_attributes INode" where
  "dgrad_example =
     \<lparr>options = \<lparr>name = ''dgrad'',
                  inputs = no_tensor(W := Some 0, DY := Some 1),
                  outputs = no_tensor(DX := Some 2),
                  compute_data_type = DataType_t.NOT_SET,
                  padding = [0, 0], conv_stride = [1, 1], dilation = [1, 1]\<rparr>,
      node_context = float_context, tensors = Map.empty, operations = []\<rparr>"

definition dgrad_example_store :: store where
  "dgrad_example_store =
     store_of [(0, blank_tensor\<lparr>dim := [7, 5, 3, 3]\<rparr>), (1, blank_tensor\<lparr>dim := [2, 7, 10, 11]\<rparr>)]"

definition bn_example :: "Batchnorm_attributes INode" where
  "bn_example =
     \<lparr>options = \<lparr>name = ''bn'',
                  inputs = no_tensor(X := Some 0, SCALE := Some 1, BIAS := Some 2,
                             PREV_RUNNING_MEAN := Some 3, PREV_RUNNING_VAR := Some 4,
                             EPSILON := Some 5, MOMENTUM := Some 6),
                  outputs = no_tensor(Y := Some 7, MEAN := Some 8, INV_VARIANCE := Some 9,
                              NEXT_RUNNING_MEAN := Some 10, NEXT_RUNNING_VAR := Some 11),
                  compute_data_type = DataType_t.NOT_SET,
                  forward_phase = TRAINING\<rparr>,
      node_context = float_context, tensors = Map.empty, operations = []\<rparr>"

text \<open>\<open>X\<close> has a shape; \<open>SCALE\<close> comes with the caller's shape and stride; the rest is unset.\<close>

definition bn_example_store :: store where
  "bn_example_store =
     store_of [(0, blank_tensor\<lparr>dim := [2, 3, 4, 5]\<rparr>),
               (1, blank_tensor\<lparr>dim := [1, 3, 1, 1], stride := [3, 1, 3, 3]\<rparr>)]"

text \<open>The same node with one descriptor in the two roles \<open>Y\<close> and \<open>MEAN\<close>.\<close>

definition bn_shared_example :: "Batchnorm_attributes INode" where
  "bn_shared_example =
     bn_example\<lparr>options := (options bn_example)\<lparr>outputs := (outputs (options bn_example))(MEAN := Some 7)\<rparr>\<rparr>"

definition dbn_example :: "batchnorm_backward_attributes INode" where
  "dbn_example =
     \<lparr>options = \<lparr>name = ''dbn'',
                  inputs = no_tensor(X := Some 0, DY := Some 1, SCALE := Some 2,
                             MEAN := Some 3, INV_VARIANCE := Some 4),
                  outputs = no_tensor(DX := Some 5, DSCALE := Some 6, DBIAS := Some 7),
                  compute_data_type = DataType_t.NOT_SET\<rparr>,
      node_context = float_context, tensors = Map.empty, operations = []\<rparr>"

definition dbn_example_store :: store where
  "dbn_example_store = store_of [(0, blank_tensor\<lparr>dim := [2, 3, 4, 5]\<rparr>)]"

text \<open>A caller that hands one descriptor, with no shape yet, to the roles \<open>DY\<close> and \<open>SCALE\<close>.\<close>

definition dbn_shared_example :: "batchnorm_backward_attributes INode" where
  "dbn_shared_example =
     dbn_example\<lparr>options := (options dbn_example)\<lparr>inputs := (inputs (options dbn_example))(SCALE := Some 1)\<rparr>\<rparr>"

text \<open>A second \<open>DgradNode\<close> whose \<open>DY\<close> is the \<open>DX\<close> of \<open>dgrad_example\<close>.\<close>

definition dgrad_consumer_example :: "Conv_dgrad_attributes INode" where
  "dgrad_consumer_example =
     dgrad_example\<lparr>options := (options dgrad_example)
        \<lparr>inputs := no_tensor(W := Some 3, DY := Some 2), outputs := no_tensor(DX := Some 4)\<rparr>\<rparr>"

definition accept_all :: Backend where
  "accept_all = \<lparr>tensor_accepted = (\<lambda>_. True), rng_desc_accepted = (\<lambda>_. True),
                  conv_desc_accepted = (\<lambda>_. True), operation_accepted = (\<lambda>_. True)\<rparr>"

text \<open>
  An \<open>RngNode\<close> with \<open>Seed\<close>, \<open>Offset\<close> and \<open>Y\<close>, as \<open>assign_uids_node\<close> and \<open>createTensors\<close> leave
  it; \<open>Seed\<close> is a virtual tensor.
\<close>

definition rng_example_store :: store where
  "rng_example_store =
     store_of [(0, blank_tensor\<lparr>dim := [1], stride := [1], data_type := INT64, is_virtual := True, uid := 1\<rparr>),
               (1, blank_tensor\<lparr>dim := [1], stride := [1], data_type := INT64, uid := 2\<rparr>),
               (2, blank_tensor\<lparr>dim := [4, 8], stride := [8, 1], uid := 3\<rparr>)]"

definition rng_example :: "Rng_attributes INode" where
  "rng_example =
     \<lparr>options = \<lparr>name = ''rng'',
                  inputs = no_tensor(Seed := Some 0, Offset := Some 1),
                  outputs = no_tensor(Y := Some 2),
                  compute_data_type = FLOAT,
                  distribution = BERNOULLI, bernoulli_probability = Some (1 / 2), seed = None\<rparr>,
      node_context = float_context,
      tensors = [1 \<mapsto> Tensor_handle [1] [1] INT64 1 True,
                 2 \<mapsto> Tensor_handle [1] [1] INT64 2 False,
                 3 \<mapsto> Tensor_handle [4, 8] [8, 1] FLOAT 3 False],
      operations = []\<rparr>"

text \<open>The same node with a literal seed and no \<open>Seed\<close> and \<open>Offset\<close> tensors.\<close>

definition rng_static_example :: "Rng_attributes INode" where
  "rng_static_example =
     rng_example\<lparr>options := (options rng_example)\<lparr>inputs := no_tensor, seed := Some 42\<rparr>\<rparr>"

text \<open>The same node with \<open>Seed\<close> and without \<open>Offset\<close>.\<close>

definition rng_no_offset_example :: "Rng_attributes INode" where
  "rng_no_offset_example =
     rng_example\<lparr>options := (options rng_example)\<lparr>inputs := no_tensor(Seed := Some 0)\<rparr>\<rparr>"

text \<open>The same node with another distribution.\<close>

definition rng_uniform_example :: "Rng_attributes INode" where
  "rng_uniform_example =
     rng_example\<lparr>options := (options rng_example)\<lparr>distribution := UNIFORM\<rparr>\<rparr>"

text \<open>A \<open>DBNNode\<close> with \<open>EPSILON\<close> and without \<open>MEAN\<close> and \<open>INV_VARIANCE\<close>.\<close>

definition dbn_epsilon_only_example :: "batchnorm_backward_attributes INode" where
  "dbn_epsilon_only_example =
     dbn_example\<lparr>options := (options dbn_example)
        \<lparr>inputs := no_tensor(X := Some 0, DY := Some 1, SCALE := Some 2, EPSILON := Some 8)\<rparr>\<rparr>"

text \<open>\<open>dbn_example\<close> with an \<open>EPSILON\<close> descriptor as well.\<close>

definition dbn_full_example :: "batchnorm_backward_attributes INode" where
  "dbn_full_example =
     dbn_example\<lparr>options := (options dbn_example)
        \<lparr>inputs := (inputs (options dbn_example))(EPSILON := Some 8)\<rparr>\<rparr>"

text \<open>A second \<open>DBNNode\<close>, on descriptors of its own, \<open>EPSILON\<close> among them.\<close>

definition dbn_second_example :: "batchnorm_backward_attributes INode" where
  "dbn_second_example =
     dbn_example\<lparr>options := (options dbn_example)
        \<lparr>inputs := no_tensor(X := Some 10, DY := Some 11, SCALE := Some 12,
                     MEAN := Some 13, INV_VARIANCE := Some 14, EPSILON := Some 18),
         outputs := no_tensor(DX := Some 15, DSCALE := Some 16, DBIAS := Some 17)\<rparr>\<rparr>"

text \<open>
  An \<open>RngNode\<close> before \<open>assign_uids_node\<close>: no identifier assigned, no handle registered;
  \<open>Seed\<close> is a virtual tensor.
\<close>

definition rng_fresh_store :: store where
  "rng_fresh_store =
     store_of [(0, blank_tensor\<lparr>dim := [1], stride := [1], data_type := INT64, is_virtual := True\<rparr>),
               (1, blank_tensor\<lparr>dim := [1], stride := [1], data_type := INT64\<rparr>),
               (2, blank_tensor\<lparr>dim := [4, 8], stride := [8, 1]\<rparr>)]"

definition rng_fresh_example :: "Rng_attributes INode" where
  "rng_fresh_example = rng_example\<lparr>tensors := Map.empty\<rparr>"

text \<open>
  An \<open>RngNode\<close> with a literal seed, without \<open>Seed\<close> and with \<open>Offset\<close>, as \<open>assign_uids_node\<close>
  and \<open>createTensors\<close> leave it: \<open>Offset\<close> holds identifier 1 and \<open>Y\<close> identifier 2, and both
  are real tensors.
\<close>

definition rng_static_offset_store :: store where
  "rng_static_offset_store =
     store_of [(1, blank_tensor\<lparr>dim := [1], stride := [1], data_type := INT64, uid := 1\<rparr>),
               (2, blank_tensor\<lparr>dim := [4, 8], stride := [8, 1], uid := 2\<rparr>)]"

definition rng_static_offset_example :: "Rng_attributes INode" where
  "rng_static_offset_example =
     \<lparr>options = \<lparr>name = ''rng'',
                  inputs = no_tensor(Offset := Some 1),
                  outputs = no_tensor(Y := Some 2),
                  compute_data_type = FLOAT,
                  distribution = BERNOULLI, bernoulli_probability = Some (1 / 2), seed = Some 42\<rparr>,
      node_context = float_context,
      tensors = [1 \<mapsto> Tensor_handle [1] [1] INT64 1 False,
                 2 \<mapsto> Tensor_handle [4, 8] [8, 1] FLOAT 2 False],
      operations = []\<rparr>"



section \<open>Basic facts about the helpers\<close>


lemma fill_from_context_fields [simp]:
  "inputs (fill_from_context c a) = inputs a"
  "outputs (fill_from_context c a) = outputs a"
  "name (fill_from_context c a) = name a"
  by (simp_all add: fill_from_context_def)

lemma fill_from_context_dgrad [simp]:
  "padding (fill_from_context c a) = padding a"
  "conv_stride (fill_from_context c a) = conv_stride a"
  "dilation (fill_from_context c a) = dilation a"
  by (simp_all add: fill_from_context_def)

lemma fill_from_context_more [simp]:
  "forward_phase (fill_from_context c b) = forward_phase b"
  "distribution (fill_from_context c r) = distribution r"
  "bernoulli_probability (fill_from_context c r) = bernoulli_probability r"
  "seed (fill_from_context c r) = seed r"
  by (simp_all add: fill_from_context_def)

lemma heap_set_dim [simp]:
  "dim (heap (set_dim a d s) b) = (if b = a then d else dim (heap s b))"
  "stride (heap (set_dim a d s) b) = stride (heap s b)"
  "is_virtual (heap (set_dim a d s) b) = is_virtual (heap s b)"
  "uid (heap (set_dim a d s) b) = uid (heap s b)"
  "uid_counter (set_dim a d s) = uid_counter s"
  by (simp_all add: set_dim_def)

lemma heap_set_stride [simp]:
  "dim (heap (set_stride a d s) b) = dim (heap s b)"
  "stride (heap (set_stride a d s) b) = (if b = a then d else stride (heap s b))"
  "is_virtual (heap (set_stride a d s) b) = is_virtual (heap s b)"
  "uid (heap (set_stride a d s) b) = uid (heap s b)"
  "uid_counter (set_stride a d s) = uid_counter s"
  by (simp_all add: set_stride_def)

lemma heap_infer_stride [simp]:
  "dim (heap (infer_stride a s) b) = dim (heap s b)"
  "is_virtual (heap (infer_stride a s) b) = is_virtual (heap s b)"
  "uid (heap (infer_stride a s) b) = uid (heap s b)"
  "uid_counter (infer_stride a s) = uid_counter s"
  by (simp_all add: infer_stride_def)

lemma stride_infer_stride:
  "stride (heap (infer_stride a s) b) =
     (if b = a \<and> stride (heap s a) = [] then generate_stride (dim (heap s a)) else stride (heap s b))"
  by (simp add: infer_stride_def)

lemma deref_simps [simp]:
  "deref None = Inl NullPointerDereference"
  "deref (Some a) = Inr a"
  by (simp_all add: deref_def)


section \<open>The shape inferred by DgradNode\<close>


lemma dgrad_spatial_loop_Inr:
  "dgrad_spatial_loop d w dy pad strd dil dx = Inr r \<Longrightarrow>
     length r = length dx \<and> (\<forall>i<d. r ! i = dx ! i) \<and>
     (\<forall>i. d \<le> i \<and> i < length w \<longrightarrow>
        r ! i = (dy ! i - 1) * strd ! (i - 2) - 2 * pad ! (i - 2) + 1 + dil ! (i - 2) * (w ! i - 1))"
proof (induction d w dy pad strd dil dx rule: dgrad_spatial_loop.induct)
  case (1 d w dy pad strd dil dx)
  note eq = dgrad_spatial_loop.simps[of d w dy pad strd dil dx]
  show ?case
  proof (cases "d < length w")
    case False
    with "1.prems" eq have "r = dx" by simp
    with False show ?thesis by auto
  next
    case True
    let ?ok = "d < length dx \<and> d < length dy \<and> d - 2 < length strd \<and> d - 2 < length pad \<and> d - 2 < length dil"
    let ?v = "(dy ! d - 1) * strd ! (d - 2) - 2 * pad ! (d - 2) + 1 + dil ! (d - 2) * (w ! d - 1)"
    from True "1.prems" eq have ok: ?ok by (simp split: if_splits)
    from True ok "1.prems" eq have rec: "dgrad_spatial_loop (Suc d) w dy pad strd dil (dx[d := ?v]) = Inr r"
      by simp
    from "1.IH"[OF True ok rec]
    have len: "length r = length dx"
      and low: "\<forall>i<Suc d. r ! i = (dx[d := ?v]) ! i"
      and high: "\<forall>i. Suc d \<le> i \<and> i < length w \<longrightarrow>
        r ! i = (dy ! i - 1) * strd ! (i - 2) - 2 * pad ! (i - 2) + 1 + dil ! (i - 2) * (w ! i - 1)"
      by simp_all
    have l1: "\<forall>i<d. r ! i = dx ! i" using low by auto
    have rd: "r ! d = ?v" using low ok by auto
    have "\<forall>i. d \<le> i \<and> i < length w \<longrightarrow>
        r ! i = (dy ! i - 1) * strd ! (i - 2) - 2 * pad ! (i - 2) + 1 + dil ! (i - 2) * (w ! i - 1)"
    proof (intro allI impI)
      fix i assume i: "d \<le> i \<and> i < length w"
      show "r ! i = (dy ! i - 1) * strd ! (i - 2) - 2 * pad ! (i - 2) + 1 + dil ! (i - 2) * (w ! i - 1)"
      proof (cases "i = d")
        case True
        with rd show ?thesis by simp
      next
        case False
        with i have "Suc d \<le> i \<and> i < length w" by simp
        with high show ?thesis by blast
      qed
    qed
    with len l1 show ?thesis by blast
  qed
qed

lemma dgrad_spatial_loop_total:
  "length dx = length w \<Longrightarrow> length w \<le> length dy \<Longrightarrow> 2 \<le> d \<Longrightarrow>
   length w - 2 \<le> length strd \<Longrightarrow> length w - 2 \<le> length pad \<Longrightarrow> length w - 2 \<le> length dil \<Longrightarrow>
   \<exists>r. dgrad_spatial_loop d w dy pad strd dil dx = Inr r"
proof (induction d w dy pad strd dil dx rule: dgrad_spatial_loop.induct)
  case (1 d w dy pad strd dil dx)
  note eq = dgrad_spatial_loop.simps[of d w dy pad strd dil dx]
  show ?case
  proof (cases "d < length w")
    case False
    then show ?thesis using eq by simp
  next
    case True
    with "1.prems" have ok: "d < length dx \<and> d < length dy \<and> d - 2 < length strd \<and> d - 2 < length pad \<and> d - 2 < length dil"
      by auto
    from "1.IH"[OF True ok] "1.prems" True ok show ?thesis using eq by simp
  qed
qed

lemma dgrad_dx_dim_Inr:
  assumes "dgrad_dx_dim w dy pad strd dil = Inr r"
  shows "length r = length w" "r ! 0 = dy ! 0" "r ! 1 = w ! 1"
    "\<forall>i. 2 \<le> i \<and> i < length w \<longrightarrow>
        r ! i = (dy ! i - 1) * strd ! (i - 2) - 2 * pad ! (i - 2) + 1 + dil ! (i - 2) * (w ! i - 1)"
    "2 \<le> length w" "0 < length dy"
proof -
  from assms have w2: "1 < length w" and dy0: "0 < length dy"
    by (auto simp: dgrad_dx_dim_def Let_def split: if_splits)
  from assms w2 dy0 have loop:
    "dgrad_spatial_loop 2 w dy pad strd dil ((replicate (length w) 0)[0 := dy ! 0, 1 := w ! 1]) = Inr r"
    by (auto simp: dgrad_dx_dim_def Let_def split: if_splits)
  note P = dgrad_spatial_loop_Inr[OF loop]
  from P show "length r = length w" by simp
  from w2 have w0: "0 < length w" by arith
  from P have "r ! 0 = (replicate (length w) 0)[0 := dy ! 0, 1 := w ! 1] ! 0" by simp
  with w0 show "r ! 0 = dy ! 0" by (simp add: nth_list_update)
  from P have "r ! 1 = (replicate (length w) 0)[0 := dy ! 0, 1 := w ! 1] ! 1" by simp
  with w2 show "r ! 1 = w ! 1" by (simp add: nth_list_update)
  from P show "\<forall>i. 2 \<le> i \<and> i < length w \<longrightarrow>
        r ! i = (dy ! i - 1) * strd ! (i - 2) - 2 * pad ! (i - 2) + 1 + dil ! (i - 2) * (w ! i - 1)" by blast
  from w2 show "2 \<le> length w" by simp
  from dy0 show "0 < length dy" .
qed

lemma dgrad_dx_dim_total:
  assumes "2 \<le> length w" "length w \<le> length dy"
   "length w - 2 \<le> length strd" "length w - 2 \<le> length pad" "length w - 2 \<le> length dil"
  shows "\<exists>r. dgrad_dx_dim w dy pad strd dil = Inr r"
proof -
  have "\<exists>r. dgrad_spatial_loop 2 w dy pad strd dil ((replicate (length w) 0)[0 := dy ! 0, 1 := w ! 1]) = Inr r"
    by (rule dgrad_spatial_loop_total) (use assms in simp_all)
  moreover from assms have "w \<noteq> []" "dy \<noteq> []" by auto
  ultimately show ?thesis using assms by (simp add: dgrad_dx_dim_def Let_def)
qed

lemma DgradNode_infer_unfold:
  assumes "inputs (options n) W = Some w" "inputs (options n) DY = Some dy"
    "outputs (options n) DX = Some dx" "dim (heap s dx) = []"
    "dgrad_dx_dim (dim (heap s w)) (dim (heap s dy)) (padding (options n))
       (conv_stride (options n)) (dilation (options n)) = Inr r"
  shows "DgradNode_infer_properties_node n s =
     Inr ((OK, ''''), n\<lparr>options := fill_from_context (node_context n) (options n)\<rparr>,
          infer_stride dx (set_dim dx r s))"
  using assms by (simp add: DgradNode_infer_properties_node_def Let_def)

lemma sint_dgrad_formula:
  fixes a b c d e :: int64_t
  assumes "- (2 ^ 63) \<le> (sint a - 1) * sint b - 2 * sint c + 1 + sint d * (sint e - 1)"
    and "(sint a - 1) * sint b - 2 * sint c + 1 + sint d * (sint e - 1) < 2 ^ 63"
  shows "sint ((a - 1) * b - 2 * c + 1 + d * (e - 1)) =
         (sint a - 1) * sint b - 2 * sint c + 1 + sint d * (sint e - 1)"
proof -
  let ?F = "(sint a - 1) * sint b - 2 * sint c + 1 + sint d * (sint e - 1)"
  have "(word_of_int ?F :: 64 word) = (a - 1) * b - 2 * c + 1 + d * (e - 1)"
    by simp
  moreover have "sint (word_of_int ?F :: 64 word) = signed_take_bit (LENGTH(64) - 1) ?F"
    by (rule sint_sbintrunc')
  moreover have "signed_take_bit (LENGTH(64) - 1) ?F = ?F"
    by (rule signed_take_bit_int_eq_self) (use assms in simp_all)
  ultimately show ?thesis by simp
qed

text \<open>
  Claim C1. When \<open>DX\<close> has no shape and the ranks of \<open>W\<close>, \<open>DY\<close> and of the padding, stride
  and dilation sequences let every access of the loop stay in range,
  \<open>DgradNode::infer_properties_node\<close> returns \<open>OK\<close> and leaves in \<open>DX\<close> a shape of the rank of
  \<open>W\<close> with \<open>DX[0] = DY[0]\<close>, \<open>DX[1] = W[1]\<close> and, for every axis \<open>d \<ge> 2\<close>,
  \<open>DX[d] = (DY[d]-1)*stride[d-2] - 2*padding[d-2] + 1 + dilation[d-2]*(W[d]-1)\<close> in the
  arithmetic of \<open>int64_t\<close>, which is the formula over the integers whenever its integer
  value is an \<open>int64_t\<close>; for \<open>W = [K,C,3,3]\<close>, \<open>DY = [N,K,P,Q]\<close>, stride \<open>[1,1]\<close>, padding
  \<open>[0,0]\<close> and dilation \<open>[1,1]\<close> the shape is \<open>[N, C, P+2, Q+2]\<close>.
\<close>

theorem DgradNode_infers_DX_shape:
  assumes "inputs (options n) W = Some w" "inputs (options n) DY = Some dy"
    and "outputs (options n) DX = Some dx"
    and "dim (heap s dx) = []"
    and "2 \<le> length (dim (heap s w))"
    and "length (dim (heap s w)) \<le> length (dim (heap s dy))"
    and "length (dim (heap s w)) - 2 \<le> length (conv_stride (options n))"
    and "length (dim (heap s w)) - 2 \<le> length (padding (options n))"
    and "length (dim (heap s w)) - 2 \<le> length (dilation (options n))"
  shows "\<exists>n' s'. DgradNode_infer_properties_node n s = Inr ((OK, ''''), n', s') \<and>
      dim (heap s' w) = dim (heap s w) \<and> dim (heap s' dy) = dim (heap s dy) \<and>
      length (dim (heap s' dx)) = length (dim (heap s' w)) \<and>
      dim (heap s' dx) ! 0 = dim (heap s' dy) ! 0 \<and>
      dim (heap s' dx) ! 1 = dim (heap s' w) ! 1 \<and>
      (\<forall>d. 2 \<le> d \<and> d < length (dim (heap s' w)) \<longrightarrow>
         dim (heap s' dx) ! d =
           (dim (heap s' dy) ! d - 1) * conv_stride (options n) ! (d - 2)
           - 2 * padding (options n) ! (d - 2) + 1
           + dilation (options n) ! (d - 2) * (dim (heap s' w) ! d - 1)) \<and>
      (\<forall>d. 2 \<le> d \<and> d < length (dim (heap s' w)) \<and>
           - (2 ^ 63) \<le> (sint (dim (heap s' dy) ! d) - 1) * sint (conv_stride (options n) ! (d - 2))
                          - 2 * sint (padding (options n) ! (d - 2)) + 1
                          + sint (dilation (options n) ! (d - 2)) * (sint (dim (heap s' w) ! d) - 1) \<and>
           (sint (dim (heap s' dy) ! d) - 1) * sint (conv_stride (options n) ! (d - 2))
             - 2 * sint (padding (options n) ! (d - 2)) + 1
             + sint (dilation (options n) ! (d - 2)) * (sint (dim (heap s' w) ! d) - 1) < 2 ^ 63 \<longrightarrow>
         sint (dim (heap s' dx) ! d) =
           (sint (dim (heap s' dy) ! d) - 1) * sint (conv_stride (options n) ! (d - 2))
           - 2 * sint (padding (options n) ! (d - 2)) + 1
           + sint (dilation (options n) ! (d - 2)) * (sint (dim (heap s' w) ! d) - 1)) \<and>
      (\<forall>K C N K' P Q.
         dim (heap s w) = [K, C, 3, 3] \<and> dim (heap s dy) = [N, K', P, Q] \<and>
         conv_stride (options n) = [1, 1] \<and> padding (options n) = [0, 0] \<and>
         dilation (options n) = [1, 1] \<longrightarrow>
         dim (heap s' dx) = [N, C, P + 2, Q + 2])"
proof -
  let ?w = "dim (heap s w)" and ?dy = "dim (heap s dy)"
  let ?pad = "padding (options n)" and ?st = "conv_stride (options n)" and ?dil = "dilation (options n)"
  from assms obtain r where r: "dgrad_dx_dim ?w ?dy ?pad ?st ?dil = Inr r"
    using dgrad_dx_dim_total[of ?w ?dy ?st ?pad ?dil] by blast
  let ?n' = "n\<lparr>options := fill_from_context (node_context n) (options n)\<rparr>"
  let ?s' = "infer_stride dx (set_dim dx r s)"
  have run: "DgradNode_infer_properties_node n s = Inr ((OK, ''''), ?n', ?s')"
    using assms(1-4) r by (rule DgradNode_infer_unfold)
  from assms have ne: "dx \<noteq> w" "dx \<noteq> dy" by auto
  have dxr: "dim (heap ?s' dx) = r" by simp
  have wr: "dim (heap ?s' w) = ?w" using ne by simp
  have dyr: "dim (heap ?s' dy) = ?dy" using ne by simp
  note R = dgrad_dx_dim_Inr[OF r]
  have ex: "\<forall>K C N K' P Q.
         ?w = [K, C, 3, 3] \<and> ?dy = [N, K', P, Q] \<and> ?st = [1, 1] \<and> ?pad = [0, 0] \<and> ?dil = [1, 1] \<longrightarrow>
         dim (heap ?s' dx) = [N, C, P + 2, Q + 2]"
  proof (intro allI impI)
    fix K C N K' P Q
    assume h: "?w = [K, C, 3, 3] \<and> ?dy = [N, K', P, Q] \<and> ?st = [1, 1] \<and> ?pad = [0, 0] \<and> ?dil = [1, 1]"
    have "dgrad_dx_dim [K, C, 3, 3] [N, K', P, Q] [0, 0] [1, 1] [1, 1] = Inr [N, C, P + 2, Q + 2]"
      by (simp add: dgrad_dx_dim_def Let_def dgrad_spatial_loop.simps)
    with h r have "r = [N, C, P + 2, Q + 2]" by simp
    with dxr show "dim (heap ?s' dx) = [N, C, P + 2, Q + 2]" by simp
  qed
  have int: "\<forall>d. 2 \<le> d \<and> d < length ?w \<and>
           - (2 ^ 63) \<le> (sint (?dy ! d) - 1) * sint (?st ! (d - 2)) - 2 * sint (?pad ! (d - 2)) + 1
                          + sint (?dil ! (d - 2)) * (sint (?w ! d) - 1) \<and>
           (sint (?dy ! d) - 1) * sint (?st ! (d - 2)) - 2 * sint (?pad ! (d - 2)) + 1
             + sint (?dil ! (d - 2)) * (sint (?w ! d) - 1) < 2 ^ 63 \<longrightarrow>
         sint (r ! d) =
           (sint (?dy ! d) - 1) * sint (?st ! (d - 2)) - 2 * sint (?pad ! (d - 2)) + 1
           + sint (?dil ! (d - 2)) * (sint (?w ! d) - 1)"
  proof (intro allI impI, elim conjE)
    fix d assume d: "2 \<le> d" "d < length ?w"
      and lo: "- (2 ^ 63) \<le> (sint (?dy ! d) - 1) * sint (?st ! (d - 2)) - 2 * sint (?pad ! (d - 2)) + 1
                          + sint (?dil ! (d - 2)) * (sint (?w ! d) - 1)"
      and hi: "(sint (?dy ! d) - 1) * sint (?st ! (d - 2)) - 2 * sint (?pad ! (d - 2)) + 1
             + sint (?dil ! (d - 2)) * (sint (?w ! d) - 1) < 2 ^ 63"
    from R(4) d have "r ! d = (?dy ! d - 1) * ?st ! (d - 2) - 2 * ?pad ! (d - 2) + 1
                              + ?dil ! (d - 2) * (?w ! d - 1)" by blast
    with sint_dgrad_formula[OF lo hi]
    show "sint (r ! d) =
           (sint (?dy ! d) - 1) * sint (?st ! (d - 2)) - 2 * sint (?pad ! (d - 2)) + 1
           + sint (?dil ! (d - 2)) * (sint (?w ! d) - 1)" by simp
  qed
  show ?thesis
    apply (rule exI[of _ ?n'], rule exI[of _ ?s'])
    apply (intro conjI)
            apply (rule run)
           apply (rule wr)
          apply (rule dyr)
         apply (simp only: dxr wr R(1))
        apply (simp only: dxr dyr R(2))
       apply (simp only: dxr wr R(3))
      apply (simp only: dxr wr dyr)
      apply (rule R(4))
     apply (simp only: dxr wr dyr)
     apply (rule int)
    apply (rule ex)
    done
qed

theorem DgradNode_infers_DX_shape_witness:
  "\<exists>n' s'. DgradNode_infer_properties_node dgrad_example dgrad_example_store = Inr ((OK, ''''), n', s') \<and>
     dim (heap s' 2) = [2, 5, 12, 13]"
proof -
  have p: "inputs (options dgrad_example) W = Some 0" "inputs (options dgrad_example) DY = Some 1"
    "outputs (options dgrad_example) DX = Some 2"
    by (simp_all add: dgrad_example_def no_tensor_def)
  have d: "dim (heap dgrad_example_store 2) = []"
    "dim (heap dgrad_example_store 0) = [7, 5, 3, 3]"
    "dim (heap dgrad_example_store 1) = [2, 7, 10, 11]"
    by (simp_all add: dgrad_example_store_def store_of_def blank_tensor_def)
  have o: "conv_stride (options dgrad_example) = [1, 1]" "padding (options dgrad_example) = [0, 0]"
    "dilation (options dgrad_example) = [1, 1]"
    by (simp_all add: dgrad_example_def)
  have r: "2 \<le> length (dim (heap dgrad_example_store 0))"
    "length (dim (heap dgrad_example_store 0)) \<le> length (dim (heap dgrad_example_store 1))"
    "length (dim (heap dgrad_example_store 0)) - 2 \<le> length (conv_stride (options dgrad_example))"
    "length (dim (heap dgrad_example_store 0)) - 2 \<le> length (padding (options dgrad_example))"
    "length (dim (heap dgrad_example_store 0)) - 2 \<le> length (dilation (options dgrad_example))"
    unfolding d o by simp_all
  from DgradNode_infers_DX_shape[OF p d(1) r]
  obtain n' s' where
    run: "DgradNode_infer_properties_node dgrad_example dgrad_example_store = Inr ((OK, ''''), n', s')"
    and ex: "\<And>K C N K' P Q. dim (heap dgrad_example_store 0) = [K, C, 3, 3] \<and>
         dim (heap dgrad_example_store 1) = [N, K', P, Q] \<and>
         conv_stride (options dgrad_example) = [1, 1] \<and> padding (options dgrad_example) = [0, 0] \<and>
         dilation (options dgrad_example) = [1, 1] \<Longrightarrow>
         dim (heap s' 2) = [N, C, P + 2, Q + 2]"
    by blast
  have "dim (heap s' 2) = [2, 5, 10 + 2, 11 + 2]"
    by (rule ex) (simp only: d o simp_thms)
  with run show ?thesis by simp
qed


section \<open>Inference never overwrites a supplied shape or stride\<close>

lemma keeps_supplied_refl: "keeps_supplied s s"
  by (simp add: keeps_supplied_def)

lemma keeps_supplied_trans:
  "keeps_supplied s s1 \<Longrightarrow> keeps_supplied s1 s2 \<Longrightarrow> keeps_supplied s s2"
  unfolding keeps_supplied_def by metis

lemma keeps_supplied_infer_stride: "keeps_supplied s (infer_stride a s)"
  by (simp add: keeps_supplied_def stride_infer_stride)

lemma keeps_supplied_set_dim: "dim (heap s a) = [] \<Longrightarrow> keeps_supplied s (set_dim a d s)"
  by (simp add: keeps_supplied_def)

lemma keeps_supplied_fill:
  "keeps_supplied s (infer_stride a (if dim (heap s a) = [] then set_dim a d s else s))"
  by (simp add: keeps_supplied_def stride_infer_stride)

lemma infer_dim_of_x_keeps:
  "infer_dim_of_x xd T s = Inr s' \<Longrightarrow> keeps_supplied s s'"
  by (cases T) (auto simp: infer_dim_of_x_def Let_def keeps_supplied_fill)

lemma infer_per_channel_tensors_keeps:
  "infer_per_channel_tensors xd T s = Inr s' \<Longrightarrow> keeps_supplied s s'"
  by (cases T; cases "dim (heap s (the T)) = []")
     (auto simp: infer_per_channel_tensors_def Let_def keeps_supplied_infer_stride
           split: if_splits
           intro: keeps_supplied_trans[OF keeps_supplied_set_dim keeps_supplied_infer_stride])

lemma infer_scalar_tensors_keeps:
  "infer_scalar_tensors xd T s = Inr s' \<Longrightarrow> keeps_supplied s s'"
  by (cases T) (auto simp: infer_scalar_tensors_def Let_def keeps_supplied_fill)

lemma seq_append:
  "seq (fs @ gs) s = (case seq fs s of Inl e \<Rightarrow> Inl e | Inr s1 \<Rightarrow> seq gs s1)"
  by (induction fs arbitrary: s) (auto split: sum.splits)

lemma seq_keeps:
  assumes "seq fs s = Inr s'"
    and "\<And>f t t'. f \<in> set fs \<Longrightarrow> f t = Inr t' \<Longrightarrow> keeps_supplied t t'"
  shows "keeps_supplied s s'"
  using assms
proof (induction fs arbitrary: s)
  case Nil
  then show ?case by (simp add: keeps_supplied_refl)
next
  case (Cons f fs)
  from Cons.prems(1) obtain s1 where f: "f s = Inr s1" and r: "seq fs s1 = Inr s'"
    by (auto split: sum.splits)
  have "keeps_supplied s s1" using Cons.prems(2)[of f s s1] f by simp
  moreover have "keeps_supplied s1 s'"
  proof (rule Cons.IH[OF r])
    fix g t t' assume "g \<in> set fs" "g t = Inr t'"
    then show "keeps_supplied t t'" using Cons.prems(2)[of g t t'] by simp
  qed
  ultimately show ?case by (rule keeps_supplied_trans)
qed

lemma BatchNormNode_infer_eq:
  "BatchNormNode_infer_properties_node n s =
     (case inputs (options n) X of None \<Rightarrow> Inl NullPointerDereference
      | Some x \<Rightarrow>
         (case seq (infer_dim_of_x (dim (heap s x)) (outputs (options n) Y) #
                    map (infer_per_channel_tensors (dim (heap s x))) (BatchNormNode_per_channel_tensors n) @
                    map (infer_scalar_tensors (dim (heap s x)))
                      [inputs (options n) EPSILON, inputs (options n) MOMENTUM]) s of
            Inl f \<Rightarrow> Inl f
          | Inr s1 \<Rightarrow> Inr ((OK, ''''), n\<lparr>options := fill_from_context (node_context n) (options n)\<rparr>, s1)))"
  by (simp add: BatchNormNode_infer_properties_node_def BatchNormNode_per_channel_tensors_def Let_def
           split: option.splits)

lemma DBNNode_infer_eq:
  "DBNNode_infer_properties_node n s =
     (case inputs (options n) X of None \<Rightarrow> Inl NullPointerDereference
      | Some x \<Rightarrow>
         (case seq (map (infer_dim_of_x (dim (heap s x))) [inputs (options n) DY, outputs (options n) DX] @
                    map (infer_per_channel_tensors (dim (heap s x))) (DBNNode_per_channel_tensors n)) s of
            Inl f \<Rightarrow> Inl f
          | Inr s1 \<Rightarrow> Inr ((OK, ''''), n\<lparr>options := fill_from_context (node_context n) (options n)\<rparr>, s1)))"
  by (simp add: DBNNode_infer_properties_node_def DBNNode_per_channel_tensors_def Let_def
           split: option.splits)

lemma BatchNormNode_infer_keeps:
  assumes "BatchNormNode_infer_properties_node n s = Inr (e, n', s')"
  shows "keeps_supplied s s'"
proof -
  from assms obtain x where
    "seq (infer_dim_of_x (dim (heap s x)) (outputs (options n) Y) #
          map (infer_per_channel_tensors (dim (heap s x))) (BatchNormNode_per_channel_tensors n) @
          map (infer_scalar_tensors (dim (heap s x)))
             [inputs (options n) EPSILON, inputs (options n) MOMENTUM]) s = Inr s'"
    unfolding BatchNormNode_infer_eq by (auto split: option.splits sum.splits)
  then show ?thesis
    by (rule seq_keeps)
       (auto dest: infer_dim_of_x_keeps infer_per_channel_tensors_keeps infer_scalar_tensors_keeps)
qed

lemma DBNNode_infer_keeps:
  assumes "DBNNode_infer_properties_node n s = Inr (e, n', s')"
  shows "keeps_supplied s s'"
proof -
  from assms obtain x where
    "seq (map (infer_dim_of_x (dim (heap s x))) [inputs (options n) DY, outputs (options n) DX] @
          map (infer_per_channel_tensors (dim (heap s x))) (DBNNode_per_channel_tensors n)) s = Inr s'"
    unfolding DBNNode_infer_eq by (auto split: option.splits sum.splits)
  then show ?thesis
    by (rule seq_keeps) (auto dest: infer_dim_of_x_keeps infer_per_channel_tensors_keeps)
qed

lemma DgradNode_infer_keeps:
  assumes "DgradNode_infer_properties_node n s = Inr (e, n', s')"
  shows "keeps_supplied s s'"
proof -
  from assms have "\<exists>dx. (dim (heap s dx) \<noteq> [] \<and> s' = infer_stride dx s) \<or>
                 (dim (heap s dx) = [] \<and> (\<exists>d. s' = infer_stride dx (set_dim dx d s)))"
    unfolding DgradNode_infer_properties_node_def Let_def
    by (auto split: sum.splits if_splits)
  then show ?thesis
    by (auto intro: keeps_supplied_infer_stride
          keeps_supplied_trans[OF keeps_supplied_set_dim keeps_supplied_infer_stride])
qed

text \<open>
  Claim C3. Whatever node runs \<open>infer_properties_node\<close> (\<open>BatchNormNode\<close>, \<open>DBNNode\<close> or
  \<open>DgradNode\<close>; \<open>RngNode\<close> has none of its own), a descriptor whose shape was not empty
  before the call has the same shape after it, a descriptor whose stride was not empty has
  the same stride, and a shape or stride that did change was empty before. This holds for
  every address of the heap, whether or not roles share descriptors.
\<close>

theorem infer_properties_keeps_supplied_shapes:
  assumes "BatchNormNode_infer_properties_node bn s = Inr (e, bn', s') \<or>
           DBNNode_infer_properties_node dbn s = Inr (e, dbn', s') \<or>
           DgradNode_infer_properties_node dg s = Inr (e, dg', s')"
  shows "(dim (heap s a) \<noteq> [] \<longrightarrow> dim (heap s' a) = dim (heap s a)) \<and>
         (stride (heap s a) \<noteq> [] \<longrightarrow> stride (heap s' a) = stride (heap s a)) \<and>
         (dim (heap s' a) \<noteq> dim (heap s a) \<longrightarrow> dim (heap s a) = []) \<and>
         (stride (heap s' a) \<noteq> stride (heap s a) \<longrightarrow> stride (heap s a) = [])"
proof -
  from assms have "keeps_supplied s s'"
    using BatchNormNode_infer_keeps DBNNode_infer_keeps DgradNode_infer_keeps by blast
  then show ?thesis unfolding keeps_supplied_def by metis
qed

theorem infer_properties_keeps_supplied_shapes_witness:
  "\<exists>e n' s'. BatchNormNode_infer_properties_node bn_example bn_example_store = Inr (e, n', s') \<and>
     dim (heap bn_example_store 1) \<noteq> [] \<and> stride (heap bn_example_store 1) \<noteq> [] \<and>
     dim (heap bn_example_store 8) = [] \<and>
     dim (heap s' 1) = [1, 3, 1, 1] \<and> stride (heap s' 1) = [3, 1, 3, 3] \<and>
     dim (heap s' 8) \<noteq> dim (heap bn_example_store 8)"
proof -
  have "\<exists>e n' s'. BatchNormNode_infer_properties_node bn_example bn_example_store = Inr (e, n', s') \<and>
          dim (heap s' 8) = [1, 3, 1, 1]"
    by (simp add: BatchNormNode_infer_properties_node_def bn_example_def
       bn_example_store_def store_of_def blank_tensor_def no_tensor_def Let_def
       infer_dim_of_x_def infer_per_channel_tensors_def infer_scalar_tensors_def
       infer_stride_def set_dim_def set_stride_def float_context_def)
  then obtain e n' s' where
    run: "BatchNormNode_infer_properties_node bn_example bn_example_store = Inr (e, n', s')"
    and m: "dim (heap s' 8) = [1, 3, 1, 1]"
    by blast
  have b: "dim (heap bn_example_store 1) = [1, 3, 1, 1]" "stride (heap bn_example_store 1) = [3, 1, 3, 3]"
    "dim (heap bn_example_store 8) = []"
    by (simp_all add: bn_example_store_def store_of_def blank_tensor_def)
  from run have "BatchNormNode_infer_properties_node bn_example bn_example_store = Inr (e, n', s') \<or>
           DBNNode_infer_properties_node dbn_example bn_example_store = Inr (e, dbn_example, s') \<or>
           DgradNode_infer_properties_node dgrad_example bn_example_store = Inr (e, dgrad_example, s')"
    by simp
  from infer_properties_keeps_supplied_shapes[OF this, of 1] b
  have "dim (heap s' 1) = [1, 3, 1, 1]" "stride (heap s' 1) = [3, 1, 3, 3]" by simp_all
  with run m b show ?thesis by auto
qed


section \<open>Per-channel tensors\<close>

lemma per_channel_dim_length [simp]: "length (per_channel_dim xd) = length xd"
  by (simp add: per_channel_dim_def)

lemma per_channel_dim_Nil [simp]: "per_channel_dim xd = [] \<longleftrightarrow> xd = []"
  by (simp add: per_channel_dim_def)

lemma per_channel_dim_nth:
  "i < length xd \<Longrightarrow> per_channel_dim xd ! i = (if i = 1 then xd ! 1 else 1)"
  by (simp add: per_channel_dim_def nth_list_update)

lemma infer_per_channel_tensors_dim:
  assumes "infer_per_channel_tensors xd T s = Inr s'"
  shows "dim (heap s' b) =
           (if T = Some b \<and> dim (heap s b) = [] then per_channel_dim xd else dim (heap s b))"
    and "T = Some b \<Longrightarrow> dim (heap s b) = [] \<Longrightarrow> 2 \<le> length xd"
  using assms
  by (cases T; cases "dim (heap s (the T)) = []";
      auto simp: infer_per_channel_tensors_def Let_def per_channel_dim_def split: if_splits)+

lemma infer_dim_of_x_other:
  "infer_dim_of_x xd T s = Inr s' \<Longrightarrow> T \<noteq> Some a \<Longrightarrow> dim (heap s' a) = dim (heap s a)"
  by (cases T) (auto simp: infer_dim_of_x_def Let_def)

lemma keeps_supplied_dimD:
  "keeps_supplied s s' \<Longrightarrow> dim (heap s a) = d \<Longrightarrow> d \<noteq> [] \<Longrightarrow> dim (heap s' a) = d"
  by (simp add: keeps_supplied_def)

lemma per_channel_seq_keeps:
  "seq (map (infer_per_channel_tensors xd) Ts) s = Inr s' \<Longrightarrow> keeps_supplied s s'"
  by (erule seq_keeps) (auto dest: infer_per_channel_tensors_keeps)

lemma scalar_seq_keeps:
  "seq (map (infer_scalar_tensors xd) Ts) s = Inr s' \<Longrightarrow> keeps_supplied s s'"
  by (erule seq_keeps) (auto dest: infer_scalar_tensors_keeps)

lemma dim_of_x_seq_other:
  "seq (map (infer_dim_of_x xd) Ts) s = Inr s' \<Longrightarrow> Some a \<notin> set Ts \<Longrightarrow>
   dim (heap s' a) = dim (heap s a)"
proof (induction Ts arbitrary: s)
  case Nil
  then show ?case by simp
next
  case (Cons T Ts)
  from Cons.prems(1) obtain s1 where f: "infer_dim_of_x xd T s = Inr s1"
    and r: "seq (map (infer_dim_of_x xd) Ts) s1 = Inr s'"
    by (auto split: sum.splits)
  from Cons.prems(2) have "T \<noteq> Some a" "Some a \<notin> set Ts" by auto
  with infer_dim_of_x_other[OF f] Cons.IH[OF r] show ?case by simp
qed

lemma per_channel_seq_dim:
  assumes "seq (map (infer_per_channel_tensors xd) Ts) s = Inr s'"
    and "Some a \<in> set Ts"
    and "dim (heap s a) = [] \<or> (dim (heap s a) = per_channel_dim xd \<and> 2 \<le> length xd)"
  shows "dim (heap s' a) = per_channel_dim xd \<and> 2 \<le> length xd"
  using assms
proof (induction Ts arbitrary: s)
  case Nil
  then show ?case by simp
next
  case (Cons T Ts)
  from Cons.prems(1) obtain s1 where f: "infer_per_channel_tensors xd T s = Inr s1"
    and r: "seq (map (infer_per_channel_tensors xd) Ts) s1 = Inr s'"
    by (auto split: sum.splits)
  note d = infer_per_channel_tensors_dim[OF f, of a]
  have q1: "dim (heap s1 a) = [] \<or> (dim (heap s1 a) = per_channel_dim xd \<and> 2 \<le> length xd)"
    using d Cons.prems(3) by (auto split: if_splits)
  show ?case
  proof (cases "T = Some a")
    case True
    with d Cons.prems(3) have pc: "dim (heap s1 a) = per_channel_dim xd" and len: "2 \<le> length xd"
      by (auto split: if_splits)
    from len have "per_channel_dim xd \<noteq> []" by auto
    with per_channel_seq_keeps[OF r] pc have "dim (heap s' a) = per_channel_dim xd"
      by (rule keeps_supplied_dimD)
    with len show ?thesis by simp
  next
    case False
    with Cons.prems(2) have "Some a \<in> set Ts" by auto
    from Cons.IH[OF r this q1] show ?thesis .
  qed
qed

lemma per_channel_dim_shape:
  assumes "d = per_channel_dim xd" "2 \<le> length xd"
  shows "length d = length xd \<and> (\<forall>i < length d. d ! i = (if i = 1 then xd ! 1 else 1))"
  using assms by (simp add: per_channel_dim_nth)

lemma BatchNormNode_per_channel_inferred:
  assumes run: "BatchNormNode_infer_properties_node n s = Inr (e, n', s')"
    and x: "inputs (options n) X = Some x"
    and T: "Some a \<in> set (BatchNormNode_per_channel_tensors n)"
    and ne: "outputs (options n) Y \<noteq> Some a"
    and empty: "dim (heap s a) = []"
  shows "dim (heap s' a) = per_channel_dim (dim (heap s x)) \<and> 2 \<le> length (dim (heap s x)) \<and>
         dim (heap s' x) = dim (heap s x)"
proof -
  let ?xd = "dim (heap s x)"
  from run x obtain s1 s2 where
    a: "infer_dim_of_x ?xd (outputs (options n) Y) s = Inr s1"
    and b: "seq (map (infer_per_channel_tensors ?xd) (BatchNormNode_per_channel_tensors n)) s1 = Inr s2"
    and c: "seq (map (infer_scalar_tensors ?xd) [inputs (options n) EPSILON, inputs (options n) MOMENTUM]) s2 = Inr s'"
    unfolding BatchNormNode_infer_eq
    by (simp add: seq_append split: sum.splits)
  from infer_dim_of_x_other[OF a ne] empty have "dim (heap s1 a) = []" by simp
  with per_channel_seq_dim[OF b T] have pc: "dim (heap s2 a) = per_channel_dim ?xd" and len: "2 \<le> length ?xd"
    by simp_all
  from len have nz: "per_channel_dim ?xd \<noteq> []" "?xd \<noteq> []" by auto
  from scalar_seq_keeps[OF c] pc nz(1) have "dim (heap s' a) = per_channel_dim ?xd"
    by (rule keeps_supplied_dimD)
  moreover from BatchNormNode_infer_keeps[OF run] nz(2) have "dim (heap s' x) = ?xd"
    by (simp add: keeps_supplied_def)
  ultimately show ?thesis using len by simp
qed

lemma DBNNode_per_channel_inferred:
  assumes run: "DBNNode_infer_properties_node n s = Inr (e, n', s')"
    and x: "inputs (options n) X = Some x"
    and T: "Some a \<in> set (DBNNode_per_channel_tensors n)"
    and ne: "inputs (options n) DY \<noteq> Some a" "outputs (options n) DX \<noteq> Some a"
    and empty: "dim (heap s a) = []"
  shows "dim (heap s' a) = per_channel_dim (dim (heap s x)) \<and> 2 \<le> length (dim (heap s x)) \<and>
         dim (heap s' x) = dim (heap s x)"
proof -
  let ?xd = "dim (heap s x)"
  from run x obtain s1 where
    a: "seq (map (infer_dim_of_x ?xd) [inputs (options n) DY, outputs (options n) DX]) s = Inr s1"
    and b: "seq (map (infer_per_channel_tensors ?xd) (DBNNode_per_channel_tensors n)) s1 = Inr s'"
    unfolding DBNNode_infer_eq
    by (simp only: seq_append split: sum.splits option.splits) auto
  from ne have "Some a \<notin> set [inputs (options n) DY, outputs (options n) DX]" by auto
  from dim_of_x_seq_other[OF a this] empty have "dim (heap s1 a) = []" by simp
  with per_channel_seq_dim[OF b T] have pc: "dim (heap s' a) = per_channel_dim ?xd" and len: "2 \<le> length ?xd"
    by simp_all
  from len have nz: "?xd \<noteq> []" by auto
  from DBNNode_infer_keeps[OF run] nz have "dim (heap s' x) = ?xd"
    by (simp add: keeps_supplied_def)
  with pc len show ?thesis by simp
qed

text \<open>
  Claim C2, as amended. Let \<open>T\<close> be one of the per-channel roles of a \<open>BatchNormNode\<close>
  (\<open>MEAN\<close>, \<open>INV_VARIANCE\<close>, \<open>NEXT_RUNNING_MEAN\<close>, \<open>NEXT_RUNNING_VAR\<close>, \<open>PREV_RUNNING_MEAN\<close>,
  \<open>PREV_RUNNING_VAR\<close>, \<open>SCALE\<close>, \<open>BIAS\<close>) or of a \<open>DBNNode\<close> (\<open>MEAN\<close>, \<open>INV_VARIANCE\<close>, \<open>SCALE\<close>,
  \<open>DSCALE\<close>, \<open>DBIAS\<close>), with an empty shape before \<open>infer_properties_node\<close> and a descriptor
  that is not the one held by \<open>Y\<close> (respectively by \<open>DY\<close> or \<open>DX\<close>). When the stage returns,
  the shape of \<open>T\<close> has the rank of \<open>X\<close>, every dimension is 1 except dimension 1, which is
  dimension 1 of \<open>X\<close>; \<open>X\<close> has at least two dimensions and its shape has not changed.
\<close>

theorem per_channel_tensors_inferred:
  assumes "(BatchNormNode_infer_properties_node bn s = Inr (e, bn', s') \<and>
            inputs (options bn) X = Some x \<and>
            Some a \<in> set (BatchNormNode_per_channel_tensors bn) \<and>
            outputs (options bn) Y \<noteq> Some a) \<or>
           (DBNNode_infer_properties_node dbn s = Inr (e, dbn', s') \<and>
            inputs (options dbn) X = Some x \<and>
            Some a \<in> set (DBNNode_per_channel_tensors dbn) \<and>
            inputs (options dbn) DY \<noteq> Some a \<and> outputs (options dbn) DX \<noteq> Some a)"
    and "dim (heap s a) = []"
  shows "length (dim (heap s' a)) = length (dim (heap s' x)) \<and>
         (\<forall>i < length (dim (heap s' a)).
            dim (heap s' a) ! i = (if i = 1 then dim (heap s' x) ! 1 else 1)) \<and>
         2 \<le> length (dim (heap s' x)) \<and> dim (heap s' x) = dim (heap s x)"
proof -
  from assms have "dim (heap s' a) = per_channel_dim (dim (heap s x)) \<and> 2 \<le> length (dim (heap s x)) \<and>
         dim (heap s' x) = dim (heap s x)"
    using BatchNormNode_per_channel_inferred DBNNode_per_channel_inferred by blast
  then show ?thesis by (simp add: per_channel_dim_nth)
qed

theorem per_channel_tensors_inferred_witness:
  "\<exists>e n' s'. BatchNormNode_infer_properties_node bn_example bn_example_store = Inr (e, n', s') \<and>
     inputs (options bn_example) X = Some 0 \<and>
     Some 8 \<in> set (BatchNormNode_per_channel_tensors bn_example) \<and>
     outputs (options bn_example) Y \<noteq> Some 8 \<and>
     dim (heap bn_example_store 8) = [] \<and>
     length (dim (heap s' 8)) = length (dim (heap s' 0)) \<and>
     (\<forall>i < length (dim (heap s' 8)). dim (heap s' 8) ! i = (if i = 1 then dim (heap s' 0) ! 1 else 1)) \<and>
     dim (heap s' 0) = [2, 3, 4, 5]"
proof -
  have "\<exists>e n' s'. BatchNormNode_infer_properties_node bn_example bn_example_store = Inr (e, n', s')"
    by (simp add: BatchNormNode_infer_properties_node_def bn_example_def
       bn_example_store_def store_of_def blank_tensor_def no_tensor_def Let_def
       infer_dim_of_x_def infer_per_channel_tensors_def infer_scalar_tensors_def
       infer_stride_def set_dim_def set_stride_def float_context_def)
  then obtain e n' s' where
    run: "BatchNormNode_infer_properties_node bn_example bn_example_store = Inr (e, n', s')"
    by blast
  have h: "inputs (options bn_example) X = Some 0"
    "Some 8 \<in> set (BatchNormNode_per_channel_tensors bn_example)"
    "outputs (options bn_example) Y \<noteq> Some 8"
    by (simp_all add: bn_example_def no_tensor_def BatchNormNode_per_channel_tensors_def)
  have b: "dim (heap bn_example_store 8) = []" "dim (heap bn_example_store 0) = [2, 3, 4, 5]"
    by (simp_all add: bn_example_store_def store_of_def blank_tensor_def)
  from run h have
    "(BatchNormNode_infer_properties_node bn_example bn_example_store = Inr (e, n', s') \<and>
      inputs (options bn_example) X = Some 0 \<and>
      Some 8 \<in> set (BatchNormNode_per_channel_tensors bn_example) \<and>
      outputs (options bn_example) Y \<noteq> Some 8) \<or>
     (DBNNode_infer_properties_node dbn_example bn_example_store = Inr (e, dbn_example, s') \<and>
      inputs (options dbn_example) X = Some 0 \<and>
      Some 8 \<in> set (DBNNode_per_channel_tensors dbn_example) \<and>
      inputs (options dbn_example) DY \<noteq> Some 8 \<and> outputs (options dbn_example) DX \<noteq> Some 8)"
    by blast
  from per_channel_tensors_inferred[OF this b(1)] b(2) run h b(1) show ?thesis
    by (intro exI[of _ e] exI[of _ n'] exI[of _ s']) simp
qed

text \<open>
  Claim C2 as it is written fails when one descriptor, with no shape before the stage, is
  held by two roles: by \<open>DY\<close> and \<open>SCALE\<close> of a \<open>DBNNode\<close>, or by \<open>Y\<close> and \<open>MEAN\<close> of a
  \<open>BatchNormNode\<close>. The block for \<open>DY\<close> (for \<open>Y\<close>) runs first and gives the descriptor the
  whole shape of \<open>X\<close>; the per-channel lambda then finds a shape that is not empty and
  leaves it. The shape of \<open>X\<close> is \<open>[2, 3, 4, 5]\<close>, and so is the shape inferred for \<open>SCALE\<close>
  (for \<open>MEAN\<close>), where the claim has \<open>[1, 3, 1, 1]\<close>.
\<close>

theorem per_channel_shared_descriptor_counterexample:
  "inputs (options dbn_shared_example) X = Some 0 \<and>
   inputs (options dbn_shared_example) SCALE = Some 1 \<and>
   dim (heap dbn_example_store 1) = [] \<and>
   dim_after 0 (DBNNode_infer_properties_node dbn_shared_example dbn_example_store) = Inr [2, 3, 4, 5] \<and>
   dim_after 1 (DBNNode_infer_properties_node dbn_shared_example dbn_example_store) = Inr [2, 3, 4, 5] \<and>
   inputs (options bn_shared_example) X = Some 0 \<and>
   outputs (options bn_shared_example) MEAN = Some 7 \<and>
   dim (heap bn_example_store 7) = [] \<and>
   dim_after 0 (BatchNormNode_infer_properties_node bn_shared_example bn_example_store) = Inr [2, 3, 4, 5] \<and>
   dim_after 7 (BatchNormNode_infer_properties_node bn_shared_example bn_example_store) = Inr [2, 3, 4, 5]"
  by (simp add: DBNNode_infer_properties_node_def dbn_shared_example_def dbn_example_def
       dbn_example_store_def BatchNormNode_infer_properties_node_def bn_shared_example_def
       bn_example_def bn_example_store_def store_of_def blank_tensor_def no_tensor_def
       dim_after_def Let_def infer_dim_of_x_def infer_per_channel_tensors_def
       infer_scalar_tensors_def infer_stride_def set_dim_def set_stride_def float_context_def)


section \<open>Validation\<close>

text \<open>
  Claim C5. \<open>DBNNode::validate_node\<close> never faults and hands back the node and the store it
  was given; its status is \<open>ATTRIBUTE_NOT_SET\<close> exactly when \<open>MEAN\<close>, \<open>INV_VARIANCE\<close> and
  \<open>EPSILON\<close> are all three absent, and \<open>OK\<close> exactly when at least one of them is present.
\<close>

theorem DBNNode_validate_node_fails_iff_all_absent:
  "\<exists>e. DBNNode_validate_node n s = Inr (e, n, s) \<and>
       (fst e = ATTRIBUTE_NOT_SET \<longleftrightarrow>
          inputs (options n) MEAN = None \<and> inputs (options n) INV_VARIANCE = None \<and>
          inputs (options n) EPSILON = None) \<and>
       (fst e = OK \<longleftrightarrow>
          inputs (options n) MEAN \<noteq> None \<or> inputs (options n) INV_VARIANCE \<noteq> None \<or>
          inputs (options n) EPSILON \<noteq> None)"
  by (simp add: DBNNode_validate_node_def)

theorem DBNNode_validate_node_fails_iff_all_absent_witness:
  "(\<exists>e. DBNNode_validate_node dbn_example dbn_example_store = Inr (e, dbn_example, dbn_example_store) \<and>
        fst e = OK) \<and>
   (\<exists>e. DBNNode_validate_node
           (dbn_example\<lparr>options := (options dbn_example)\<lparr>inputs := no_tensor(X := Some 0)\<rparr>\<rparr>)
           dbn_example_store =
         Inr (e, dbn_example\<lparr>options := (options dbn_example)\<lparr>inputs := no_tensor(X := Some 0)\<rparr>\<rparr>,
              dbn_example_store) \<and>
        fst e = ATTRIBUTE_NOT_SET)"
  using DBNNode_validate_node_fails_iff_all_absent[of dbn_example dbn_example_store]
    DBNNode_validate_node_fails_iff_all_absent
      [of "dbn_example\<lparr>options := (options dbn_example)\<lparr>inputs := no_tensor(X := Some 0)\<rparr>\<rparr>"
          dbn_example_store]
  by (simp add: dbn_example_def no_tensor_def)

text \<open>
  Claim C8. \<open>BatchNormNode::validate_node\<close> returns \<open>ATTRIBUTE_NOT_SET\<close> when the forward phase
  is \<open>NOT_SET\<close> and \<open>OK\<close> otherwise; \<open>RngNode::validate_node\<close> returns \<open>ATTRIBUTE_NOT_SET\<close> when
  \<open>Y\<close> is absent and \<open>OK\<close> otherwise. Neither faults, and both hand back the node and the store
  they were given.
\<close>

theorem validate_node_BatchNorm_and_Rng:
  "(\<exists>e. BatchNormNode_validate_node bn s = Inr (e, bn, s) \<and>
        (fst e = ATTRIBUTE_NOT_SET \<longleftrightarrow> forward_phase (options bn) = NormFwdPhase_t.NOT_SET) \<and>
        (fst e = OK \<longleftrightarrow> forward_phase (options bn) \<noteq> NormFwdPhase_t.NOT_SET)) \<and>
   (\<exists>e. RngNode_validate_node rng s = Inr (e, rng, s) \<and>
        (fst e = ATTRIBUTE_NOT_SET \<longleftrightarrow> outputs (options rng) Y = None) \<and>
        (fst e = OK \<longleftrightarrow> outputs (options rng) Y \<noteq> None))"
  by (simp add: BatchNormNode_validate_node_def RngNode_validate_node_def)

theorem validate_node_BatchNorm_and_Rng_witness:
  "(\<exists>e. BatchNormNode_validate_node bn_example rng_example_store = Inr (e, bn_example, rng_example_store) \<and>
        fst e = OK) \<and>
   (\<exists>e. RngNode_validate_node rng_example rng_example_store = Inr (e, rng_example, rng_example_store) \<and>
        fst e = OK) \<and>
   (\<exists>e. RngNode_validate_node (rng_example\<lparr>options := (options rng_example)\<lparr>outputs := no_tensor\<rparr>\<rparr>)
           rng_example_store =
         Inr (e, rng_example\<lparr>options := (options rng_example)\<lparr>outputs := no_tensor\<rparr>\<rparr>, rng_example_store) \<and>
        fst e = ATTRIBUTE_NOT_SET)"
  using validate_node_BatchNorm_and_Rng[of bn_example rng_example_store rng_example]
    validate_node_BatchNorm_and_Rng[of bn_example rng_example_store
      "rng_example\<lparr>options := (options rng_example)\<lparr>outputs := no_tensor\<rparr>\<rparr>"]
  by (simp add: bn_example_def rng_example_def no_tensor_def)


section \<open>Identifiers\<close>

lemma heap_set_uid [simp]:
  "uid (heap (set_uid a u s) b) = (if b = a then u else uid (heap s b))"
  "dim (heap (set_uid a u s) b) = dim (heap s b)"
  "stride (heap (set_uid a u s) b) = stride (heap s b)"
  "is_virtual (heap (set_uid a u s) b) = is_virtual (heap s b)"
  "uid_counter (set_uid a u s) = uid_counter s"
  by (simp_all add: set_uid_def)

lemma assign_new_uid_Some:
  "assign_new_uid (Some a) s = Inr (set_uid a (Suc (uid_counter s)) (s\<lparr>uid_counter := Suc (uid_counter s)\<rparr>))"
  by (simp add: assign_new_uid_def create_new_uid_def)

lemma assign_new_uid_None: "assign_new_uid None s = Inl NullPointerDereference"
  by (simp add: assign_new_uid_def create_new_uid_def)

lemma assign_new_uid_InrD:
  "assign_new_uid T s = Inr s' \<Longrightarrow>
   \<exists>a. T = Some a \<and> s' = set_uid a (Suc (uid_counter s)) (s\<lparr>uid_counter := Suc (uid_counter s)\<rparr>)"
  by (cases T) (simp_all add: assign_new_uid_Some assign_new_uid_None)

lemma uids_assigned_empty: "uids_assigned {} s s"
  by (simp add: uids_assigned_def)

lemma uids_assigned_one:
  "assign_new_uid T s = Inr s' \<Longrightarrow> uids_assigned {a. T = Some a} s s'"
  by (drule assign_new_uid_InrD) (auto simp: uids_assigned_def inj_on_def split: if_splits)

lemma uids_assigned_if_present:
  "assign_new_uid_if_present T s = Inr s' \<Longrightarrow> uids_assigned {a. T = Some a} s s'"
  by (cases T) (auto simp: assign_new_uid_if_present_def uids_assigned_empty dest: uids_assigned_one)

lemma uids_assigned_compose:
  assumes A: "uids_assigned A s s1" and B: "uids_assigned B s1 s2"
  shows "uids_assigned (A \<union> B) s s2"
proof -
  let ?c = "uid_counter s" and ?c1 = "uid_counter s1" and ?c2 = "uid_counter s2"
  from A B have c: "?c \<le> ?c1" "?c1 \<le> ?c2" by (simp_all add: uids_assigned_def)
  have inB: "\<And>a. a \<in> B \<Longrightarrow> ?c1 < uid (heap s2 a) \<and> uid (heap s2 a) \<le> ?c2"
    using B by (simp add: uids_assigned_def)
  have outB: "\<And>a. a \<notin> B \<Longrightarrow> uid (heap s2 a) = uid (heap s1 a)"
    using B by (simp add: uids_assigned_def)
  have inA: "\<And>a. a \<in> A \<Longrightarrow> ?c < uid (heap s1 a) \<and> uid (heap s1 a) \<le> ?c1"
    using A by (simp add: uids_assigned_def)
  have outA: "\<And>a. a \<notin> A \<Longrightarrow> uid (heap s1 a) = uid (heap s a)"
    using A by (simp add: uids_assigned_def)
  have injA: "inj_on (\<lambda>a. uid (heap s1 a)) A" and injB: "inj_on (\<lambda>a. uid (heap s2 a)) B"
    using A B by (simp_all add: uids_assigned_def)
  have range: "\<forall>a \<in> A \<union> B. ?c < uid (heap s2 a) \<and> uid (heap s2 a) \<le> ?c2"
  proof
    fix a assume a: "a \<in> A \<union> B"
    show "?c < uid (heap s2 a) \<and> uid (heap s2 a) \<le> ?c2"
    proof (cases "a \<in> B")
      case True
      with inB[of a] c show ?thesis by simp
    next
      case False
      with a have "a \<in> A" by simp
      with inA[of a] outB[OF False] c show ?thesis by simp
    qed
  qed
  have inj: "inj_on (\<lambda>a. uid (heap s2 a)) (A \<union> B)"
  proof (rule inj_onI)
    fix a b assume a: "a \<in> A \<union> B" and b: "b \<in> A \<union> B"
      and eq: "uid (heap s2 a) = uid (heap s2 b)"
    show "a = b"
    proof (cases "a \<in> B"; cases "b \<in> B")
      assume "a \<in> B" "b \<in> B"
      with injB eq show ?thesis by (simp add: inj_on_def)
    next
      assume ab: "a \<in> B" "b \<notin> B"
      with b have "b \<in> A" by simp
      with inA[of b] outB[of b] inB[of a] ab eq show ?thesis by simp
    next
      assume ab: "a \<notin> B" "b \<in> B"
      with a have "a \<in> A" by simp
      with inA[of a] outB[of a] inB[of b] ab eq show ?thesis by simp
    next
      assume ab: "a \<notin> B" "b \<notin> B"
      with a b have "a \<in> A" "b \<in> A" by simp_all
      moreover from ab eq outB have "uid (heap s1 a) = uid (heap s1 b)" by simp
      ultimately show ?thesis using injA by (simp add: inj_on_def)
    qed
  qed
  have frame: "\<forall>a. a \<notin> A \<union> B \<longrightarrow> uid (heap s2 a) = uid (heap s a)"
    using outA outB by simp
  from c range inj frame show ?thesis by (simp add: uids_assigned_def)
qed

lemma seq_assign_new_uid:
  "seq (map assign_new_uid Ts) s = Inr s' \<Longrightarrow> uids_assigned {a. Some a \<in> set Ts} s s'"
proof (induction Ts arbitrary: s)
  case Nil
  then show ?case by (simp add: uids_assigned_empty)
next
  case (Cons T Ts)
  from Cons.prems obtain s1 where f: "assign_new_uid T s = Inr s1"
    and r: "seq (map assign_new_uid Ts) s1 = Inr s'"
    by (auto split: sum.splits)
  have "{a. Some a \<in> set (T # Ts)} = {a. T = Some a} \<union> {a. Some a \<in> set Ts}" by auto
  with uids_assigned_compose[OF uids_assigned_one[OF f] Cons.IH[OF r]] show ?case by simp
qed

lemma seq_Cons_InrD:
  "seq (f # fs) s = Inr s' \<Longrightarrow> \<exists>s1. f s = Inr s1 \<and> seq fs s1 = Inr s'"
  by (cases "f s") auto

lemma case_sum_InrD:
  "(case r of Inl f \<Rightarrow> Inl f | Inr s1 \<Rightarrow> Inr (g s1)) = Inr y \<Longrightarrow> \<exists>s1. r = Inr s1 \<and> y = g s1"
  by (cases r) auto

lemma BatchNormNode_assign_uids_eq:
  "BatchNormNode_assign_uids_node n s =
     (case seq (map assign_new_uid (assigned_tensors (BatchNormNode n))) s of
        Inl f \<Rightarrow> Inl f | Inr s1 \<Rightarrow> Inr ((OK, ''''), n, s1))"
  by (simp only: BatchNormNode_assign_uids_node_def assigned_tensors.simps list.map)

lemma DBNNode_assign_uids_eq:
  "DBNNode_assign_uids_node n s =
     (case seq (map assign_new_uid (assigned_tensors (DBNNode n))) s of
        Inl f \<Rightarrow> Inl f | Inr s1 \<Rightarrow> Inr ((OK, ''''), n, s1))"
  by (simp only: DBNNode_assign_uids_node_def assigned_tensors.simps list.map)

lemma DgradNode_assign_uids_eq:
  "DgradNode_assign_uids_node n s =
     (case seq (map assign_new_uid (assigned_tensors (DgradNode n))) s of
        Inl f \<Rightarrow> Inl f | Inr s1 \<Rightarrow> Inr ((OK, ''''), n, s1))"
  by (simp only: DgradNode_assign_uids_node_def assigned_tensors.simps list.map)

lemma BatchNormNode_assign_uids:
  assumes "BatchNormNode_assign_uids_node n s = Inr (e, n', s')"
  shows "uids_assigned {a. Some a \<in> set (assigned_tensors (BatchNormNode n))} s s' \<and> e = (OK, '''') \<and> n' = n"
proof -
  from case_sum_InrD[OF assms[unfolded BatchNormNode_assign_uids_eq]]
  obtain s1 where "seq (map assign_new_uid (assigned_tensors (BatchNormNode n))) s = Inr s1"
    and "(e, n', s') = ((OK, ''''), n, s1)" by blast
  with seq_assign_new_uid[of "assigned_tensors (BatchNormNode n)" s s1] show ?thesis by blast
qed

lemma DBNNode_assign_uids:
  assumes "DBNNode_assign_uids_node n s = Inr (e, n', s')"
  shows "uids_assigned {a. Some a \<in> set (assigned_tensors (DBNNode n))} s s' \<and> e = (OK, '''') \<and> n' = n"
proof -
  from case_sum_InrD[OF assms[unfolded DBNNode_assign_uids_eq]]
  obtain s1 where "seq (map assign_new_uid (assigned_tensors (DBNNode n))) s = Inr s1"
    and "(e, n', s') = ((OK, ''''), n, s1)" by blast
  with seq_assign_new_uid[of "assigned_tensors (DBNNode n)" s s1] show ?thesis by blast
qed

lemma DgradNode_assign_uids:
  assumes "DgradNode_assign_uids_node n s = Inr (e, n', s')"
  shows "uids_assigned {a. Some a \<in> set (assigned_tensors (DgradNode n))} s s' \<and> e = (OK, '''') \<and> n' = n"
proof -
  from case_sum_InrD[OF assms[unfolded DgradNode_assign_uids_eq]]
  obtain s1 where "seq (map assign_new_uid (assigned_tensors (DgradNode n))) s = Inr s1"
    and "(e, n', s') = ((OK, ''''), n, s1)" by blast
  with seq_assign_new_uid[of "assigned_tensors (DgradNode n)" s s1] show ?thesis by blast
qed

lemma RngNode_assign_uids:
  assumes "RngNode_assign_uids_node n s = Inr (e, n', s')"
  shows "uids_assigned {a. Some a \<in> set (assigned_tensors (RngNode n))} s s' \<and> e = (OK, '''') \<and> n' = n"
proof -
  from case_sum_InrD[OF assms[unfolded RngNode_assign_uids_node_def]]
  obtain t where t: "seq [assign_new_uid_if_present (inputs (options n) Seed),
                          assign_new_uid_if_present (inputs (options n) Offset),
                          assign_new_uid (outputs (options n) Y)] s = Inr t"
    and r: "(e, n', s') = ((OK, ''''), n, t)" by blast
  from seq_Cons_InrD[OF t] obtain s1 where
    a: "assign_new_uid_if_present (inputs (options n) Seed) s = Inr s1"
    and t1: "seq [assign_new_uid_if_present (inputs (options n) Offset),
                  assign_new_uid (outputs (options n) Y)] s1 = Inr t" by blast
  from seq_Cons_InrD[OF t1] obtain s2 where
    b: "assign_new_uid_if_present (inputs (options n) Offset) s1 = Inr s2"
    and t2: "seq [assign_new_uid (outputs (options n) Y)] s2 = Inr t" by blast
  from seq_Cons_InrD[OF t2] obtain s3 where
    c0: "assign_new_uid (outputs (options n) Y) s2 = Inr s3" and "seq [] s3 = Inr t" by blast
  with r have c: "assign_new_uid (outputs (options n) Y) s2 = Inr s'"
    and e: "e = (OK, '''')" "n' = n" by simp_all
  have "{a. Some a \<in> set (assigned_tensors (RngNode n))} =
        ({a. inputs (options n) Seed = Some a} \<union> {a. inputs (options n) Offset = Some a}) \<union>
        {a. outputs (options n) Y = Some a}"
    by auto
  with uids_assigned_compose[OF uids_assigned_compose[OF uids_assigned_if_present[OF a]
         uids_assigned_if_present[OF b]] uids_assigned_one[OF c]] e
  show ?thesis by simp
qed

lemma case_sum_triple_InrD:
  "(case r of Inl f \<Rightarrow> Inl f | Inr (e, m, s1) \<Rightarrow> Inr s1) = Inr y \<Longrightarrow> \<exists>e m. r = Inr (e, m, y)"
  by (cases r) auto

lemma assign_uids_node_assigned:
  assumes "assign_uids_node n s = Inr s'"
  shows "uids_assigned {a. Some a \<in> set (assigned_tensors n)} s s'"
proof (cases n)
  case (BatchNormNode m)
  with assms have "\<exists>e m'. BatchNormNode_assign_uids_node m s = Inr (e, m', s')"
    by (simp only: assign_uids_node.simps case_sum_triple_InrD)
  with BatchNormNode show ?thesis using BatchNormNode_assign_uids[of m s] by blast
next
  case (DBNNode m)
  with assms have "\<exists>e m'. DBNNode_assign_uids_node m s = Inr (e, m', s')"
    by (simp only: assign_uids_node.simps case_sum_triple_InrD)
  with DBNNode show ?thesis using DBNNode_assign_uids[of m s] by blast
next
  case (DgradNode m)
  with assms have "\<exists>e m'. DgradNode_assign_uids_node m s = Inr (e, m', s')"
    by (simp only: assign_uids_node.simps case_sum_triple_InrD)
  with DgradNode show ?thesis using DgradNode_assign_uids[of m s] by blast
next
  case (RngNode m)
  with assms have "\<exists>e m'. RngNode_assign_uids_node m s = Inr (e, m', s')"
    by (simp only: assign_uids_node.simps case_sum_triple_InrD)
  with RngNode show ?thesis using RngNode_assign_uids[of m s] by blast
qed

lemma numbered_Cons:
  "numbered (n # ns) = {a. Some a \<in> set (assigned_tensors n)} \<union> numbered ns"
  by (auto simp: numbered_def)

lemma assign_uids_graph_assigned:
  "assign_uids_graph ns s = Inr s' \<Longrightarrow> uids_assigned (numbered ns) s s'"
proof (induction ns arbitrary: s)
  case Nil
  then show ?case by (simp add: assign_uids_graph_def numbered_def uids_assigned_empty)
next
  case (Cons n ns)
  from Cons.prems obtain s1 where f: "assign_uids_node n s = Inr s1"
    and r: "assign_uids_graph ns s1 = Inr s'"
    by (auto simp: assign_uids_graph_def split: sum.splits)
  from uids_assigned_compose[OF assign_uids_node_assigned[OF f] Cons.IH[OF r]]
  show ?case by (simp add: numbered_Cons)
qed

text \<open>
  After its own \<open>assign_uids_node\<close>, the tensors a node lists as involved in its operation
  are the ones it has just numbered, and distinct descriptors among them hold distinct
  identifiers.
\<close>

lemma tensors_involved_are_assigned:
  "set (BatchNormNode_tensors_involved_in_operation bn) = set (assigned_tensors (BatchNormNode bn))"
  "set (DBNNode_tensors_involved_in_operation dbn) = set (assigned_tensors (DBNNode dbn))"
  "set (DgradNode_tensors_involved_in_operation dg) = set (assigned_tensors (DgradNode dg))"
  "set (RngNode_tensors_involved_in_operation rng) = set (assigned_tensors (RngNode rng))"
  by (auto simp: BatchNormNode_tensors_involved_in_operation_def
        DBNNode_tensors_involved_in_operation_def DgradNode_tensors_involved_in_operation_def
        RngNode_tensors_involved_in_operation_def)

lemma assign_uids_node_distinct:
  assumes "assign_uids_node n s = Inr s'"
    and "Some a \<in> set (assigned_tensors n)" "Some b \<in> set (assigned_tensors n)" "a \<noteq> b"
  shows "uid (heap s' a) \<noteq> uid (heap s' b)"
  using assign_uids_node_assigned[OF assms(1)] assms(2-4)
  by (auto simp: uids_assigned_def inj_on_def)

lemma referenced_tensors_iff:
  "Some a \<in> set (referenced_tensors n) \<longleftrightarrow>
     Some a \<in> set (assigned_tensors n) \<or> (\<exists>d. n = DBNNode d \<and> inputs (options d) EPSILON = Some a)"
  by (cases n) auto

lemma referenced_eq:
  "referenced ns =
     numbered ns \<union> {a. \<exists>d. DBNNode d \<in> set ns \<and> inputs (options d) EPSILON = Some a}"
  unfolding referenced_def numbered_def referenced_tensors_iff by blast

text \<open>
  Claim C6, as amended. When the \<open>assign_uids\<close> calls of a build, on any nodes in any order,
  have all returned: no two distinct descriptors that an \<open>assign_uids_node\<close> line writes
  through hold the same identifier; each of them holds an identifier created during those
  calls; every other descriptor holds what it held before; and the descriptors the nodes
  refer to are the ones written through together with the \<open>EPSILON\<close> of each \<open>DBNNode\<close>.
  So the \<open>EPSILON\<close> of a \<open>DBNNode\<close>, unless some other role or node has it numbered, receives
  no identifier and keeps its own, and uniqueness does not extend to it. An identifier is
  not fixed once assigned: the same statement for a single node says that every
  \<open>assign_uids_node\<close> leaves each descriptor it writes through with an identifier created
  during that call, so a descriptor shared by several nodes is reassigned by each of them.
\<close>

theorem assign_uids_graph_distinct_identifiers:
  assumes "assign_uids_graph ns s = Inr s'"
  shows "(\<forall>a \<in> numbered ns. \<forall>b \<in> numbered ns. a \<noteq> b \<longrightarrow> uid (heap s' a) \<noteq> uid (heap s' b)) \<and>
         (\<forall>a \<in> numbered ns. uid_counter s < uid (heap s' a) \<and> uid (heap s' a) \<le> uid_counter s') \<and>
         (\<forall>a. a \<notin> numbered ns \<longrightarrow> uid (heap s' a) = uid (heap s a)) \<and>
         referenced ns =
           numbered ns \<union> {a. \<exists>d. DBNNode d \<in> set ns \<and> inputs (options d) EPSILON = Some a}"
  using assign_uids_graph_assigned[OF assms] referenced_eq[of ns]
  by (auto simp: uids_assigned_def inj_on_def)

theorem assign_uids_graph_distinct_identifiers_witness:
  "\<exists>s'. assign_uids_graph
          [DgradNode dgrad_example, DgradNode dgrad_consumer_example,
           DBNNode dbn_full_example, DBNNode dbn_second_example] dgrad_example_store = Inr s' \<and>
     1 \<in> numbered [DgradNode dgrad_example, DgradNode dgrad_consumer_example,
                     DBNNode dbn_full_example, DBNNode dbn_second_example] \<and>
     2 \<in> numbered [DgradNode dgrad_example, DgradNode dgrad_consumer_example,
                     DBNNode dbn_full_example, DBNNode dbn_second_example] \<and>
     8 \<notin> numbered [DgradNode dgrad_example, DgradNode dgrad_consumer_example,
                     DBNNode dbn_full_example, DBNNode dbn_second_example] \<and>
     18 \<notin> numbered [DgradNode dgrad_example, DgradNode dgrad_consumer_example,
                     DBNNode dbn_full_example, DBNNode dbn_second_example] \<and>
     8 \<in> referenced [DgradNode dgrad_example, DgradNode dgrad_consumer_example,
                     DBNNode dbn_full_example, DBNNode dbn_second_example] \<and>
     18 \<in> referenced [DgradNode dgrad_example, DgradNode dgrad_consumer_example,
                     DBNNode dbn_full_example, DBNNode dbn_second_example] \<and>
     uid (heap s' 1) \<noteq> uid (heap s' 2) \<and>
     uid_counter dgrad_example_store < uid (heap s' 2) \<and>
     uid (heap s' 2) \<le> uid_counter s' \<and>
     uid (heap s' 8) = uid (heap dgrad_example_store 8) \<and>
     uid (heap s' 18) = uid (heap dgrad_example_store 18) \<and>
     uid (heap s' 8) = uid (heap s' 18)"
proof -
  let ?ns = "[DgradNode dgrad_example, DgradNode dgrad_consumer_example,
              DBNNode dbn_full_example, DBNNode dbn_second_example]"
  let ?E = "{a. \<exists>d. DBNNode d \<in> set ?ns \<and> inputs (options d) EPSILON = Some a}"
  have "\<exists>s'. assign_uids_graph ?ns dgrad_example_store = Inr s'"
    by (simp add: assign_uids_graph_def DgradNode_assign_uids_node_def
          DBNNode_assign_uids_node_def dgrad_example_def dgrad_consumer_example_def
          dbn_full_example_def dbn_second_example_def dbn_example_def no_tensor_def
          assign_new_uid_Some)
  then obtain s' where run: "assign_uids_graph ?ns dgrad_example_store = Inr s'" by blast
  have m: "1 \<in> numbered ?ns" "2 \<in> numbered ?ns" "8 \<notin> numbered ?ns" "18 \<notin> numbered ?ns"
    by (simp_all add: numbered_def dgrad_example_def dgrad_consumer_example_def
          dbn_full_example_def dbn_second_example_def dbn_example_def no_tensor_def)
  have "DBNNode dbn_full_example \<in> set ?ns \<and>
        inputs (options dbn_full_example) EPSILON = Some 8"
    by (simp add: dbn_full_example_def)
  then have e8: "8 \<in> ?E" by blast
  have "DBNNode dbn_second_example \<in> set ?ns \<and>
        inputs (options dbn_second_example) EPSILON = Some 18"
    by (simp add: dbn_second_example_def)
  then have e18: "18 \<in> ?E" by blast
  have z: "uid (heap dgrad_example_store 8) = uid (heap dgrad_example_store 18)"
    by (simp add: dgrad_example_store_def store_of_def blank_tensor_def)
  note c6 = assign_uids_graph_distinct_identifiers[OF run]
  note distinct = c6[THEN conjunct1]
  note created = c6[THEN conjunct2, THEN conjunct1]
  note kept = c6[THEN conjunct2, THEN conjunct2, THEN conjunct1]
  note refs = c6[THEN conjunct2, THEN conjunct2, THEN conjunct2]
  from distinct m(1,2) have u1: "uid (heap s' 1) \<noteq> uid (heap s' 2)" by fastforce
  from created m(2) have u2: "uid_counter dgrad_example_store < uid (heap s' 2)"
    "uid (heap s' 2) \<le> uid_counter s'" by blast+
  from kept m(3,4) have u3: "uid (heap s' 8) = uid (heap dgrad_example_store 8)"
    "uid (heap s' 18) = uid (heap dgrad_example_store 18)" by blast+
  from u3 z have u4: "uid (heap s' 8) = uid (heap s' 18)" by simp
  from refs e8 e18 have r: "8 \<in> referenced ?ns" "18 \<in> referenced ?ns" by blast+
  from run m u1 u2 u3 u4 r show ?thesis by blast
qed

text \<open>
  Claim C6 as it is written fails where it says that an identifier is never reassigned:
  the \<open>DX\<close> of one \<open>DgradNode\<close> is the \<open>DY\<close> of the next; after the first node's
  \<open>assign_uids_node\<close> the descriptor holds 3, after the second node's it holds 4.
\<close>

theorem shared_descriptor_reassigned_counterexample:
  "uid_after 2 (assign_uids_graph [DgradNode dgrad_example] dgrad_example_store) = Inr 3 \<and>
   uid_after 2 (assign_uids_graph [DgradNode dgrad_example, DgradNode dgrad_consumer_example]
                  dgrad_example_store) = Inr 4"
  by (simp add: assign_uids_graph_def DgradNode_assign_uids_node_def dgrad_example_def
      dgrad_consumer_example_def no_tensor_def assign_new_uid_Some uid_after_def
      dgrad_example_store_def store_of_def blank_tensor_def)


section \<open>Operation records\<close>

lemma fault_bind_Inr_iff:
  "fault_bind m k = Inr r \<longleftrightarrow> (\<exists>a. m = Inr a \<and> k a = Inr r)"
  by (cases m) (simp_all add: fault_bind_def)

lemma fault_bind_Inl [simp]: "fault_bind (Inl f) k = Inl f"
  by (simp add: fault_bind_def)

lemma fault_bind_Inr [simp]: "fault_bind (Inr a) k = k a"
  by (simp add: fault_bind_def)

lemma tensors_at_Inr_iff:
  "tensors_at n s T = Inr h \<longleftrightarrow> (\<exists>a. T = Some a \<and> tensors n (uid (heap s a)) = Some h)"
  by (cases T) (auto simp: tensors_at_def split: option.splits)

lemma tensors_at_None [simp]: "tensors_at n s None = Inl NullPointerDereference"
  by (simp add: tensors_at_def)

lemma build_and_push_Inr_iff:
  "build_and_push bk op ts n s = Inr r \<longleftrightarrow>
     operation_accepted bk op \<and>
     r = ((OK, ''''), n\<lparr>operations := operations n @ [(op, push_real_uids s ts [])]\<rparr>, s)"
  by (auto simp: build_and_push_def)

lemma push_real_uids_eq:
  "push_real_uids s ts acc =
     acc @ map (\<lambda>a. uid (heap s a)) (filter (\<lambda>a. \<not> is_virtual (heap s a)) (present ts))"
  by (induction ts arbitrary: acc rule: present.induct) auto

lemma set_present: "set (present ts) = {a. Some a \<in> set ts}"
  by (induction ts rule: present.induct) auto

lemma optional_value_Inr_iff: "optional_value v = Inr a \<longleftrightarrow> v = Some a"
  by (cases v) (simp_all add: optional_value_def)

lemma not_Inr_Inl: "(\<And>r. x \<noteq> Inr r) \<Longrightarrow> \<exists>f. x = Inl f"
  by (cases x) auto

lemma create_cudnn_tensor_Some_total:
  "\<exists>e n'. create_cudnn_tensor bk s (Some a) n = Inr (e, n')"
  by (simp add: create_cudnn_tensor_def Let_def)

lemma create_cudnn_tensor_if_present_total:
  "\<exists>e n'. create_cudnn_tensor_if_present bk s T n = Inr (e, n')"
  by (cases T) (simp_all add: create_cudnn_tensor_if_present_def create_cudnn_tensor_def Let_def)

lemma check_seq_total:
  "(\<And>f m. f \<in> set fs \<Longrightarrow> \<exists>e m'. f m = Inr (e, m')) \<Longrightarrow> \<exists>e n'. check_seq fs n = Inr (e, n')"
proof (induction fs arbitrary: n)
  case Nil
  then show ?case by simp
next
  case (Cons f fs)
  from Cons.prems[of f n] obtain e m where f: "f n = Inr (e, m)" by auto
  have "\<exists>e n'. check_seq fs m = Inr (e, n')"
    by (rule Cons.IH) (use Cons.prems in auto)
  with f show ?case by auto
qed

lemmas rng_eval =
  RngNode_createOperations_def RngNode_tensors_involved_in_operation_def
  rng_example_def rng_static_example_def rng_no_offset_example_def rng_uniform_example_def
  rng_example_store_def store_of_def blank_tensor_def no_tensor_def accept_all_def
  float_context_def tensors_at_def optional_value_def build_and_push_def Let_def

text \<open>
  Every \<open>createOperations\<close> ends in one \<open>push_back\<close> of the operation it has built together
  with the identifiers pushed from \<open>tensors_involved_in_operation\<close>.
\<close>

lemma push_real_uids_real_uids: "push_real_uids s ts [] = real_uids s ts"
  by (simp add: push_real_uids_eq real_uids_def)

lemma set_real_uids:
  "set (real_uids s ts) = {uid (heap s a) | a. Some a \<in> set ts \<and> \<not> is_virtual (heap s a)}"
  by (auto simp: real_uids_def set_present)

lemma build_and_push_record:
  assumes "build_and_push bk op involved n s = Inr (e, n', s')"
    and "Inr ` set (bound_handles op) = tensors_at n s ` set bound"
  shows "e = (OK, '''') \<and> s' = s \<and> record_appended n s involved bound n'"
  using assms
  by (auto simp: build_and_push_Inr_iff record_appended_def push_real_uids_real_uids)

lemma BatchNormNode_createOperations_record:
  assumes "BatchNormNode_createOperations bk n s = Inr (e, n', s')"
  shows "e = (OK, '''') \<and> s' = s \<and>
         record_appended n s (BatchNormNode_tensors_involved_in_operation n)
           (BatchNormNode_tensors_involved_in_operation n) n'"
proof -
  from assms[unfolded BatchNormNode_createOperations_def fault_bind_Inr_iff]
  obtain x mean inv_variance scale bias prm prv nrm nrv epsilon momentum y where
    t: "tensors_at n s (inputs (options n) X) = Inr x"
      "tensors_at n s (outputs (options n) MEAN) = Inr mean"
      "tensors_at n s (outputs (options n) INV_VARIANCE) = Inr inv_variance"
      "tensors_at n s (inputs (options n) SCALE) = Inr scale"
      "tensors_at n s (inputs (options n) BIAS) = Inr bias"
      "tensors_at n s (inputs (options n) PREV_RUNNING_MEAN) = Inr prm"
      "tensors_at n s (inputs (options n) PREV_RUNNING_VAR) = Inr prv"
      "tensors_at n s (outputs (options n) NEXT_RUNNING_MEAN) = Inr nrm"
      "tensors_at n s (outputs (options n) NEXT_RUNNING_VAR) = Inr nrv"
      "tensors_at n s (inputs (options n) EPSILON) = Inr epsilon"
      "tensors_at n s (inputs (options n) MOMENTUM) = Inr momentum"
      "tensors_at n s (outputs (options n) Y) = Inr y"
    and b: "build_and_push bk
         (OperationBuilder OPERATION_NORM_FORWARD_DESCRIPTOR
            [setNormalizationMode_BATCH_NORM,
             setNormFwdPhase (forward_phase (options n)),
             setxDesc x,
             setSavedMeanAndInvVar mean inv_variance,
             setScaleAndBias scale bias,
             setPrevRunningMeanAndVar prm prv,
             setNextRunningMeanAndVar nrm nrv,
             setEpsilonTensor epsilon,
             setExpDecayFactorTensor momentum,
             setyDesc y])
         (BatchNormNode_tensors_involved_in_operation n) n s = Inr (e, n', s')"
    by (elim exE conjE)
  show ?thesis
    by (rule build_and_push_record[OF b])
       (auto simp: BatchNormNode_tensors_involved_in_operation_def t)
qed

lemma DBNNode_createOperations_record:
  assumes "DBNNode_createOperations bk n s = Inr (e, n', s')"
  shows "e = (OK, '''') \<and> s' = s \<and>
         record_appended n s (DBNNode_tensors_involved_in_operation n)
           (DBNNode_tensors_involved_in_operation n) n'"
proof -
  from assms[unfolded DBNNode_createOperations_def fault_bind_Inr_iff]
  obtain x dy scale mean inv_variance dscale dbias dx where
    t: "tensors_at n s (inputs (options n) X) = Inr x"
      "tensors_at n s (inputs (options n) DY) = Inr dy"
      "tensors_at n s (inputs (options n) SCALE) = Inr scale"
      "tensors_at n s (inputs (options n) MEAN) = Inr mean"
      "tensors_at n s (inputs (options n) INV_VARIANCE) = Inr inv_variance"
      "tensors_at n s (outputs (options n) DSCALE) = Inr dscale"
      "tensors_at n s (outputs (options n) DBIAS) = Inr dbias"
      "tensors_at n s (outputs (options n) DX) = Inr dx"
    and b: "build_and_push bk
         (OperationBuilder OPERATION_NORM_BACKWARD_DESCRIPTOR
            [setNormalizationMode_BATCH_NORM,
             setxDesc x,
             setdyDesc dy,
             setScale scale,
             setSavedMeanAndInvVar mean inv_variance,
             setDScaleAndDBias dscale dbias,
             setdxDesc dx])
         (DBNNode_tensors_involved_in_operation n) n s = Inr (e, n', s')"
    by (elim exE conjE)
  show ?thesis
    by (rule build_and_push_record[OF b])
       (auto simp: DBNNode_tensors_involved_in_operation_def t)
qed

lemma DgradNode_createOperations_record:
  assumes "DgradNode_createOperations bk n s = Inr (e, n', s')"
  shows "e = (OK, '''') \<and> s' = s \<and>
         record_appended n s (DgradNode_tensors_involved_in_operation n)
           (DgradNode_tensors_involved_in_operation n) n'"
proof -
  from assms obtain c dx w dy where
    t: "tensors_at n s (outputs (options n) DX) = Inr dx"
      "tensors_at n s (inputs (options n) W) = Inr w"
      "tensors_at n s (inputs (options n) DY) = Inr dy"
    and b: "build_and_push bk
            (OperationBuilder OPERATION_CONVOLUTION_BACKWARD_DATA_DESCRIPTOR
               [setdxDesc dx, setwDesc w, setdyDesc dy, setcDesc c, setAlpha 1, setBeta 0])
            (DgradNode_tensors_involved_in_operation n) n s = Inr (e, n', s')"
    unfolding DgradNode_createOperations_def Let_def
    by (auto simp: fault_bind_Inr_iff split: if_splits)
  show ?thesis
    by (rule build_and_push_record[OF b])
       (auto simp: DgradNode_tensors_involved_in_operation_def t)
qed

lemma RngNode_createOperations_record:
  assumes "RngNode_createOperations bk n s = Inr (e, n', s')"
  shows "e = (OK, '''') \<and> s' = s \<and>
      (distribution (options n) \<noteq> BERNOULLI \<longrightarrow> n' = n) \<and>
      (distribution (options n) = BERNOULLI \<and> inputs (options n) Seed \<noteq> None \<longrightarrow>
         record_appended n s (RngNode_tensors_involved_in_operation n)
           (RngNode_tensors_involved_in_operation n) n') \<and>
      (distribution (options n) = BERNOULLI \<and> inputs (options n) Seed = None \<longrightarrow>
         record_appended n s (RngNode_tensors_involved_in_operation n)
           [outputs (options n) Y] n')"
proof (cases "distribution (options n) = BERNOULLI")
  case False
  with assms show ?thesis by (simp add: RngNode_createOperations_def)
next
  case True
  show ?thesis
  proof (cases "inputs (options n) Seed = None")
    case False
    with assms True obtain p y sh oh where
      t: "tensors_at n s (outputs (options n) Y) = Inr y"
        "tensors_at n s (inputs (options n) Seed) = Inr sh"
        "tensors_at n s (inputs (options n) Offset) = Inr oh"
      and b: "build_and_push bk (OperationBuilder OPERATION_RNG_DESCRIPTOR
                     [setyDesc y, setRngDesc (RngDesc BERNOULLI p), setSeedDesc sh, setOffsetDesc oh])
         (RngNode_tensors_involved_in_operation n) n s = Inr (e, n', s')"
      unfolding RngNode_createOperations_def Let_def
      by (auto simp: fault_bind_Inr_iff optional_value_Inr_iff split: if_splits)
    have "e = (OK, '''') \<and> s' = s \<and> record_appended n s (RngNode_tensors_involved_in_operation n)
           (RngNode_tensors_involved_in_operation n) n'"
      by (rule build_and_push_record[OF b])
         (auto simp: RngNode_tensors_involved_in_operation_def t)
    with True False show ?thesis by auto
  next
    case None: True
    with assms \<open>distribution (options n) = BERNOULLI\<close> obtain p y v where
      t: "tensors_at n s (outputs (options n) Y) = Inr y"
      and b: "build_and_push bk (OperationBuilder OPERATION_RNG_DESCRIPTOR
                     [setyDesc y, setRngDesc (RngDesc BERNOULLI p), setSeed v])
         (RngNode_tensors_involved_in_operation n) n s = Inr (e, n', s')"
      unfolding RngNode_createOperations_def Let_def
      by (auto simp: fault_bind_Inr_iff optional_value_Inr_iff split: if_splits)
    have "e = (OK, '''') \<and> s' = s \<and> record_appended n s (RngNode_tensors_involved_in_operation n)
           [outputs (options n) Y] n'"
      by (rule build_and_push_record[OF b]) (simp add: t)
    with None \<open>distribution (options n) = BERNOULLI\<close> show ?thesis by auto
  qed
qed

lemma virtual_not_in_real_uids:
  assumes "assign_uids_graph ns s0 = Inr s"
    and "{a. Some a \<in> set ts} \<subseteq> numbered ns"
    and "a \<in> numbered ns" and "is_virtual (heap s a)"
  shows "uid (heap s a) \<notin> set (real_uids s ts)"
proof
  assume "uid (heap s a) \<in> set (real_uids s ts)"
  then obtain b where b: "Some b \<in> set ts" "\<not> is_virtual (heap s b)"
    "uid (heap s a) = uid (heap s b)"
    by (auto simp: set_real_uids)
  from assign_uids_graph_assigned[OF assms(1)] have "inj_on (\<lambda>a. uid (heap s a)) (numbered ns)"
    by (simp add: uids_assigned_def)
  moreover from b(1) assms(2) have "b \<in> numbered ns" by auto
  ultimately have "a = b" using assms(3) b(3) by (auto simp: inj_on_def)
  with assms(4) b(2) show False by simp
qed

lemma data_type_set_uid [simp]:
  "data_type (heap (set_uid a u s) b) = data_type (heap s b)"
  by (simp add: set_uid_def)

lemmas build_eval =
  assign_uids_graph_def BatchNormNode_assign_uids_node_def DBNNode_assign_uids_node_def
  DgradNode_assign_uids_node_def RngNode_assign_uids_node_def assign_new_uid_if_present_def
  assign_new_uid_Some
  BatchNormNode_createTensors_def DBNNode_createTensors_def DgradNode_createTensors_def
  RngNode_createTensors_def create_cudnn_tensor_def create_cudnn_tensor_if_present_def
  BatchNormNode_createOperations_def DBNNode_createOperations_def DgradNode_createOperations_def
  RngNode_createOperations_def
  BatchNormNode_tensors_involved_in_operation_def DBNNode_tensors_involved_in_operation_def
  DgradNode_tensors_involved_in_operation_def RngNode_tensors_involved_in_operation_def
  tensors_at_def build_and_push_def optional_value_def data_prefix_def real_uids_def
  bn_example_def bn_example_store_def dbn_example_def dbn_example_store_def
  dgrad_example_def dgrad_example_store_def rng_fresh_example_def rng_fresh_store_def
  rng_example_def rng_static_offset_example_def rng_static_offset_store_def
  store_of_def blank_tensor_def no_tensor_def accept_all_def float_context_def Let_def


lemma BatchNormNode_createOperations_total:
  assumes "\<forall>T \<in> set (BatchNormNode_tensors_involved_in_operation n). \<exists>h. tensors_at n s T = Inr h"
    and "\<forall>op. operation_accepted bk op"
  shows "\<exists>e n'. BatchNormNode_createOperations bk n s = Inr (e, n', s)"
proof -
  from assms(1) obtain x prm prv epsilon momentum scale bias y mean inv_variance nrm nrv where
    "tensors_at n s (inputs (options n) X) = Inr x"
    "tensors_at n s (inputs (options n) PREV_RUNNING_MEAN) = Inr prm"
    "tensors_at n s (inputs (options n) PREV_RUNNING_VAR) = Inr prv"
    "tensors_at n s (inputs (options n) EPSILON) = Inr epsilon"
    "tensors_at n s (inputs (options n) MOMENTUM) = Inr momentum"
    "tensors_at n s (inputs (options n) SCALE) = Inr scale"
    "tensors_at n s (inputs (options n) BIAS) = Inr bias"
    "tensors_at n s (outputs (options n) Y) = Inr y"
    "tensors_at n s (outputs (options n) MEAN) = Inr mean"
    "tensors_at n s (outputs (options n) INV_VARIANCE) = Inr inv_variance"
    "tensors_at n s (outputs (options n) NEXT_RUNNING_MEAN) = Inr nrm"
    "tensors_at n s (outputs (options n) NEXT_RUNNING_VAR) = Inr nrv"
    unfolding BatchNormNode_tensors_involved_in_operation_def list.set ball_simps
    by (elim conjE exE)
  with assms(2) show ?thesis
    by (simp add: BatchNormNode_createOperations_def build_and_push_def)
qed

lemma DBNNode_createOperations_total:
  assumes "\<forall>T \<in> set (DBNNode_tensors_involved_in_operation n). \<exists>h. tensors_at n s T = Inr h"
    and "\<forall>op. operation_accepted bk op"
  shows "\<exists>e n'. DBNNode_createOperations bk n s = Inr (e, n', s)"
proof -
  from assms(1) obtain x dy scale mean inv_variance dx dscale dbias where
    "tensors_at n s (inputs (options n) X) = Inr x"
    "tensors_at n s (inputs (options n) DY) = Inr dy"
    "tensors_at n s (inputs (options n) SCALE) = Inr scale"
    "tensors_at n s (inputs (options n) MEAN) = Inr mean"
    "tensors_at n s (inputs (options n) INV_VARIANCE) = Inr inv_variance"
    "tensors_at n s (outputs (options n) DX) = Inr dx"
    "tensors_at n s (outputs (options n) DSCALE) = Inr dscale"
    "tensors_at n s (outputs (options n) DBIAS) = Inr dbias"
    unfolding DBNNode_tensors_involved_in_operation_def list.set ball_simps
    by (elim conjE exE)
  with assms(2) show ?thesis
    by (simp add: DBNNode_createOperations_def build_and_push_def)
qed

lemma BatchNormNode_lifecycle_example:
  "\<exists>s1 n2.
     assign_uids_graph [BatchNormNode bn_example] bn_example_store = Inr s1 \<and>
     BatchNormNode_createTensors accept_all bn_example s1 = Inr ((OK, ''''), n2, s1) \<and>
     (\<forall>T \<in> set (BatchNormNode_tensors_involved_in_operation n2). \<exists>h. tensors_at n2 s1 T = Inr h) \<and>
     real_uids s1 (BatchNormNode_tensors_involved_in_operation n2) =
       [1, 4, 5, 6, 7, 2, 3, 8, 9, 10, 11, 12]"
  by (simp add: build_eval)

lemma DBNNode_lifecycle_example:
  "\<exists>s1 n2.
     assign_uids_graph [DBNNode dbn_example] dbn_example_store = Inr s1 \<and>
     DBNNode_createTensors accept_all dbn_example s1 = Inr ((OK, ''''), n2, s1) \<and>
     (\<forall>T \<in> set (DBNNode_tensors_involved_in_operation n2). \<exists>h. tensors_at n2 s1 T = Inr h) \<and>
     real_uids s1 (DBNNode_tensors_involved_in_operation n2) = [1, 2, 3, 4, 5, 6, 7, 8]"
  by (simp add: build_eval)


lemma DgradNode_lifecycle_example:
  "\<exists>s1 n2 e n3.
     assign_uids_graph [DgradNode dgrad_example] dgrad_example_store = Inr s1 \<and>
     DgradNode_createTensors accept_all dgrad_example s1 = Inr ((OK, ''''), n2, s1) \<and>
     DgradNode_createOperations accept_all n2 s1 = Inr (e, n3, s1) \<and>
     real_uids s1 (DgradNode_tensors_involved_in_operation n2) = [3, 2, 1]"
  by (simp add: build_eval)

lemma RngNode_lifecycle_example:
  "\<exists>s1 n2 e n3.
     assign_uids_graph [RngNode rng_fresh_example] rng_fresh_store = Inr s1 \<and>
     RngNode_createTensors accept_all rng_fresh_example s1 = Inr ((OK, ''''), n2, s1) \<and>
     RngNode_createOperations accept_all n2 s1 = Inr (e, n3, s1) \<and>
     distribution (options n2) = BERNOULLI \<and> inputs (options n2) Seed \<noteq> None \<and>
     RngNode_tensors_involved_in_operation n2 = [Some 0, Some 1, Some 2] \<and>
     real_uids s1 (RngNode_tensors_involved_in_operation n2) = [2, 3] \<and>
     is_virtual (heap s1 0) \<and> uid (heap s1 0) = 1"
  by (simp add: build_eval)

lemma RngNode_literal_seed_example:
  "\<exists>e n3.
     RngNode_createOperations accept_all rng_static_offset_example rng_static_offset_store =
       Inr (e, n3, rng_static_offset_store) \<and>
     distribution (options rng_static_offset_example) = BERNOULLI \<and>
     inputs (options rng_static_offset_example) Seed = None \<and>
     RngNode_tensors_involved_in_operation rng_static_offset_example = [None, Some 1, Some 2] \<and>
     outputs (options rng_static_offset_example) Y = Some 2 \<and>
     real_uids rng_static_offset_store (RngNode_tensors_involved_in_operation rng_static_offset_example) = [1, 2]"
  by (simp add: build_eval)

lemma RngNode_uniform_example:
  "\<exists>e n3.
     RngNode_createOperations accept_all rng_uniform_example rng_example_store =
       Inr (e, n3, rng_example_store) \<and>
     distribution (options rng_uniform_example) \<noteq> BERNOULLI"
  by (simp add: build_eval rng_uniform_example_def rng_example_store_def)

text \<open>
  Claim C7, as amended. For every node kind, a \<open>createOperations\<close> that returns leaves the
  store as it was and has appended exactly one operation record; an \<open>RngNode\<close> whose
  distribution is not Bernoulli appends none. The identifier list of the record is, in
  order, the identifiers of the descriptors of the node's \<open>tensors_involved_in_operation\<close>
  that are present and not virtual: an absent optional tensor contributes nothing and a
  virtual tensor contributes nothing. The handles bound by the operation are those of all
  the tensors of that list, except for an \<open>RngNode\<close> with a literal seed: its operation
  binds \<open>Y\<close> only, while the list is still pushed from \<open>Seed\<close>, \<open>Offset\<close> and \<open>Y\<close>. In a
  store left by the \<open>assign_uids\<close> calls of the build, with the descriptors of the list
  among those numbered by these calls, the list holds no identifier of a numbered virtual
  descriptor.
\<close>

theorem createOperations_appends_one_record_of_real_tensors:
  "(BatchNormNode_createOperations bk bn s = Inr (e, bn', s') \<longrightarrow>
      e = (OK, '''') \<and> s' = s \<and>
      record_appended bn s (BatchNormNode_tensors_involved_in_operation bn)
        (BatchNormNode_tensors_involved_in_operation bn) bn') \<and>
   (DBNNode_createOperations bk dbn s = Inr (e, dbn', s') \<longrightarrow>
      e = (OK, '''') \<and> s' = s \<and>
      record_appended dbn s (DBNNode_tensors_involved_in_operation dbn)
        (DBNNode_tensors_involved_in_operation dbn) dbn') \<and>
   (DgradNode_createOperations bk dg s = Inr (e, dg', s') \<longrightarrow>
      e = (OK, '''') \<and> s' = s \<and>
      record_appended dg s (DgradNode_tensors_involved_in_operation dg)
        (DgradNode_tensors_involved_in_operation dg) dg') \<and>
   (RngNode_createOperations bk rng s = Inr (e, rng', s') \<longrightarrow>
      e = (OK, '''') \<and> s' = s \<and>
      (distribution (options rng) \<noteq> BERNOULLI \<longrightarrow> rng' = rng) \<and>
      (distribution (options rng) = BERNOULLI \<and> inputs (options rng) Seed \<noteq> None \<longrightarrow>
         record_appended rng s (RngNode_tensors_involved_in_operation rng)
           (RngNode_tensors_involved_in_operation rng) rng') \<and>
      (distribution (options rng) = BERNOULLI \<and> inputs (options rng) Seed = None \<longrightarrow>
         record_appended rng s (RngNode_tensors_involved_in_operation rng)
           [outputs (options rng) Y] rng')) \<and>
   set (real_uids s involved) =
     {uid (heap s a) | a. Some a \<in> set involved \<and> \<not> is_virtual (heap s a)} \<and>
   (assign_uids_graph ns s0 = Inr s \<and> {a. Some a \<in> set involved} \<subseteq> numbered ns \<longrightarrow>
      (\<forall>a \<in> numbered ns. is_virtual (heap s a) \<longrightarrow> uid (heap s a) \<notin> set (real_uids s involved)))"
proof (intro conjI impI ballI)
  assume "BatchNormNode_createOperations bk bn s = Inr (e, bn', s')"
  from BatchNormNode_createOperations_record[OF this]
  show "e = (OK, '''')" "s' = s"
    "record_appended bn s (BatchNormNode_tensors_involved_in_operation bn)
        (BatchNormNode_tensors_involved_in_operation bn) bn'" by simp_all
next
  assume "DBNNode_createOperations bk dbn s = Inr (e, dbn', s')"
  from DBNNode_createOperations_record[OF this]
  show "e = (OK, '''')" "s' = s"
    "record_appended dbn s (DBNNode_tensors_involved_in_operation dbn)
        (DBNNode_tensors_involved_in_operation dbn) dbn'" by simp_all
next
  assume "DgradNode_createOperations bk dg s = Inr (e, dg', s')"
  from DgradNode_createOperations_record[OF this]
  show "e = (OK, '''')" "s' = s"
    "record_appended dg s (DgradNode_tensors_involved_in_operation dg)
        (DgradNode_tensors_involved_in_operation dg) dg'" by simp_all
next
  assume r: "RngNode_createOperations bk rng s = Inr (e, rng', s')"
  note R = RngNode_createOperations_record[OF r]
  from R show "e = (OK, '''')" "s' = s" by simp_all
  { assume "distribution (options rng) \<noteq> BERNOULLI"
    with R show "rng' = rng" by simp }
  { assume "distribution (options rng) = BERNOULLI \<and> inputs (options rng) Seed \<noteq> None"
    with R show "record_appended rng s (RngNode_tensors_involved_in_operation rng)
           (RngNode_tensors_involved_in_operation rng) rng'" by simp }
  { assume "distribution (options rng) = BERNOULLI \<and> inputs (options rng) Seed = None"
    with R show "record_appended rng s (RngNode_tensors_involved_in_operation rng)
           [outputs (options rng) Y] rng'" by simp }
next
  show "set (real_uids s involved) =
     {uid (heap s a) | a. Some a \<in> set involved \<and> \<not> is_virtual (heap s a)}"
    by (rule set_real_uids)
next
  fix a
  assume "assign_uids_graph ns s0 = Inr s \<and> {a. Some a \<in> set involved} \<subseteq> numbered ns"
    and "a \<in> numbered ns" and "is_virtual (heap s a)"
  then show "uid (heap s a) \<notin> set (real_uids s involved)"
    using virtual_not_in_real_uids[of ns s0 s involved a] by blast
qed

theorem createOperations_appends_one_record_of_real_tensors_witness:
  "(\<exists>s n n'.
      assign_uids_graph [BatchNormNode bn_example] bn_example_store = Inr s \<and>
      BatchNormNode_createTensors accept_all bn_example s = Inr ((OK, ''''), n, s) \<and>
      BatchNormNode_createOperations accept_all n s = Inr ((OK, ''''), n', s) \<and>
      record_appended n s (BatchNormNode_tensors_involved_in_operation n)
        (BatchNormNode_tensors_involved_in_operation n) n' \<and>
      real_uids s (BatchNormNode_tensors_involved_in_operation n) =
        [1, 4, 5, 6, 7, 2, 3, 8, 9, 10, 11, 12]) \<and>
   (\<exists>s n n'.
      assign_uids_graph [DBNNode dbn_example] dbn_example_store = Inr s \<and>
      DBNNode_createTensors accept_all dbn_example s = Inr ((OK, ''''), n, s) \<and>
      DBNNode_createOperations accept_all n s = Inr ((OK, ''''), n', s) \<and>
      record_appended n s (DBNNode_tensors_involved_in_operation n)
        (DBNNode_tensors_involved_in_operation n) n' \<and>
      real_uids s (DBNNode_tensors_involved_in_operation n) = [1, 2, 3, 4, 5, 6, 7, 8]) \<and>
   (\<exists>s n n'.
      assign_uids_graph [DgradNode dgrad_example] dgrad_example_store = Inr s \<and>
      DgradNode_createTensors accept_all dgrad_example s = Inr ((OK, ''''), n, s) \<and>
      DgradNode_createOperations accept_all n s = Inr ((OK, ''''), n', s) \<and>
      record_appended n s (DgradNode_tensors_involved_in_operation n)
        (DgradNode_tensors_involved_in_operation n) n' \<and>
      real_uids s (DgradNode_tensors_involved_in_operation n) = [3, 2, 1]) \<and>
   (\<exists>s n n'.
      assign_uids_graph [RngNode rng_fresh_example] rng_fresh_store = Inr s \<and>
      RngNode_createTensors accept_all rng_fresh_example s = Inr ((OK, ''''), n, s) \<and>
      RngNode_createOperations accept_all n s = Inr ((OK, ''''), n', s) \<and>
      record_appended n s (RngNode_tensors_involved_in_operation n)
        (RngNode_tensors_involved_in_operation n) n' \<and>
      RngNode_tensors_involved_in_operation n = [Some 0, Some 1, Some 2] \<and>
      real_uids s (RngNode_tensors_involved_in_operation n) = [2, 3] \<and>
      set (real_uids s (RngNode_tensors_involved_in_operation n)) =
        {uid (heap s a) | a. Some a \<in> set (RngNode_tensors_involved_in_operation n) \<and>
                             \<not> is_virtual (heap s a)} \<and>
      0 \<in> numbered [RngNode rng_fresh_example] \<and> is_virtual (heap s 0) \<and>
      uid (heap s 0) = 1 \<and>
      uid (heap s 0) \<notin> set (real_uids s (RngNode_tensors_involved_in_operation n))) \<and>
   (\<exists>n'.
      RngNode_createOperations accept_all rng_static_offset_example rng_static_offset_store =
        Inr ((OK, ''''), n', rng_static_offset_store) \<and>
      record_appended rng_static_offset_example rng_static_offset_store
        [None, Some 1, Some 2] [Some 2] n' \<and>
      real_uids rng_static_offset_store [None, Some 1, Some 2] = [1, 2]) \<and>
   RngNode_createOperations accept_all rng_uniform_example rng_example_store =
     Inr ((OK, ''''), rng_uniform_example, rng_example_store)"
proof (intro conjI)
  from BatchNormNode_lifecycle_example obtain s1 n2 where
    a: "assign_uids_graph [BatchNormNode bn_example] bn_example_store = Inr s1" and
    t: "BatchNormNode_createTensors accept_all bn_example s1 = Inr ((OK, ''''), n2, s1)" and
    h: "\<forall>T \<in> set (BatchNormNode_tensors_involved_in_operation n2). \<exists>h. tensors_at n2 s1 T = Inr h" and
    u: "real_uids s1 (BatchNormNode_tensors_involved_in_operation n2) =
          [1, 4, 5, 6, 7, 2, 3, 8, 9, 10, 11, 12]"
    by blast
  from BatchNormNode_createOperations_total[OF h, of accept_all] obtain e n3 where
    o: "BatchNormNode_createOperations accept_all n2 s1 = Inr (e, n3, s1)"
    by (auto simp: accept_all_def)
  from createOperations_appends_one_record_of_real_tensors
         [where bk = accept_all and bn = n2 and s = s1 and e = e and bn' = n3 and s' = s1] o
  have "e = (OK, '''')"
    "record_appended n2 s1 (BatchNormNode_tensors_involved_in_operation n2)
       (BatchNormNode_tensors_involved_in_operation n2) n3"
    by blast+
  with a t o u show "\<exists>s n n'.
      assign_uids_graph [BatchNormNode bn_example] bn_example_store = Inr s \<and>
      BatchNormNode_createTensors accept_all bn_example s = Inr ((OK, ''''), n, s) \<and>
      BatchNormNode_createOperations accept_all n s = Inr ((OK, ''''), n', s) \<and>
      record_appended n s (BatchNormNode_tensors_involved_in_operation n)
        (BatchNormNode_tensors_involved_in_operation n) n' \<and>
      real_uids s (BatchNormNode_tensors_involved_in_operation n) =
        [1, 4, 5, 6, 7, 2, 3, 8, 9, 10, 11, 12]"
    by blast
next
  from DBNNode_lifecycle_example obtain s1 n2 where
    a: "assign_uids_graph [DBNNode dbn_example] dbn_example_store = Inr s1" and
    t: "DBNNode_createTensors accept_all dbn_example s1 = Inr ((OK, ''''), n2, s1)" and
    h: "\<forall>T \<in> set (DBNNode_tensors_involved_in_operation n2). \<exists>h. tensors_at n2 s1 T = Inr h" and
    u: "real_uids s1 (DBNNode_tensors_involved_in_operation n2) = [1, 2, 3, 4, 5, 6, 7, 8]"
    by blast
  from DBNNode_createOperations_total[OF h, of accept_all] obtain e n3 where
    o: "DBNNode_createOperations accept_all n2 s1 = Inr (e, n3, s1)"
    by (auto simp: accept_all_def)
  from createOperations_appends_one_record_of_real_tensors
         [where bk = accept_all and dbn = n2 and s = s1 and e = e and dbn' = n3 and s' = s1] o
  have "e = (OK, '''')"
    "record_appended n2 s1 (DBNNode_tensors_involved_in_operation n2)
       (DBNNode_tensors_involved_in_operation n2) n3"
    by blast+
  with a t o u show "\<exists>s n n'.
      assign_uids_graph [DBNNode dbn_example] dbn_example_store = Inr s \<and>
      DBNNode_createTensors accept_all dbn_example s = Inr ((OK, ''''), n, s) \<and>
      DBNNode_createOperations accept_all n s = Inr ((OK, ''''), n', s) \<and>
      record_appended n s (DBNNode_tensors_involved_in_operation n)
        (DBNNode_tensors_involved_in_operation n) n' \<and>
      real_uids s (DBNNode_tensors_involved_in_operation n) = [1, 2, 3, 4, 5, 6, 7, 8]"
    by blast
next
  from DgradNode_lifecycle_example obtain s1 n2 e n3 where
    a: "assign_uids_graph [DgradNode dgrad_example] dgrad_example_store = Inr s1" and
    t: "DgradNode_createTensors accept_all dgrad_example s1 = Inr ((OK, ''''), n2, s1)" and
    o: "DgradNode_createOperations accept_all n2 s1 = Inr (e, n3, s1)" and
    u: "real_uids s1 (DgradNode_tensors_involved_in_operation n2) = [3, 2, 1]"
    by blast
  from createOperations_appends_one_record_of_real_tensors
         [where bk = accept_all and dg = n2 and s = s1 and e = e and dg' = n3 and s' = s1] o
  have "e = (OK, '''')"
    "record_appended n2 s1 (DgradNode_tensors_involved_in_operation n2)
       (DgradNode_tensors_involved_in_operation n2) n3"
    by blast+
  with a t o u show "\<exists>s n n'.
      assign_uids_graph [DgradNode dgrad_example] dgrad_example_store = Inr s \<and>
      DgradNode_createTensors accept_all dgrad_example s = Inr ((OK, ''''), n, s) \<and>
      DgradNode_createOperations accept_all n s = Inr ((OK, ''''), n', s) \<and>
      record_appended n s (DgradNode_tensors_involved_in_operation n)
        (DgradNode_tensors_involved_in_operation n) n' \<and>
      real_uids s (DgradNode_tensors_involved_in_operation n) = [3, 2, 1]"
    by blast
next
  let ?ns = "[RngNode rng_fresh_example]"
  from RngNode_lifecycle_example obtain s1 n2 e n3 where
    a: "assign_uids_graph ?ns rng_fresh_store = Inr s1" and
    t: "RngNode_createTensors accept_all rng_fresh_example s1 = Inr ((OK, ''''), n2, s1)" and
    o: "RngNode_createOperations accept_all n2 s1 = Inr (e, n3, s1)" and
    d: "distribution (options n2) = BERNOULLI" "inputs (options n2) Seed \<noteq> None" and
    i: "RngNode_tensors_involved_in_operation n2 = [Some 0, Some 1, Some 2]" and
    u: "real_uids s1 (RngNode_tensors_involved_in_operation n2) = [2, 3]" and
    v: "is_virtual (heap s1 0)" "uid (heap s1 0) = 1"
    by blast
  have m: "0 \<in> numbered ?ns"
    "{a. Some a \<in> set (RngNode_tensors_involved_in_operation n2)} \<subseteq> numbered ?ns"
    unfolding i
    by (auto simp: numbered_def rng_fresh_example_def rng_example_def no_tensor_def)
  note c7 = createOperations_appends_one_record_of_real_tensors
         [where bk = accept_all and rng = n2 and s = s1 and e = e and rng' = n3 and s' = s1
            and involved = "RngNode_tensors_involved_in_operation n2" and ns = ?ns
            and ?s0.0 = rng_fresh_store]
  from c7 o d have r: "e = (OK, '''')"
    "record_appended n2 s1 (RngNode_tensors_involved_in_operation n2)
       (RngNode_tensors_involved_in_operation n2) n3"
    by blast+
  from c7 have q: "set (real_uids s1 (RngNode_tensors_involved_in_operation n2)) =
        {uid (heap s1 a) | a. Some a \<in> set (RngNode_tensors_involved_in_operation n2) \<and>
                             \<not> is_virtual (heap s1 a)}"
    by blast
  from c7 a m v have w: "uid (heap s1 0) \<notin> set (real_uids s1 (RngNode_tensors_involved_in_operation n2))"
    by blast
  from a t o r i u q m(1) v w show "\<exists>s n n'.
      assign_uids_graph [RngNode rng_fresh_example] rng_fresh_store = Inr s \<and>
      RngNode_createTensors accept_all rng_fresh_example s = Inr ((OK, ''''), n, s) \<and>
      RngNode_createOperations accept_all n s = Inr ((OK, ''''), n', s) \<and>
      record_appended n s (RngNode_tensors_involved_in_operation n)
        (RngNode_tensors_involved_in_operation n) n' \<and>
      RngNode_tensors_involved_in_operation n = [Some 0, Some 1, Some 2] \<and>
      real_uids s (RngNode_tensors_involved_in_operation n) = [2, 3] \<and>
      set (real_uids s (RngNode_tensors_involved_in_operation n)) =
        {uid (heap s a) | a. Some a \<in> set (RngNode_tensors_involved_in_operation n) \<and>
                             \<not> is_virtual (heap s a)} \<and>
      0 \<in> numbered [RngNode rng_fresh_example] \<and> is_virtual (heap s 0) \<and>
      uid (heap s 0) = 1 \<and>
      uid (heap s 0) \<notin> set (real_uids s (RngNode_tensors_involved_in_operation n))"
    by blast
next
  from RngNode_literal_seed_example obtain e n3 where
    o: "RngNode_createOperations accept_all rng_static_offset_example rng_static_offset_store =
          Inr (e, n3, rng_static_offset_store)" and
    d: "distribution (options rng_static_offset_example) = BERNOULLI"
       "inputs (options rng_static_offset_example) Seed = None" and
    i: "RngNode_tensors_involved_in_operation rng_static_offset_example = [None, Some 1, Some 2]"
       "outputs (options rng_static_offset_example) Y = Some 2" and
    u: "real_uids rng_static_offset_store
          (RngNode_tensors_involved_in_operation rng_static_offset_example) = [1, 2]"
    by blast
  from createOperations_appends_one_record_of_real_tensors
         [where bk = accept_all and rng = rng_static_offset_example
            and s = rng_static_offset_store and e = e and rng' = n3
            and s' = rng_static_offset_store] o d
  have "e = (OK, '''')"
    "record_appended rng_static_offset_example rng_static_offset_store
       (RngNode_tensors_involved_in_operation rng_static_offset_example)
       [outputs (options rng_static_offset_example) Y] n3"
    by blast+
  with o u show "\<exists>n'.
      RngNode_createOperations accept_all rng_static_offset_example rng_static_offset_store =
        Inr ((OK, ''''), n', rng_static_offset_store) \<and>
      record_appended rng_static_offset_example rng_static_offset_store
        [None, Some 1, Some 2] [Some 2] n' \<and>
      real_uids rng_static_offset_store [None, Some 1, Some 2] = [1, 2]"
    unfolding i by blast
next
  from RngNode_uniform_example obtain e n3 where
    o: "RngNode_createOperations accept_all rng_uniform_example rng_example_store =
          Inr (e, n3, rng_example_store)" and
    d: "distribution (options rng_uniform_example) \<noteq> BERNOULLI"
    by blast
  from createOperations_appends_one_record_of_real_tensors
         [where bk = accept_all and rng = rng_uniform_example
            and s = rng_example_store and e = e and rng' = n3 and s' = rng_example_store] o d
  have "e = (OK, '''')" "n3 = rng_uniform_example"
    by blast+
  with o show "RngNode_createOperations accept_all rng_uniform_example rng_example_store =
     Inr ((OK, ''''), rng_uniform_example, rng_example_store)"
    by simp
qed

text \<open>
  Claim C7 as it is written fails where it says that the list holds exactly the identifiers
  of the tensors involved in the operation: an \<open>RngNode\<close> with a literal seed and an
  \<open>Offset\<close> descriptor builds an operation that binds the handle of \<open>Y\<close> alone, and its
  record holds the identifiers of \<open>Offset\<close> and of \<open>Y\<close>.
\<close>

theorem rng_literal_seed_record_holds_Offset_counterexample:
  "inputs (options rng_static_offset_example) Seed = None \<and>
   inputs (options rng_static_offset_example) Offset = Some 1 \<and>
   \<not> is_virtual (heap rng_static_offset_store 1) \<and>
   uid (heap rng_static_offset_store 1) = 1 \<and>
   operations_after
     (RngNode_createOperations accept_all rng_static_offset_example rng_static_offset_store) =
     Inr [(OperationBuilder OPERATION_RNG_DESCRIPTOR
             [setyDesc (Tensor_handle [4, 8] [8, 1] FLOAT 2 False),
              setRngDesc (RngDesc BERNOULLI (1 / 2)), setSeed 42],
           [1, 2])] \<and>
   bound_handles (OperationBuilder OPERATION_RNG_DESCRIPTOR
             [setyDesc (Tensor_handle [4, 8] [8, 1] FLOAT 2 False),
              setRngDesc (RngDesc BERNOULLI (1 / 2)), setSeed 42]) =
     [Tensor_handle [4, 8] [8, 1] FLOAT 2 False]"
  by (simp add: build_eval operations_after_def)

text \<open>
  Claim C4. \<open>RngNode::createOperations\<close>: for a distribution other than Bernoulli it returns
  \<open>OK\<close> with the node unchanged, so no operation is emitted. When it returns for a Bernoulli
  node with \<open>Seed\<close>, exactly one record has been appended, built with \<open>setSeedDesc\<close> and
  \<open>setOffsetDesc\<close> on the handles registered for \<open>Seed\<close> and \<open>Offset\<close>. When it returns for a
  Bernoulli node without \<open>Seed\<close>, exactly one record has been appended, built with \<open>setSeed\<close> on
  the literal seed and with no \<open>setSeedDesc\<close> and no \<open>setOffsetDesc\<close>.
\<close>

theorem RngNode_createOperations_paths:
  "(distribution (options n) \<noteq> BERNOULLI \<longrightarrow>
      RngNode_createOperations bk n s = Inr ((OK, ''''), n, s)) \<and>
   (RngNode_createOperations bk n s = Inr (e, n', s') \<and> distribution (options n) = BERNOULLI \<and>
    inputs (options n) Seed \<noteq> None \<longrightarrow>
      e = (OK, '''') \<and> s' = s \<and>
      (\<exists>y p seed_handle offset_handle uids_in_operation.
         bernoulli_probability (options n) = Some p \<and>
         tensors_at n s (outputs (options n) Y) = Inr y \<and>
         tensors_at n s (inputs (options n) Seed) = Inr seed_handle \<and>
         tensors_at n s (inputs (options n) Offset) = Inr offset_handle \<and>
         n' = n\<lparr>operations := operations n @
                 [(OperationBuilder OPERATION_RNG_DESCRIPTOR
                     [setyDesc y, setRngDesc (RngDesc BERNOULLI p),
                      setSeedDesc seed_handle, setOffsetDesc offset_handle],
                   uids_in_operation)]\<rparr>)) \<and>
   (RngNode_createOperations bk n s = Inr (e, n', s') \<and> distribution (options n) = BERNOULLI \<and>
    inputs (options n) Seed = None \<longrightarrow>
      e = (OK, '''') \<and> s' = s \<and>
      (\<exists>y p seed_value uids_in_operation.
         bernoulli_probability (options n) = Some p \<and>
         tensors_at n s (outputs (options n) Y) = Inr y \<and>
         seed (options n) = Some seed_value \<and>
         n' = n\<lparr>operations := operations n @
                 [(OperationBuilder OPERATION_RNG_DESCRIPTOR
                     [setyDesc y, setRngDesc (RngDesc BERNOULLI p), setSeed seed_value],
                   uids_in_operation)]\<rparr>))"
proof (intro conjI impI)
  assume "distribution (options n) \<noteq> BERNOULLI"
  then show "RngNode_createOperations bk n s = Inr ((OK, ''''), n, s)"
    by (simp add: RngNode_createOperations_def)
next
  assume h: "RngNode_createOperations bk n s = Inr (e, n', s') \<and> distribution (options n) = BERNOULLI \<and>
    inputs (options n) Seed \<noteq> None"
  then obtain p y sh oh where
    "bernoulli_probability (options n) = Some p"
    "tensors_at n s (outputs (options n) Y) = Inr y"
    "tensors_at n s (inputs (options n) Seed) = Inr sh"
    "tensors_at n s (inputs (options n) Offset) = Inr oh"
    "build_and_push bk (OperationBuilder OPERATION_RNG_DESCRIPTOR
                     [setyDesc y, setRngDesc (RngDesc BERNOULLI p), setSeedDesc sh, setOffsetDesc oh])
       (RngNode_tensors_involved_in_operation n) n s = Inr (e, n', s')"
    unfolding RngNode_createOperations_def Let_def
    by (auto simp: fault_bind_Inr_iff optional_value_Inr_iff split: if_splits)
  then show "e = (OK, '''')" "s' = s"
    "\<exists>y p seed_handle offset_handle uids_in_operation.
         bernoulli_probability (options n) = Some p \<and>
         tensors_at n s (outputs (options n) Y) = Inr y \<and>
         tensors_at n s (inputs (options n) Seed) = Inr seed_handle \<and>
         tensors_at n s (inputs (options n) Offset) = Inr offset_handle \<and>
         n' = n\<lparr>operations := operations n @
                 [(OperationBuilder OPERATION_RNG_DESCRIPTOR
                     [setyDesc y, setRngDesc (RngDesc BERNOULLI p),
                      setSeedDesc seed_handle, setOffsetDesc offset_handle],
                   uids_in_operation)]\<rparr>"
    by (auto simp: build_and_push_Inr_iff)
next
  assume h: "RngNode_createOperations bk n s = Inr (e, n', s') \<and> distribution (options n) = BERNOULLI \<and>
    inputs (options n) Seed = None"
  then obtain p y v where
    "bernoulli_probability (options n) = Some p"
    "tensors_at n s (outputs (options n) Y) = Inr y"
    "seed (options n) = Some v"
    "build_and_push bk (OperationBuilder OPERATION_RNG_DESCRIPTOR
                     [setyDesc y, setRngDesc (RngDesc BERNOULLI p), setSeed v])
       (RngNode_tensors_involved_in_operation n) n s = Inr (e, n', s')"
    unfolding RngNode_createOperations_def Let_def
    by (auto simp: fault_bind_Inr_iff optional_value_Inr_iff split: if_splits)
  then show "e = (OK, '''')" "s' = s"
    "\<exists>y p seed_value uids_in_operation.
         bernoulli_probability (options n) = Some p \<and>
         tensors_at n s (outputs (options n) Y) = Inr y \<and>
         seed (options n) = Some seed_value \<and>
         n' = n\<lparr>operations := operations n @
                 [(OperationBuilder OPERATION_RNG_DESCRIPTOR
                     [setyDesc y, setRngDesc (RngDesc BERNOULLI p), setSeed seed_value],
                   uids_in_operation)]\<rparr>"
    by (auto simp: build_and_push_Inr_iff)
qed

theorem RngNode_createOperations_paths_witness:
  "distribution (options rng_uniform_example) \<noteq> BERNOULLI \<and>
   RngNode_createOperations accept_all rng_uniform_example rng_example_store =
     Inr ((OK, ''''), rng_uniform_example, rng_example_store) \<and>
   (\<exists>e n' s'. RngNode_createOperations accept_all rng_example rng_example_store = Inr (e, n', s') \<and>
      distribution (options rng_example) = BERNOULLI \<and> inputs (options rng_example) Seed \<noteq> None \<and>
      (\<exists>y p u. n' = rng_example\<lparr>operations := operations rng_example @
                 [(OperationBuilder OPERATION_RNG_DESCRIPTOR
                     [setyDesc y, setRngDesc (RngDesc BERNOULLI p),
                      setSeedDesc (Tensor_handle [1] [1] INT64 1 True),
                      setOffsetDesc (Tensor_handle [1] [1] INT64 2 False)], u)]\<rparr>)) \<and>
   (\<exists>e n' s'. RngNode_createOperations accept_all rng_static_example rng_example_store = Inr (e, n', s') \<and>
      distribution (options rng_static_example) = BERNOULLI \<and>
      inputs (options rng_static_example) Seed = None \<and>
      (\<exists>y p u. n' = rng_static_example\<lparr>operations := operations rng_static_example @
                 [(OperationBuilder OPERATION_RNG_DESCRIPTOR
                     [setyDesc y, setRngDesc (RngDesc BERNOULLI p), setSeed 42], u)]\<rparr>))"
proof (intro conjI)
  show u: "distribution (options rng_uniform_example) \<noteq> BERNOULLI"
    by (simp add: rng_eval)
  from RngNode_createOperations_paths[of rng_uniform_example accept_all rng_example_store] u
  show "RngNode_createOperations accept_all rng_uniform_example rng_example_store =
     Inr ((OK, ''''), rng_uniform_example, rng_example_store)" by blast
next
  have "\<exists>e n' s'. RngNode_createOperations accept_all rng_example rng_example_store = Inr (e, n', s')"
    by (simp add: rng_eval)
  then obtain e n' s' where
    run: "RngNode_createOperations accept_all rng_example rng_example_store = Inr (e, n', s')" by blast
  have h: "distribution (options rng_example) = BERNOULLI" "inputs (options rng_example) Seed \<noteq> None"
    by (simp_all add: rng_eval)
  have t: "tensors_at rng_example rng_example_store (inputs (options rng_example) Seed) =
             Inr (Tensor_handle [1] [1] INT64 1 True)"
    "tensors_at rng_example rng_example_store (inputs (options rng_example) Offset) =
             Inr (Tensor_handle [1] [1] INT64 2 False)"
    by (simp_all add: rng_eval)
  from RngNode_createOperations_paths[of rng_example accept_all rng_example_store e n' s'] run h
  have "\<exists>y p seed_handle offset_handle u.
         tensors_at rng_example rng_example_store (inputs (options rng_example) Seed) = Inr seed_handle \<and>
         tensors_at rng_example rng_example_store (inputs (options rng_example) Offset) = Inr offset_handle \<and>
         n' = rng_example\<lparr>operations := operations rng_example @
                 [(OperationBuilder OPERATION_RNG_DESCRIPTOR
                     [setyDesc y, setRngDesc (RngDesc BERNOULLI p),
                      setSeedDesc seed_handle, setOffsetDesc offset_handle], u)]\<rparr>"
    by blast
  then have "\<exists>y p u. n' = rng_example\<lparr>operations := operations rng_example @
                 [(OperationBuilder OPERATION_RNG_DESCRIPTOR
                     [setyDesc y, setRngDesc (RngDesc BERNOULLI p),
                      setSeedDesc (Tensor_handle [1] [1] INT64 1 True),
                      setOffsetDesc (Tensor_handle [1] [1] INT64 2 False)], u)]\<rparr>"
    unfolding t by blast
  with run h show "\<exists>e n' s'. RngNode_createOperations accept_all rng_example rng_example_store = Inr (e, n', s') \<and>
      distribution (options rng_example) = BERNOULLI \<and> inputs (options rng_example) Seed \<noteq> None \<and>
      (\<exists>y p u. n' = rng_example\<lparr>operations := operations rng_example @
                 [(OperationBuilder OPERATION_RNG_DESCRIPTOR
                     [setyDesc y, setRngDesc (RngDesc BERNOULLI p),
                      setSeedDesc (Tensor_handle [1] [1] INT64 1 True),
                      setOffsetDesc (Tensor_handle [1] [1] INT64 2 False)], u)]\<rparr>)"
    by blast
next
  have "\<exists>e n' s'. RngNode_createOperations accept_all rng_static_example rng_example_store = Inr (e, n', s')"
    by (simp add: rng_eval)
  then obtain e n' s' where
    run: "RngNode_createOperations accept_all rng_static_example rng_example_store = Inr (e, n', s')"
    by blast
  have h: "distribution (options rng_static_example) = BERNOULLI"
    "inputs (options rng_static_example) Seed = None"
    "seed (options rng_static_example) = Some 42"
    by (simp_all add: rng_eval)
  from RngNode_createOperations_paths[of rng_static_example accept_all rng_example_store e n' s'] run h(1,2)
  have "\<exists>y p seed_value u.
         seed (options rng_static_example) = Some seed_value \<and>
         n' = rng_static_example\<lparr>operations := operations rng_static_example @
                 [(OperationBuilder OPERATION_RNG_DESCRIPTOR
                     [setyDesc y, setRngDesc (RngDesc BERNOULLI p), setSeed seed_value], u)]\<rparr>"
    by blast
  then have "\<exists>y p u. n' = rng_static_example\<lparr>operations := operations rng_static_example @
                 [(OperationBuilder OPERATION_RNG_DESCRIPTOR
                     [setyDesc y, setRngDesc (RngDesc BERNOULLI p), setSeed 42], u)]\<rparr>"
    unfolding h(3) by auto
  with run h(1,2) show "\<exists>e n' s'. RngNode_createOperations accept_all rng_static_example rng_example_store = Inr (e, n', s') \<and>
      distribution (options rng_static_example) = BERNOULLI \<and>
      inputs (options rng_static_example) Seed = None \<and>
      (\<exists>y p u. n' = rng_static_example\<lparr>operations := operations rng_static_example @
                 [(OperationBuilder OPERATION_RNG_DESCRIPTOR
                     [setyDesc y, setRngDesc (RngDesc BERNOULLI p), setSeed 42], u)]\<rparr>)"
    by blast
qed

text \<open>
  Claim C10. For a Bernoulli \<open>RngNode\<close> with \<open>Seed\<close> and without \<open>Offset\<close>, \<open>createOperations\<close>
  never returns a status: it faults, and when everything before the \<open>Offset\<close> lookup goes well
  (probability set, descriptor accepted, handles of \<open>Y\<close> and \<open>Seed\<close> registered) the fault is the
  dereference of the null \<open>Offset\<close>. The earlier stages guard \<open>Offset\<close> on its own: with \<open>Y\<close>
  present \<open>assign_uids_node\<close> returns \<open>OK\<close> and \<open>createTensors\<close> returns a status.
\<close>

theorem RngNode_createOperations_Seed_without_Offset:
  assumes "distribution (options n) = BERNOULLI"
    and "inputs (options n) Seed = Some sd"
    and "inputs (options n) Offset = None"
  shows "(\<exists>f. RngNode_createOperations bk n s = Inl f) \<and>
         (bernoulli_probability (options n) = Some p \<and> rng_desc_accepted bk (RngDesc BERNOULLI p) \<and>
          tensors_at n s (outputs (options n) Y) = Inr y \<and> tensors_at n s (Some sd) = Inr h \<longrightarrow>
            RngNode_createOperations bk n s = Inl NullPointerDereference) \<and>
         (outputs (options n) Y \<noteq> None \<longrightarrow>
            (\<exists>s'. RngNode_assign_uids_node n s = Inr ((OK, ''''), n, s')) \<and>
            (\<exists>e n'. RngNode_createTensors bk n s = Inr (e, n', s)))"
proof (intro conjI impI)
  show "\<exists>f. RngNode_createOperations bk n s = Inl f"
  proof (rule not_Inr_Inl)
    fix r show "RngNode_createOperations bk n s \<noteq> Inr r"
      using assms unfolding RngNode_createOperations_def Let_def
      by (auto simp: fault_bind_Inr_iff tensors_at_Inr_iff)
  qed
next
  assume "bernoulli_probability (options n) = Some p \<and> rng_desc_accepted bk (RngDesc BERNOULLI p) \<and>
          tensors_at n s (outputs (options n) Y) = Inr y \<and> tensors_at n s (Some sd) = Inr h"
  with assms show "RngNode_createOperations bk n s = Inl NullPointerDereference"
    by (simp add: RngNode_createOperations_def Let_def optional_value_def)
next
  assume y: "outputs (options n) Y \<noteq> None"
  then obtain a where a: "outputs (options n) Y = Some a" by auto
  with assms show "\<exists>s'. RngNode_assign_uids_node n s = Inr ((OK, ''''), n, s')"
    by (simp add: RngNode_assign_uids_node_def assign_new_uid_if_present_def assign_new_uid_def
          create_new_uid_def)
  have "\<exists>e n'. check_seq [create_cudnn_tensor_if_present bk s (inputs (options n) Seed),
                      create_cudnn_tensor_if_present bk s (inputs (options n) Offset),
                      create_cudnn_tensor bk s (outputs (options n) Y)] n = Inr (e, n')"
    by (rule check_seq_total)
       (use a create_cudnn_tensor_if_present_total create_cudnn_tensor_Some_total in auto)
  then show "\<exists>e n'. RngNode_createTensors bk n s = Inr (e, n', s)"
    by (auto simp: RngNode_createTensors_def)
qed

theorem RngNode_createOperations_Seed_without_Offset_witness:
  "distribution (options rng_no_offset_example) = BERNOULLI \<and>
   inputs (options rng_no_offset_example) Seed = Some 0 \<and>
   inputs (options rng_no_offset_example) Offset = None \<and>
   RngNode_createOperations accept_all rng_no_offset_example rng_example_store = Inl NullPointerDereference \<and>
   (\<exists>s'. RngNode_assign_uids_node rng_no_offset_example rng_example_store =
            Inr ((OK, ''''), rng_no_offset_example, s')) \<and>
   (\<exists>e n'. RngNode_createTensors accept_all rng_no_offset_example rng_example_store =
            Inr (e, n', rng_example_store))"
proof -
  have h: "distribution (options rng_no_offset_example) = BERNOULLI"
    "inputs (options rng_no_offset_example) Seed = Some 0"
    "inputs (options rng_no_offset_example) Offset = None"
    by (simp_all add: rng_eval)
  have p: "bernoulli_probability (options rng_no_offset_example) = Some (1 / 2) \<and>
           rng_desc_accepted accept_all (RngDesc BERNOULLI (1 / 2)) \<and>
           tensors_at rng_no_offset_example rng_example_store (outputs (options rng_no_offset_example) Y) =
             Inr (Tensor_handle [4, 8] [8, 1] FLOAT 3 False) \<and>
           tensors_at rng_no_offset_example rng_example_store (Some 0) =
             Inr (Tensor_handle [1] [1] INT64 1 True)"
    by (simp add: rng_eval)
  have y: "outputs (options rng_no_offset_example) Y \<noteq> None"
    by (simp add: rng_eval)
  from RngNode_createOperations_Seed_without_Offset[OF h, of accept_all rng_example_store
       "1 / 2" "Tensor_handle [4, 8] [8, 1] FLOAT 3 False" "Tensor_handle [1] [1] INT64 1 True"] p y h
  show ?thesis by blast
qed


section \<open>What the stages of DBNNode require\<close>

lemma infer_dim_of_x_Inl: "infer_dim_of_x xd T s = Inl f \<Longrightarrow> f = NullPointerDereference"
  by (cases T) (simp_all add: infer_dim_of_x_def Let_def)

lemma infer_dim_of_x_seq_Inl:
  "seq (map (infer_dim_of_x xd) Ts) s = Inl f \<Longrightarrow> f = NullPointerDereference"
proof (induction Ts arbitrary: s)
  case Nil
  then show ?case by simp
next
  case (Cons T Ts)
  show ?case
  proof (cases "infer_dim_of_x xd T s")
    case (Inl g)
    with Cons.prems infer_dim_of_x_Inl[OF Inl] show ?thesis by simp
  next
    case (Inr s1)
    with Cons.prems Cons.IH[of s1] show ?thesis by simp
  qed
qed

lemma infer_per_channel_tensors_None [simp]:
  "infer_per_channel_tensors xd None s = Inl NullPointerDereference"
  by (simp add: infer_per_channel_tensors_def)

lemma infer_per_channel_seq_Inr:
  "seq (map (infer_per_channel_tensors xd) Ts) s = Inr s' \<Longrightarrow> None \<notin> set Ts"
proof (induction Ts arbitrary: s)
  case Nil
  then show ?case by simp
next
  case (Cons T Ts)
  from seq_Cons_InrD[OF Cons.prems[simplified list.map]] obtain s1 where
    f: "infer_per_channel_tensors xd T s = Inr s1"
    and r: "seq (map (infer_per_channel_tensors xd) Ts) s1 = Inr s'" by blast
  from f have "T \<noteq> None" by (cases T) simp_all
  with Cons.IH[OF r] show ?case by auto
qed

lemma DBNNode_infer_MEAN_None:
  assumes "inputs (options n) MEAN = None"
  shows "DBNNode_infer_properties_node n s = Inl NullPointerDereference"
proof (cases "inputs (options n) X")
  case None
  then show ?thesis by (simp add: DBNNode_infer_eq)
next
  case (Some x)
  let ?xd = "dim (heap s x)"
  let ?first = "seq (map (infer_dim_of_x ?xd) [inputs (options n) DY, outputs (options n) DX]) s"
  let ?pc = "map (infer_per_channel_tensors ?xd) (DBNNode_per_channel_tensors n)"
  have pc: "\<And>t. seq ?pc t = Inl NullPointerDereference"
    using assms by (simp add: DBNNode_per_channel_tensors_def)
  have "(case ?first of Inl e \<Rightarrow> Inl e | Inr s1 \<Rightarrow> seq ?pc s1) = Inl NullPointerDereference"
  proof (cases ?first)
    case (Inl g)
    with infer_dim_of_x_seq_Inl[OF Inl] show ?thesis by simp
  next
    case (Inr s1)
    with pc[of s1] show ?thesis by simp
  qed
  then have "seq (map (infer_dim_of_x ?xd) [inputs (options n) DY, outputs (options n) DX] @ ?pc) s =
             Inl NullPointerDereference"
    by (simp only: seq_append)
  with Some show ?thesis by (simp only: DBNNode_infer_eq option.case sum.case)
qed

lemma DBNNode_infer_Inr_pointers:
  assumes "DBNNode_infer_properties_node n s = Inr r"
  shows "inputs (options n) MEAN \<noteq> None \<and> inputs (options n) INV_VARIANCE \<noteq> None"
proof -
  from assms obtain x where x: "inputs (options n) X = Some x"
    by (cases "inputs (options n) X") (simp_all add: DBNNode_infer_eq)
  let ?xd = "dim (heap s x)"
  let ?first = "seq (map (infer_dim_of_x ?xd) [inputs (options n) DY, outputs (options n) DX]) s"
  let ?pc = "map (infer_per_channel_tensors ?xd) (DBNNode_per_channel_tensors n)"
  from assms x have "\<exists>s'. seq (map (infer_dim_of_x ?xd) [inputs (options n) DY, outputs (options n) DX] @ ?pc) s = Inr s'"
    by (simp only: DBNNode_infer_eq option.case split: sum.splits) auto
  then obtain s1 s' where "seq ?pc s1 = Inr s'"
    by (simp only: seq_append split: sum.splits) auto
  from infer_per_channel_seq_Inr[OF this] show ?thesis
    by (cases "inputs (options n) MEAN"; cases "inputs (options n) INV_VARIANCE")
       (simp_all add: DBNNode_per_channel_tensors_def)
qed

lemma assign_new_uid_seq_None:
  "None \<in> set Ts \<Longrightarrow> seq (map assign_new_uid Ts) s = Inl NullPointerDereference"
proof (induction Ts arbitrary: s)
  case Nil
  then show ?case by simp
next
  case (Cons T Ts)
  show ?case
  proof (cases T)
    case None
    then show ?thesis by (simp add: assign_new_uid_None)
  next
    case (Some a)
    with Cons.prems have "None \<in> set Ts" by auto
    from Cons.IH[OF this] Some show ?thesis by (simp add: assign_new_uid_Some)
  qed
qed

lemma DBNNode_assign_uids_None:
  assumes "inputs (options n) MEAN = None \<or> inputs (options n) INV_VARIANCE = None"
  shows "DBNNode_assign_uids_node n s = Inl NullPointerDereference"
proof -
  from assms have "None \<in> set (assigned_tensors (DBNNode n))" by auto
  from assign_new_uid_seq_None[OF this] show ?thesis
    by (simp only: DBNNode_assign_uids_eq sum.case)
qed

lemma create_cudnn_tensor_None [simp]:
  "create_cudnn_tensor bk s None n = Inl NullPointerDereference"
  by (simp add: create_cudnn_tensor_def)

lemma check_seq_create_OK:
  "check_seq (map (create_cudnn_tensor bk s) Ts) n = Inr (e, n') \<Longrightarrow> fst e = OK \<Longrightarrow> None \<notin> set Ts"
proof (induction Ts arbitrary: n)
  case Nil
  then show ?case by simp
next
  case (Cons T Ts)
  show ?case
  proof (cases T)
    case None
    with Cons.prems show ?thesis by simp
  next
    case (Some a)
    obtain e1 n1 where f: "create_cudnn_tensor bk s (Some a) n = Inr (e1, n1)"
      using create_cudnn_tensor_Some_total by blast
    show ?thesis
    proof (cases "fst e1 = OK")
      case True
      with Cons.prems f Some have "check_seq (map (create_cudnn_tensor bk s) Ts) n1 = Inr (e, n')"
        by simp
      from Cons.IH[OF this Cons.prems(2)] Some show ?thesis by simp
    next
      case False
      with Cons.prems f Some show ?thesis by simp
    qed
  qed
qed

lemma DBNNode_createTensors_OK_pointers:
  assumes "DBNNode_createTensors bk n s = Inr (e, n', s')" "fst e = OK"
  shows "inputs (options n) MEAN \<noteq> None \<and> inputs (options n) INV_VARIANCE \<noteq> None"
proof -
  have eq: "DBNNode_createTensors bk n s =
     (case check_seq (map (create_cudnn_tensor bk s) (assigned_tensors (DBNNode n))) n of
        Inl f \<Rightarrow> Inl f | Inr (err, n1) \<Rightarrow> Inr (err, n1, s))"
    by (simp only: DBNNode_createTensors_def assigned_tensors.simps list.map)
  from assms(1) have "check_seq (map (create_cudnn_tensor bk s) (assigned_tensors (DBNNode n))) n = Inr (e, n')"
    unfolding eq by (cases "check_seq (map (create_cudnn_tensor bk s) (assigned_tensors (DBNNode n))) n") auto
  from check_seq_create_OK[OF this assms(2)] show ?thesis
    by (cases "inputs (options n) MEAN"; cases "inputs (options n) INV_VARIANCE") simp_all
qed

lemma DBNNode_createOperations_Inr_pointers:
  assumes "DBNNode_createOperations bk n s = Inr r"
  shows "inputs (options n) MEAN \<noteq> None \<and> inputs (options n) INV_VARIANCE \<noteq> None"
  using assms unfolding DBNNode_createOperations_def fault_bind_Inr_iff tensors_at_Inr_iff
  by auto

text \<open>
  Claim C9. When \<open>MEAN\<close> or \<open>INV_VARIANCE\<close> of a \<open>DBNNode\<close> is null, no stage after validation
  completes: \<open>infer_properties_node\<close>, \<open>assign_uids_node\<close> and \<open>createOperations\<close> fault, and
  \<open>createTensors\<close> never returns \<open>OK\<close>. With \<open>MEAN\<close> null the fault of \<open>infer_properties_node\<close>, the
  stage right after validation, is a null-pointer dereference. \<open>validate_node\<close> nevertheless
  returns \<open>OK\<close> for a node that has \<open>EPSILON\<close> and neither \<open>MEAN\<close> nor \<open>INV_VARIANCE\<close>.
\<close>

theorem DBNNode_stages_require_MEAN_and_INV_VARIANCE:
  "(inputs (options n) MEAN = None \<or> inputs (options n) INV_VARIANCE = None \<longrightarrow>
      (\<exists>f. DBNNode_infer_properties_node n s = Inl f) \<and>
      DBNNode_assign_uids_node n s = Inl NullPointerDereference \<and>
      (\<forall>e n' s'. DBNNode_createTensors bk n s = Inr (e, n', s') \<longrightarrow> fst e \<noteq> OK) \<and>
      (\<exists>f. DBNNode_createOperations bk n s = Inl f)) \<and>
   (inputs (options n) MEAN = None \<longrightarrow>
      DBNNode_infer_properties_node n s = Inl NullPointerDereference) \<and>
   (inputs (options n) MEAN = None \<and> inputs (options n) INV_VARIANCE = None \<and>
    inputs (options n) EPSILON \<noteq> None \<longrightarrow>
      DBNNode_validate_node n s = Inr ((OK, ''''), n, s))"
proof (intro conjI impI allI)
  assume h: "inputs (options n) MEAN = None \<or> inputs (options n) INV_VARIANCE = None"
  show "\<exists>f. DBNNode_infer_properties_node n s = Inl f"
    by (rule not_Inr_Inl) (use h DBNNode_infer_Inr_pointers[of n s] in blast)
  from h show "DBNNode_assign_uids_node n s = Inl NullPointerDereference"
    by (rule DBNNode_assign_uids_None)
  show "\<exists>f. DBNNode_createOperations bk n s = Inl f"
    by (rule not_Inr_Inl) (use h DBNNode_createOperations_Inr_pointers[of bk n s] in blast)
  fix e n' s' assume "DBNNode_createTensors bk n s = Inr (e, n', s')"
  with h DBNNode_createTensors_OK_pointers[of bk n s e n' s'] show "fst e \<noteq> OK" by blast
next
  assume "inputs (options n) MEAN = None"
  then show "DBNNode_infer_properties_node n s = Inl NullPointerDereference"
    by (rule DBNNode_infer_MEAN_None)
next
  assume "inputs (options n) MEAN = None \<and> inputs (options n) INV_VARIANCE = None \<and>
    inputs (options n) EPSILON \<noteq> None"
  then show "DBNNode_validate_node n s = Inr ((OK, ''''), n, s)"
    by (simp add: DBNNode_validate_node_def)
qed

theorem DBNNode_stages_require_MEAN_and_INV_VARIANCE_witness:
  "inputs (options dbn_epsilon_only_example) MEAN = None \<and>
   inputs (options dbn_epsilon_only_example) INV_VARIANCE = None \<and>
   inputs (options dbn_epsilon_only_example) EPSILON \<noteq> None \<and>
   DBNNode_validate_node dbn_epsilon_only_example dbn_example_store =
     Inr ((OK, ''''), dbn_epsilon_only_example, dbn_example_store) \<and>
   DBNNode_infer_properties_node dbn_epsilon_only_example dbn_example_store = Inl NullPointerDereference \<and>
   DBNNode_assign_uids_node dbn_epsilon_only_example dbn_example_store = Inl NullPointerDereference \<and>
   (\<exists>f. DBNNode_createOperations accept_all dbn_epsilon_only_example dbn_example_store = Inl f)"
proof -
  have h: "inputs (options dbn_epsilon_only_example) MEAN = None"
    "inputs (options dbn_epsilon_only_example) INV_VARIANCE = None"
    "inputs (options dbn_epsilon_only_example) EPSILON \<noteq> None"
    by (simp_all add: dbn_epsilon_only_example_def dbn_example_def no_tensor_def)
  from DBNNode_stages_require_MEAN_and_INV_VARIANCE
         [of dbn_epsilon_only_example dbn_example_store accept_all] h
  show ?thesis by blast
qed

end
